theory Spec2Isabelle
  imports Complex_Main "HOL-Library.Word"
begin

section \<open>Scattering functions of \<open>src/pbrt/bxdfs.cpp\<close>\<close>

text \<open>
  A shallow embedding of the scattering models, the tensor loader and the measured-data
  resource of \<open>bxdfs.cpp\<close>. Every C++ function of the file that a property below talks
  about is one definition here, with the statements of the source in their order.

  \<^item> \<open>Float\<close> is modelled by \<open>real\<close>: sums, products and the transcendental functions
    are exact. Where the source guards a division (\<open>if (AbsCosTheta(wi) > 0)\<close>) the guard
    is in the model; an unguarded quotient inside a formula is HOL's total division.
    The weight and the density of a \<open>BSDFSample\<close> are the exception: they are IEEE
    values (\<open>fval\<close>: finite, infinite, not a number), because the source can divide a
    weight by a cosine that is zero.
  \<^item> A fatal exit (\<open>CHECK\<close>, \<open>ErrorExit\<close>) is the left summand of a result; a
    \<open>pstd::optional\<close> is an \<open>option\<close>; a null pointer is \<open>None\<close>.
  \<^item> Functions that the file calls and that are declared in headers outside the sources
    at hand (\<open>Mp\<close>, \<open>Np\<close>, \<open>Phi\<close>, \<open>Ap\<close>, \<open>FrDielectric\<close>, \<open>Refract\<close>, the microfacet
    distribution, the piecewise-linear interpolants) are parameters, collected in
    records of functions.
\<close>

subsection \<open>Numbers, vectors, flags\<close>

datatype fatal = CHECK_failed | ErrorExit string

text \<open>
  The value of an IEEE expression whose real-number reading may divide by zero. The sign
  of an infinity is not tracked.
\<close>

datatype fval = Fin real | Infty | NaN

fun fdiv :: "fval \<Rightarrow> fval \<Rightarrow> fval" where
  "fdiv NaN _ = NaN"
| "fdiv _ NaN = NaN"
| "fdiv Infty Infty = NaN"
| "fdiv Infty (Fin b) = Infty"
| "fdiv (Fin a) Infty = Fin 0"
| "fdiv (Fin a) (Fin b) = (if b = 0 then (if a = 0 then NaN else Infty) else Fin (a / b))"

fun fmul :: "fval \<Rightarrow> fval \<Rightarrow> fval" where
  "fmul NaN _ = NaN"
| "fmul _ NaN = NaN"
| "fmul Infty Infty = Infty"
| "fmul Infty (Fin b) = (if b = 0 then NaN else Infty)"
| "fmul (Fin a) Infty = (if a = 0 then NaN else Infty)"
| "fmul (Fin a) (Fin b) = Fin (a * b)"

fun fabs :: "fval \<Rightarrow> fval" where
  "fabs (Fin a) = Fin \<bar>a\<bar>"
| "fabs Infty = Infty"
| "fabs NaN = NaN"

definition IsNaN :: "fval \<Rightarrow> bool" where
  "IsNaN a = (a = NaN)"

definition is_finite :: "fval \<Rightarrow> bool" where
  "is_finite a = (case a of Fin _ \<Rightarrow> True | _ \<Rightarrow> False)"

text \<open>
  Modelled from the spec: the helpers of the maths and vector headers
  (\<open>pbrt/util/math.h\<close>, \<open>pbrt/util/vecmath.h\<close>), which are not among the sources. The spec
  names them by what they compute: squares, square roots and arcsines clamped to their
  domain, \<open>atan2(z, y)\<close> for the azimuth, the local frame with \<open>z\<close> the macro-normal, the
  mirror direction and the normalised half-vector.
\<close>

definition Sqr :: "real \<Rightarrow> real" where
  "Sqr a = a * a"

definition SafeSqrt :: "real \<Rightarrow> real" where
  "SafeSqrt a = sqrt (max 0 a)"

definition SafeASin :: "real \<Rightarrow> real" where
  "SafeASin a = arcsin (min 1 (max (- 1) a))"

definition Radians :: "real \<Rightarrow> real" where
  "Radians deg = (pi / 180) * deg"

definition RadiansToDegrees :: "real \<Rightarrow> real" where
  "RadiansToDegrees radians = radians * 180 / pi"

text \<open>
  \<open>std::atan2(b, a)\<close> of the C library. Where an argument is zero its value depends on
  the sign of that zero, which a real number does not carry, so \<open>atan2_signbit\<close> takes
  \<open>signbit(b)\<close> and \<open>signbit(a)\<close> beside the two numbers and reads them only at a zero:
  \<open>atan2(+0, -0) = pi\<close>, \<open>atan2(-0, -0) = -pi\<close>, \<open>atan2(+0, a) = pi\<close> and
  \<open>atan2(-0, a) = -pi\<close> for \<open>a < 0\<close>, and a zero of the sign of \<open>b\<close> for \<open>b = 0\<close> and
  \<open>a > 0\<close> or \<open>a = +0\<close>. The numbers of this theory are reals and their zero stands for
  \<open>+0\<close>: \<open>atan2\<close> is the library function on arguments without a negative zero. A
  direction with a negative zero among its components is outside the functions below;
  there the library returns an azimuth that differs from \<open>atan2\<close> by \<open>2 pi\<close> (for
  \<open>b = -0\<close>, \<open>a < 0\<close>) or by \<open>pi\<close> (for \<open>a = -0\<close>, \<open>b\<close> a zero).
\<close>

definition atan2_signbit :: "bool \<Rightarrow> bool \<Rightarrow> real \<Rightarrow> real \<Rightarrow> real" where
  "atan2_signbit nb na b a =
     (if 0 < a then arctan (b / a)
      else if a < 0
      then (if 0 < b \<or> (b = 0 \<and> \<not> nb) then arctan (b / a) + pi else arctan (b / a) - pi)
      else if 0 < b then pi / 2
      else if b < 0 then - (pi / 2)
      else if na then (if nb then - pi else pi)
      else 0)"

definition atan2 :: "real \<Rightarrow> real \<Rightarrow> real" where
  "atan2 b a = atan2_signbit False False b a"

text \<open>\<open>std::round\<close>: to the nearest integer, halves away from zero.\<close>

definition c_round :: "real \<Rightarrow> int" where
  "c_round a = (if 0 \<le> a then \<lfloor>a + 1 / 2\<rfloor> else - \<lfloor>- a + 1 / 2\<rfloor>)"

datatype Vector3f = Vector3f (vx: real) (vy: real) (vz: real)

type_synonym Point2f = "real \<times> real"

definition vneg :: "Vector3f \<Rightarrow> Vector3f" where
  "vneg a = Vector3f (- vx a) (- vy a) (- vz a)"

definition vadd :: "Vector3f \<Rightarrow> Vector3f \<Rightarrow> Vector3f" where
  "vadd a b = Vector3f (vx a + vx b) (vy a + vy b) (vz a + vz b)"

definition vscale :: "Vector3f \<Rightarrow> real \<Rightarrow> Vector3f" where
  "vscale a c = Vector3f (vx a * c) (vy a * c) (vz a * c)"

definition Dot :: "Vector3f \<Rightarrow> Vector3f \<Rightarrow> real" where
  "Dot a b = vx a * vx b + vy a * vy b + vz a * vz b"

definition AbsDot :: "Vector3f \<Rightarrow> Vector3f \<Rightarrow> real" where
  "AbsDot a b = \<bar>Dot a b\<bar>"

definition LengthSquared :: "Vector3f \<Rightarrow> real" where
  "LengthSquared a = Sqr (vx a) + Sqr (vy a) + Sqr (vz a)"

definition Length :: "Vector3f \<Rightarrow> real" where
  "Length a = sqrt (LengthSquared a)"

definition Normalize :: "Vector3f \<Rightarrow> Vector3f" where
  "Normalize a = Vector3f (vx a / Length a) (vy a / Length a) (vz a / Length a)"

definition FaceForward :: "Vector3f \<Rightarrow> Vector3f \<Rightarrow> Vector3f" where
  "FaceForward a n = (if Dot a n < 0 then vneg a else a)"

definition Reflect :: "Vector3f \<Rightarrow> Vector3f \<Rightarrow> Vector3f" where
  "Reflect wo n = vadd (vneg wo) (vscale n (2 * Dot wo n))"

definition CosTheta :: "Vector3f \<Rightarrow> real" where
  "CosTheta w = vz w"

definition AbsCosTheta :: "Vector3f \<Rightarrow> real" where
  "AbsCosTheta w = \<bar>vz w\<bar>"

definition SameHemisphere :: "Vector3f \<Rightarrow> Vector3f \<Rightarrow> bool" where
  "SameHemisphere w wp = (0 < vz w * vz wp)"

text \<open>
  Modelled from the spec (section 3): \<open>SampleFilter\<close> is a bit-set over Reflection and
  Transmission, \<open>ScatteringFlags\<close> a bit-set over five bits, \<open>TransportMode\<close> an enum of
  two, and a \<open>ScatterSample\<close> holds the weight, the direction, the density, the flags of
  the chosen lobe and an optional relative index. A bit-set is a set of bits; the test
  \<open>flags & bit\<close> is membership.
\<close>

datatype BxDFReflTransFlag = ReflTrans_Reflection | ReflTrans_Transmission

type_synonym BxDFReflTransFlags = "BxDFReflTransFlag set"

datatype BxDFFlag = Reflection | Transmission | Diffuse | Glossy | Specular

type_synonym BxDFFlags = "BxDFFlag set"

definition SpecularReflection :: BxDFFlags where
  "SpecularReflection = {Specular, Reflection}"

definition SpecularTransmission :: BxDFFlags where
  "SpecularTransmission = {Specular, Transmission}"

definition GlossyReflection :: BxDFFlags where
  "GlossyReflection = {Glossy, Reflection}"

definition GlossyTransmission :: BxDFFlags where
  "GlossyTransmission = {Glossy, Transmission}"

datatype TransportMode = Radiance | Importance

text \<open>A \<open>SampledSpectrum\<close>: one value per wavelength sample, read by index.\<close>

type_synonym SampledSpectrum = "nat \<Rightarrow> real"

record BSDFSample =
  bs_f :: "nat \<Rightarrow> fval"
  bs_wi :: Vector3f
  bs_pdf :: fval
  bs_flags :: BxDFFlags
  bs_eta :: "real option"

subsection \<open>The hair model: \<open>HairBxDF\<close>\<close>

text \<open>
  The functions and constants of the class that the header declares: the number of lobes
  \<open>pMax\<close> (the constructor asserts \<open>pMax >= 3\<close>), the number of wavelength samples, the
  longitudinal and azimuthal lobe functions \<open>Mp\<close> and \<open>Np\<close>, the phase \<open>Phi\<close>, the
  attenuations \<open>Ap\<close> (an array of \<open>pMax + 1\<close> spectra, read by index), the discrete and
  the logistic sampling routines, and \<open>Flags()\<close>.
\<close>

record HairHelpers =
  pMax :: nat
  NSpectrumSamples :: nat
  Mp :: "real \<Rightarrow> real \<Rightarrow> real \<Rightarrow> real \<Rightarrow> real \<Rightarrow> real"
  Np :: "real \<Rightarrow> nat \<Rightarrow> real \<Rightarrow> real \<Rightarrow> real \<Rightarrow> real"
  Phi :: "nat \<Rightarrow> real \<Rightarrow> real \<Rightarrow> real"
  Ap :: "real \<Rightarrow> real \<Rightarrow> real \<Rightarrow> SampledSpectrum \<Rightarrow> nat \<Rightarrow> SampledSpectrum"
  SampleDiscrete :: "real list \<Rightarrow> real \<Rightarrow> nat \<times> real"
  SampleTrimmedLogistic :: "real \<Rightarrow> real \<Rightarrow> real \<Rightarrow> real \<Rightarrow> real"
  FastExp :: "real \<Rightarrow> real"
  Flags :: BxDFFlags

text \<open>The members of a \<open>HairBxDF\<close>; the arrays \<open>v\<close>, \<open>sin2kAlpha\<close>, \<open>cos2kAlpha\<close> by index.\<close>

record HairBxDF =
  hair_h :: real
  hair_eta :: real
  hair_sigma_a :: SampledSpectrum
  hair_beta_m :: real
  hair_beta_n :: real
  hair_v :: "nat \<Rightarrow> real"
  hair_s :: real
  hair_sin2kAlpha :: "nat \<Rightarrow> real"
  hair_cos2kAlpha :: "nat \<Rightarrow> real"

definition Average :: "HairHelpers \<Rightarrow> SampledSpectrum \<Rightarrow> real" where
  "Average H a = fold (\<lambda>i acc. acc + a i) [0..<NSpectrumSamples H] 0 / real (NSpectrumSamples H)"

text \<open>The constructor: three \<open>CHECK\<close>s, then the derived members.\<close>

definition HairBxDF_new ::
  "HairHelpers \<Rightarrow> real \<Rightarrow> real \<Rightarrow> SampledSpectrum \<Rightarrow> real \<Rightarrow> real \<Rightarrow> real \<Rightarrow> fatal + HairBxDF" where
  "HairBxDF_new H h e sigma_a beta_m beta_n alpha =
     (if \<not> (- 1 \<le> h \<and> h \<le> 1) then Inl CHECK_failed
      else if \<not> (0 \<le> beta_m \<and> beta_m \<le> 1) then Inl CHECK_failed
      else if \<not> (0 \<le> beta_n \<and> beta_n \<le> 1) then Inl CHECK_failed
      else
        let v = (\<lambda>_. 0);
            v = v(0 := Sqr (0.726 * beta_m + 0.812 * Sqr beta_m + 3.7 * beta_m ^ 20));
            v = v(1 := 0.25 * v 0);
            v = v(2 := 4 * v 0);
            v = fold (\<lambda>p v. v(p := v 2)) [3..<pMax H + 1] v;
            SqrtPiOver8 = 0.626657069;
            s = SqrtPiOver8 * (0.265 * beta_n + 1.194 * Sqr beta_n + 5.372 * beta_n ^ 22);
            sin2kAlpha = (\<lambda>_. 0);
            cos2kAlpha = (\<lambda>_. 0);
            sin2kAlpha = sin2kAlpha(0 := sin (Radians alpha));
            cos2kAlpha = cos2kAlpha(0 := SafeSqrt (1 - Sqr (sin2kAlpha 0)));
            (sin2kAlpha, cos2kAlpha) =
               fold (\<lambda>i (sn, cs).
                       (sn(i := 2 * cs (i - 1) * sn (i - 1)),
                        cs(i := Sqr (cs (i - 1)) - Sqr (sn (i - 1)))))
                    [1..<pMax H] (sin2kAlpha, cos2kAlpha)
        in Inr \<lparr>hair_h = h, hair_eta = e, hair_sigma_a = sigma_a, hair_beta_m = beta_m,
                hair_beta_n = beta_n, hair_v = v, hair_s = s,
                hair_sin2kAlpha = sin2kAlpha, hair_cos2kAlpha = cos2kAlpha\<rparr>)"

text \<open>\<open>HairBxDF::f\<close>. The transport mode is a parameter that the body never reads.\<close>

definition HairBxDF_f ::
  "HairHelpers \<Rightarrow> HairBxDF \<Rightarrow> Vector3f \<Rightarrow> Vector3f \<Rightarrow> TransportMode \<Rightarrow> SampledSpectrum" where
  "HairBxDF_f H b wo wi mode =
     (let sinTheta_o = vx wo;
          cosTheta_o = SafeSqrt (1 - Sqr sinTheta_o);
          phi_o = atan2 (vz wo) (vy wo);
          gamma_o = SafeASin (hair_h b);
          sinTheta_i = vx wi;
          cosTheta_i = SafeSqrt (1 - Sqr sinTheta_i);
          phi_i = atan2 (vz wi) (vy wi);
          sinTheta_t = sinTheta_o / hair_eta b;
          cosTheta_t = SafeSqrt (1 - Sqr sinTheta_t);
          etap = SafeSqrt (Sqr (hair_eta b) - Sqr sinTheta_o) / cosTheta_o;
          sinGamma_t = hair_h b / etap;
          cosGamma_t = SafeSqrt (1 - Sqr sinGamma_t);
          gamma_t = SafeASin sinGamma_t;
          T = (\<lambda>i. exp (- hair_sigma_a b i * (2 * cosGamma_t / cosTheta_t)));
          phi = phi_i - phi_o;
          ap = Ap H cosTheta_o (hair_eta b) (hair_h b) T;
          fsum = (\<lambda>_. 0);
          fsum = fold (\<lambda>p fsum.
                   let (sinThetap_o, cosThetap_o) =
                         (if p = 0 then
                            (sinTheta_o * hair_cos2kAlpha b 1 - cosTheta_o * hair_sin2kAlpha b 1,
                             cosTheta_o * hair_cos2kAlpha b 1 + sinTheta_o * hair_sin2kAlpha b 1)
                          else if p = 1 then
                            (sinTheta_o * hair_cos2kAlpha b 0 + cosTheta_o * hair_sin2kAlpha b 0,
                             cosTheta_o * hair_cos2kAlpha b 0 - sinTheta_o * hair_sin2kAlpha b 0)
                          else if p = 2 then
                            (sinTheta_o * hair_cos2kAlpha b 2 + cosTheta_o * hair_sin2kAlpha b 2,
                             cosTheta_o * hair_cos2kAlpha b 2 - sinTheta_o * hair_sin2kAlpha b 2)
                          else (sinTheta_o, cosTheta_o));
                       cosThetap_o = \<bar>cosThetap_o\<bar>
                   in (\<lambda>i. fsum i +
                         Mp H cosTheta_i cosThetap_o sinTheta_i sinThetap_o (hair_v b p) * ap p i *
                         Np H phi p (hair_s b) gamma_o gamma_t))
                 [0..<pMax H] fsum;
          fsum = (\<lambda>i. fsum i +
                    Mp H cosTheta_i cosTheta_o sinTheta_i sinTheta_o (hair_v b (pMax H)) *
                    ap (pMax H) i / (2 * pi));
          fsum = (if 0 < AbsCosTheta wi then (\<lambda>i. fsum i / AbsCosTheta wi) else fsum)
      in fsum)"

text \<open>\<open>HairBxDF::ApPDF\<close>: the array of \<open>pMax + 1\<close> lobe probabilities.\<close>

definition ApPDF :: "HairHelpers \<Rightarrow> HairBxDF \<Rightarrow> real \<Rightarrow> real list" where
  "ApPDF H b cosTheta_o =
     (let sinTheta_o = SafeSqrt (1 - Sqr cosTheta_o);
          sinTheta_t = sinTheta_o / hair_eta b;
          cosTheta_t = SafeSqrt (1 - Sqr sinTheta_t);
          etap = SafeSqrt (Sqr (hair_eta b) - Sqr sinTheta_o) / cosTheta_o;
          sinGamma_t = hair_h b / etap;
          cosGamma_t = SafeSqrt (1 - Sqr sinGamma_t);
          gamma_t = SafeASin sinGamma_t;
          T = (\<lambda>i. exp (- hair_sigma_a b i * (2 * cosGamma_t / cosTheta_t)));
          ap = Ap H cosTheta_o (hair_eta b) (hair_h b) T;
          sumY = fold (\<lambda>i sumY. sumY + Average H (ap i)) [0..<pMax H + 1] 0
      in map (\<lambda>i. Average H (ap i) / sumY) [0..<pMax H + 1])"

text \<open>
  \<open>HairBxDF::Sample_f\<close>. \<open>SampleDiscrete\<close> returns the lobe index and the remapped
  \<open>uc\<close>. The sample filter is a parameter that the body never reads, and every path
  ends in a \<open>BSDFSample\<close>.
\<close>

definition HairBxDF_Sample_f ::
  "HairHelpers \<Rightarrow> HairBxDF \<Rightarrow> Vector3f \<Rightarrow> real \<Rightarrow> Point2f \<Rightarrow> TransportMode \<Rightarrow>
   BxDFReflTransFlags \<Rightarrow> BSDFSample option" where
  "HairBxDF_Sample_f H b wo uc u mode sampleFlags =
     (let sinTheta_o = vx wo;
          cosTheta_o = SafeSqrt (1 - Sqr sinTheta_o);
          phi_o = atan2 (vz wo) (vy wo);
          gamma_o = SafeASin (hair_h b);
          apPDF = ApPDF H b cosTheta_o;
          (p, uc) = SampleDiscrete H apPDF uc;
          (sinThetap_o, cosThetap_o) =
             (if p = 0 then
                (sinTheta_o * hair_cos2kAlpha b 1 - cosTheta_o * hair_sin2kAlpha b 1,
                 cosTheta_o * hair_cos2kAlpha b 1 + sinTheta_o * hair_sin2kAlpha b 1)
              else if p = 1 then
                (sinTheta_o * hair_cos2kAlpha b 0 + cosTheta_o * hair_sin2kAlpha b 0,
                 cosTheta_o * hair_cos2kAlpha b 0 - sinTheta_o * hair_sin2kAlpha b 0)
              else if p = 2 then
                (sinTheta_o * hair_cos2kAlpha b 2 + cosTheta_o * hair_sin2kAlpha b 2,
                 cosTheta_o * hair_cos2kAlpha b 2 - sinTheta_o * hair_sin2kAlpha b 2)
              else (sinTheta_o, cosTheta_o));
          cosThetap_o = \<bar>cosThetap_o\<bar>;
          cosTheta = 1 + hair_v b p * ln (max (fst u) (1 / 100000) +
                                          (1 - fst u) * FastExp H (- 2 / hair_v b p));
          sinTheta = SafeSqrt (1 - Sqr cosTheta);
          cosPhi = cos (2 * pi * snd u);
          sinTheta_i = - cosTheta * sinThetap_o + sinTheta * cosPhi * cosThetap_o;
          cosTheta_i = SafeSqrt (1 - Sqr sinTheta_i);
          etap = SafeSqrt (Sqr (hair_eta b) - Sqr sinTheta_o) / cosTheta_o;
          sinGamma_t = hair_h b / etap;
          cosGamma_t = SafeSqrt (1 - Sqr sinGamma_t);
          gamma_t = SafeASin sinGamma_t;
          dphi = (if p < pMax H
                  then Phi H p gamma_o gamma_t + SampleTrimmedLogistic H uc (hair_s b) (- pi) pi
                  else 2 * pi * uc);
          phi_i = phi_o + dphi;
          wi = Vector3f sinTheta_i (cosTheta_i * cos phi_i) (cosTheta_i * sin phi_i);
          pdf = 0;
          pdf = fold (\<lambda>p pdf.
                  let (sinThetap_o, cosThetap_o) =
                        (if p = 0 then
                           (sinTheta_o * hair_cos2kAlpha b 1 - cosTheta_o * hair_sin2kAlpha b 1,
                            cosTheta_o * hair_cos2kAlpha b 1 + sinTheta_o * hair_sin2kAlpha b 1)
                         else if p = 1 then
                           (sinTheta_o * hair_cos2kAlpha b 0 + cosTheta_o * hair_sin2kAlpha b 0,
                            cosTheta_o * hair_cos2kAlpha b 0 - sinTheta_o * hair_sin2kAlpha b 0)
                         else if p = 2 then
                           (sinTheta_o * hair_cos2kAlpha b 2 + cosTheta_o * hair_sin2kAlpha b 2,
                            cosTheta_o * hair_cos2kAlpha b 2 - sinTheta_o * hair_sin2kAlpha b 2)
                         else (sinTheta_o, cosTheta_o));
                      cosThetap_o = \<bar>cosThetap_o\<bar>;
                      cosThetap_o = \<bar>cosThetap_o\<bar>
                  in pdf + Mp H cosTheta_i cosThetap_o sinTheta_i sinThetap_o (hair_v b p) *
                           (apPDF ! p) * Np H dphi p (hair_s b) gamma_o gamma_t)
                [0..<pMax H] pdf;
          pdf = pdf + Mp H cosTheta_i cosTheta_o sinTheta_i sinTheta_o (hair_v b (pMax H)) *
                      (apPDF ! pMax H) * (1 / (2 * pi))
      in Some \<lparr>bs_f = (\<lambda>i. Fin (HairBxDF_f H b wo wi mode i)), bs_wi = wi, bs_pdf = Fin pdf,
                bs_flags = Flags H, bs_eta = None\<rparr>)"

text \<open>\<open>HairBxDF::PDF\<close>; the comment of the source at its head is \<open>TODO? flags...\<close>.\<close>

definition HairBxDF_PDF ::
  "HairHelpers \<Rightarrow> HairBxDF \<Rightarrow> Vector3f \<Rightarrow> Vector3f \<Rightarrow> TransportMode \<Rightarrow>
   BxDFReflTransFlags \<Rightarrow> real" where
  "HairBxDF_PDF H b wo wi mode sampleFlags =
     (let sinTheta_o = vx wo;
          cosTheta_o = SafeSqrt (1 - Sqr sinTheta_o);
          phi_o = atan2 (vz wo) (vy wo);
          gamma_o = SafeASin (hair_h b);
          sinTheta_i = vx wi;
          cosTheta_i = SafeSqrt (1 - Sqr sinTheta_i);
          phi_i = atan2 (vz wi) (vy wi);
          etap = SafeSqrt (hair_eta b * hair_eta b - Sqr sinTheta_o) / cosTheta_o;
          sinGamma_t = hair_h b / etap;
          gamma_t = SafeASin sinGamma_t;
          apPDF = ApPDF H b cosTheta_o;
          phi = phi_i - phi_o;
          pdf = 0;
          pdf = fold (\<lambda>p pdf.
                  let (sinThetap_o, cosThetap_o) =
                        (if p = 0 then
                           (sinTheta_o * hair_cos2kAlpha b 1 - cosTheta_o * hair_sin2kAlpha b 1,
                            cosTheta_o * hair_cos2kAlpha b 1 + sinTheta_o * hair_sin2kAlpha b 1)
                         else if p = 1 then
                           (sinTheta_o * hair_cos2kAlpha b 0 + cosTheta_o * hair_sin2kAlpha b 0,
                            cosTheta_o * hair_cos2kAlpha b 0 - sinTheta_o * hair_sin2kAlpha b 0)
                         else if p = 2 then
                           (sinTheta_o * hair_cos2kAlpha b 2 + cosTheta_o * hair_sin2kAlpha b 2,
                            cosTheta_o * hair_cos2kAlpha b 2 - sinTheta_o * hair_sin2kAlpha b 2)
                         else (sinTheta_o, cosTheta_o));
                      cosThetap_o = \<bar>cosThetap_o\<bar>
                  in pdf + Mp H cosTheta_i cosThetap_o sinTheta_i sinThetap_o (hair_v b p) *
                           (apPDF ! p) * Np H phi p (hair_s b) gamma_o gamma_t)
                [0..<pMax H] pdf;
          pdf = pdf + Mp H cosTheta_i cosTheta_o sinTheta_i sinTheta_o (hair_v b (pMax H)) *
                      (apPDF ! pMax H) * (1 / (2 * pi))
      in pdf)"


subsection \<open>A closed instance of the hair helpers\<close>

text \<open>
  Closed evaluations need the header's functions as values. This instance has four lobes
  (\<open>pMax = 3\<close>) and four wavelength samples; its azimuthal lobe is a normalised cosine
  bump around the phase \<open>Phi(p, gamma_o, gamma_t) = 2 p gamma_t - 2 gamma_o + p pi\<close>,
  its longitudinal lobe and its attenuations are constant, and its discrete sampler walks
  the cumulative weights as the library routine does.
\<close>

fun SampleDiscrete_walk :: "real list \<Rightarrow> real \<Rightarrow> nat \<Rightarrow> nat \<times> real" where
  "SampleDiscrete_walk [] up k = (k, 0)"
| "SampleDiscrete_walk [w] up k = (k, up / w)"
| "SampleDiscrete_walk (w # ws) up k =
     (if up < w then (k, up / w) else SampleDiscrete_walk ws (up - w) (Suc k))"

definition example_Phi :: "nat \<Rightarrow> real \<Rightarrow> real \<Rightarrow> real" where
  "example_Phi p gamma_o gamma_t = 2 * real p * gamma_t - 2 * gamma_o + real p * pi"

definition example_helpers :: HairHelpers where
  "example_helpers =
     \<lparr>pMax = 3, NSpectrumSamples = 4,
      Mp = (\<lambda>cosTheta_i cosTheta_o sinTheta_i sinTheta_o v. 1),
      Np = (\<lambda>phi p s gamma_o gamma_t. (2 + cos (phi - example_Phi p gamma_o gamma_t)) / (4 * pi)),
      Phi = example_Phi,
      Ap = (\<lambda>cosTheta_o e h T p k. 1),
      SampleDiscrete = (\<lambda>weights u. SampleDiscrete_walk weights (u * sum_list weights) 0),
      SampleTrimmedLogistic = (\<lambda>u s a b. a + u * (b - a)),
      FastExp = exp,
      Flags = GlossyReflection\<rparr>"

text \<open>
  The hair that the constructor builds from \<open>h = 0\<close>, \<open>eta = 3/2\<close>, no absorption,
  \<open>beta_m = beta_n = 1\<close> and no cuticle tilt (lemma \<open>example_hair_constructed\<close>).
\<close>

definition example_hair :: HairBxDF where
  "example_hair =
     \<lparr>hair_h = 0, hair_eta = 3 / 2, hair_sigma_a = (\<lambda>_. 0), hair_beta_m = 1, hair_beta_n = 1,
      hair_v = (\<lambda>p. if p = 0 then 27.436644 else if p = 1 then 6.859161
                    else if p = 2 \<or> p = 3 then 109.746576 else 0),
      hair_s = 0.626657069 * 6.831,
      hair_sin2kAlpha = (\<lambda>_. 0),
      hair_cos2kAlpha = (\<lambda>p. if p < 3 then 1 else 0)\<rparr>"



subsection \<open>The lobe mixture, in the words of the specification\<close>

text \<open>
  Section 4.3 of the specification describes the hair model as a weighted sum of
  \<open>pMax + 1\<close> lobes: for the lobes \<open>0..pMax-1\<close> the product of the longitudinal lobe
  function (at the scale-tilted outgoing angle of that lobe), a weight and the azimuthal
  lobe function; and a residual lobe with the variance and the weight of index \<open>pMax\<close>,
  uniform in azimuth (divided by \<open>2 pi\<close>). \<open>spec_lobe_mixture\<close> is that sum for an
  arbitrary weight per lobe; \<open>spec_tilt\<close> is the tilted pair of a lobe.
  \<open>hair_gamma_t\<close> names the refracted impact angle and \<open>HairBxDF_f_ap\<close> the array
  \<open>ap\<close> that \<open>HairBxDF::f\<close> obtains from \<open>Ap\<close>.
\<close>

definition spec_tilt :: "HairBxDF \<Rightarrow> nat \<Rightarrow> real \<Rightarrow> real \<Rightarrow> real \<times> real" where
  "spec_tilt b p sinTheta_o cosTheta_o =
     (if p = 0 then
        (sinTheta_o * hair_cos2kAlpha b 1 - cosTheta_o * hair_sin2kAlpha b 1,
         \<bar>cosTheta_o * hair_cos2kAlpha b 1 + sinTheta_o * hair_sin2kAlpha b 1\<bar>)
      else if p = 1 then
        (sinTheta_o * hair_cos2kAlpha b 0 + cosTheta_o * hair_sin2kAlpha b 0,
         \<bar>cosTheta_o * hair_cos2kAlpha b 0 - sinTheta_o * hair_sin2kAlpha b 0\<bar>)
      else if p = 2 then
        (sinTheta_o * hair_cos2kAlpha b 2 + cosTheta_o * hair_sin2kAlpha b 2,
         \<bar>cosTheta_o * hair_cos2kAlpha b 2 - sinTheta_o * hair_sin2kAlpha b 2\<bar>)
      else (sinTheta_o, \<bar>cosTheta_o\<bar>))"

definition spec_lobe_mixture ::
  "HairHelpers \<Rightarrow> HairBxDF \<Rightarrow> (nat \<Rightarrow> real) \<Rightarrow> real \<Rightarrow> real \<Rightarrow> real \<Rightarrow> real \<Rightarrow> real \<Rightarrow> real \<Rightarrow> real \<Rightarrow> real" where
  "spec_lobe_mixture H b w sinTheta_o cosTheta_o sinTheta_i cosTheta_i phi gamma_o gamma_t =
     sum_list (map (\<lambda>p. Mp H cosTheta_i (snd (spec_tilt b p sinTheta_o cosTheta_o)) sinTheta_i
                            (fst (spec_tilt b p sinTheta_o cosTheta_o)) (hair_v b p) *
                         w p * Np H phi p (hair_s b) gamma_o gamma_t)
                   [0..<pMax H])
     + Mp H cosTheta_i cosTheta_o sinTheta_i sinTheta_o (hair_v b (pMax H)) * w (pMax H) / (2 * pi)"

definition hair_gamma_t :: "HairBxDF \<Rightarrow> Vector3f \<Rightarrow> real" where
  "hair_gamma_t b wo =
     SafeASin (hair_h b / (SafeSqrt (Sqr (hair_eta b) - Sqr (vx wo)) / SafeSqrt (1 - Sqr (vx wo))))"

definition HairBxDF_f_ap :: "HairHelpers \<Rightarrow> HairBxDF \<Rightarrow> Vector3f \<Rightarrow> nat \<Rightarrow> SampledSpectrum" where
  "HairBxDF_f_ap H b wo =
     (let sinTheta_o = vx wo;
          cosTheta_o = SafeSqrt (1 - Sqr sinTheta_o);
          sinTheta_t = sinTheta_o / hair_eta b;
          cosTheta_t = SafeSqrt (1 - Sqr sinTheta_t);
          etap = SafeSqrt (Sqr (hair_eta b) - Sqr sinTheta_o) / cosTheta_o;
          sinGamma_t = hair_h b / etap;
          cosGamma_t = SafeSqrt (1 - Sqr sinGamma_t);
          T = (\<lambda>i. exp (- hair_sigma_a b i * (2 * cosGamma_t / cosTheta_t)))
      in Ap H cosTheta_o (hair_eta b) (hair_h b) T)"

subsection \<open>The table-driven hair variant: \<open>MorphoBSDF\<close>\<close>

text \<open>
  \<open>MorphoBSDF\<close> derives from \<open>HairBxDF\<close> and adds a wavelength index. The global table
  \<open>CurrentBRDFTable\<close> of \<open>table/brdfTable.h\<close> is a parameter, read at the two rounded
  angles in degrees and the wavelength sample.
\<close>

record MorphoBSDF = HairBxDF +
  wavelengthIndex :: int

type_synonym BRDFTable = "nat \<Rightarrow> nat \<Rightarrow> nat \<Rightarrow> real"

definition MorphoBSDF_f ::
  "HairHelpers \<Rightarrow> BRDFTable \<Rightarrow> MorphoBSDF \<Rightarrow> Vector3f \<Rightarrow> Vector3f \<Rightarrow> TransportMode \<Rightarrow>
   SampledSpectrum" where
  "MorphoBSDF_f H CurrentBRDFTable b wo wi mode =
     (let sinTheta_o = vx wo;
          cosTheta_o = SafeSqrt (1 - Sqr sinTheta_o);
          phi_o = atan2 (vz wo) (vy wo);
          gamma_o = SafeASin (hair_h b);
          sinTheta_i = vx wi;
          cosTheta_i = SafeSqrt (1 - Sqr sinTheta_i);
          phi_i = atan2 (vz wi) (vy wi);
          sinTheta_t = sinTheta_o / hair_eta b;
          cosTheta_t = SafeSqrt (1 - Sqr sinTheta_t);
          etap = SafeSqrt (Sqr (hair_eta b) - Sqr sinTheta_o) / cosTheta_o;
          sinGamma_t = hair_h b / etap;
          cosGamma_t = SafeSqrt (1 - Sqr sinGamma_t);
          gamma_t = SafeASin sinGamma_t;
          it = nat \<bar>c_round (atan2 (vx wi) (sqrt (vy wi * vy wi + vz wi * vz wi)) * 180 / pi)\<bar>;
          ot = nat \<bar>c_round (atan2 (vx wo) (sqrt (vy wo * vy wo + vz wo * vz wo)) * 180 / pi)\<bar>;
          fsum = (\<lambda>_. 0);
          fsum = (\<lambda>i. if i < NSpectrumSamples H then CurrentBRDFTable it ot i / 2.5 else fsum i);
          T = (\<lambda>i. exp (- hair_sigma_a b i * (2 * cosGamma_t / cosTheta_t)));
          fsum = (\<lambda>i. fsum i * T i)
      in fsum)"

definition LookupBRDFTable :: "HairHelpers \<Rightarrow> BRDFTable \<Rightarrow> nat \<Rightarrow> nat \<Rightarrow> SampledSpectrum" where
  "LookupBRDFTable H CurrentBRDFTable it ot =
     (let reflection = (\<lambda>_. 0)
      in (\<lambda>i. if i < NSpectrumSamples H then CurrentBRDFTable it ot i / 2.5 else reflection i))"

definition ComputeApPdf :: "HairHelpers \<Rightarrow> MorphoBSDF \<Rightarrow> real \<Rightarrow> Vector3f \<Rightarrow> real list" where
  "ComputeApPdf H b cosTheta_o wo =
     (let sinTheta_o = SafeSqrt (1 - cosTheta_o * cosTheta_o);
          sinTheta_t = sinTheta_o / hair_eta b;
          cosTheta_t = SafeSqrt (1 - Sqr sinTheta_t);
          etap = SafeSqrt (Sqr (hair_eta b) - Sqr sinTheta_o) / cosTheta_o;
          sinGamma_t = hair_h b / etap;
          cosGamma_t = SafeSqrt (1 - Sqr sinGamma_t);
          T = (\<lambda>i. exp (- hair_sigma_a b i * (2 * cosGamma_t / cosTheta_t)));
          ap = Ap H cosTheta_o (hair_eta b) (hair_h b) T;
          sumY = fold (\<lambda>i sumY. sumY + Average H (ap i)) [0..<pMax H + 1] 0
      in map (\<lambda>i. Average H (ap i) / sumY) [0..<pMax H + 1])"

text \<open>
  \<open>MorphoBSDF::Sample_f\<close>. The table value \<open>brdfSample\<close> is computed and not used; the
  loop of the density does not take the absolute value of the tilted cosine.
\<close>

definition MorphoBSDF_Sample_f ::
  "HairHelpers \<Rightarrow> BRDFTable \<Rightarrow> MorphoBSDF \<Rightarrow> Vector3f \<Rightarrow> real \<Rightarrow> Point2f \<Rightarrow> TransportMode \<Rightarrow>
   BxDFReflTransFlags \<Rightarrow> BSDFSample option" where
  "MorphoBSDF_Sample_f H CurrentBRDFTable b wo uc u mode sampleFlags =
     (let sinTheta_o = vx wo;
          cosTheta_o = SafeSqrt (1 - Sqr sinTheta_o);
          phi_o = atan2 (vz wo) (vy wo);
          gamma_o = SafeASin (hair_h b);
          apPdf = ComputeApPdf H b cosTheta_o wo;
          (p, uc) = SampleDiscrete H apPdf uc;
          (sinThetap_o, cosThetap_o) =
             (if p = 0 then
                (sinTheta_o * hair_cos2kAlpha b 1 - cosTheta_o * hair_sin2kAlpha b 1,
                 cosTheta_o * hair_cos2kAlpha b 1 + sinTheta_o * hair_sin2kAlpha b 1)
              else if p = 1 then
                (sinTheta_o * hair_cos2kAlpha b 0 + cosTheta_o * hair_sin2kAlpha b 0,
                 cosTheta_o * hair_cos2kAlpha b 0 - sinTheta_o * hair_sin2kAlpha b 0)
              else if p = 2 then
                (sinTheta_o * hair_cos2kAlpha b 2 + cosTheta_o * hair_sin2kAlpha b 2,
                 cosTheta_o * hair_cos2kAlpha b 2 - sinTheta_o * hair_sin2kAlpha b 2)
              else (sinTheta_o, cosTheta_o));
          it = nat \<bar>c_round (atan2 (vx wo) cosTheta_o * 180 / pi)\<bar>;
          ot = nat \<bar>c_round (atan2 sinThetap_o cosThetap_o * 180 / pi)\<bar>;
          brdfSample = LookupBRDFTable H CurrentBRDFTable it ot;
          cosTheta = 1 + hair_v b p * ln (max (fst u) (1 / 100000) +
                                          (1 - fst u) * FastExp H (- 2 / hair_v b p));
          sinTheta = SafeSqrt (1 - Sqr cosTheta);
          cosPhi = cos (2 * pi * snd u);
          sinTheta_i = - cosTheta * sinThetap_o + sinTheta * cosPhi * cosThetap_o;
          cosTheta_i = SafeSqrt (1 - Sqr sinTheta_i);
          dphi = (if p < pMax H
                  then Phi H p gamma_o gamma_o + SampleTrimmedLogistic H uc (hair_s b) (- pi) pi
                  else 2 * pi * uc);
          phi_i = phi_o + dphi;
          wi = Vector3f sinTheta_i (cosTheta_i * cos phi_i) (cosTheta_i * sin phi_i);
          pdf = 0;
          pdf = fold (\<lambda>p pdf.
                  let (sinThetap_o, cosThetap_o) =
                        (if p = 0 then
                           (sinTheta_o * hair_cos2kAlpha b 1 - cosTheta_o * hair_sin2kAlpha b 1,
                            cosTheta_o * hair_cos2kAlpha b 1 + sinTheta_o * hair_sin2kAlpha b 1)
                         else if p = 1 then
                           (sinTheta_o * hair_cos2kAlpha b 0 + cosTheta_o * hair_sin2kAlpha b 0,
                            cosTheta_o * hair_cos2kAlpha b 0 - sinTheta_o * hair_sin2kAlpha b 0)
                         else if p = 2 then
                           (sinTheta_o * hair_cos2kAlpha b 2 + cosTheta_o * hair_sin2kAlpha b 2,
                            cosTheta_o * hair_cos2kAlpha b 2 - sinTheta_o * hair_sin2kAlpha b 2)
                         else (sinTheta_o, cosTheta_o))
                  in pdf + Mp H cosTheta_i cosThetap_o sinTheta_i sinThetap_o (hair_v b p) *
                           (apPdf ! p) * Np H dphi p (hair_s b) gamma_o gamma_o)
                [0..<pMax H] pdf;
          pdf = pdf + Mp H cosTheta_i cosTheta_o sinTheta_i sinTheta_o (hair_v b (pMax H)) *
                      (apPdf ! pMax H) * (1 / (2 * pi))
      in Some \<lparr>bs_f = (\<lambda>i. Fin (MorphoBSDF_f H CurrentBRDFTable b wo wi mode i)), bs_wi = wi,
                bs_pdf = Fin pdf, bs_flags = Flags H, bs_eta = None\<rparr>)"

text \<open>
  \<open>MorphoBSDF::Pdf\<close>. Inside the loop the name \<open>Mp\<close> is the spectrum read from the table
  (it hides the lobe function); after the loop \<open>Mp\<close> is the lobe function again.
\<close>

definition MorphoBSDF_Pdf ::
  "HairHelpers \<Rightarrow> BRDFTable \<Rightarrow> MorphoBSDF \<Rightarrow> Vector3f \<Rightarrow> Vector3f \<Rightarrow> TransportMode \<Rightarrow>
   BxDFReflTransFlags \<Rightarrow> real" where
  "MorphoBSDF_Pdf H CurrentBRDFTable b wo wi mode sampleFlags =
     (let sinTheta_o = vx wo;
          cosTheta_o = SafeSqrt (1 - Sqr sinTheta_o);
          phi_o = atan2 (vz wo) (vy wo);
          gamma_o = SafeASin (hair_h b);
          sinTheta_i = vx wi;
          cosTheta_i = SafeSqrt (1 - Sqr sinTheta_i);
          phi_i = atan2 (vz wi) (vy wi);
          etap = SafeSqrt (Sqr (hair_eta b) - Sqr sinTheta_o) / cosTheta_o;
          sinGamma_t = hair_h b / etap;
          gamma_t = SafeASin sinGamma_t;
          apPDF = ComputeApPdf H b cosTheta_o wo;
          phi = phi_i - phi_o;
          pdf = 0;
          pdf = fold (\<lambda>p pdf.
                  let (sinThetap_o, cosThetap_o) =
                        (if p = 0 then
                           (sinTheta_o * hair_cos2kAlpha b 1 - cosTheta_o * hair_sin2kAlpha b 1,
                            cosTheta_o * hair_cos2kAlpha b 1 + sinTheta_o * hair_sin2kAlpha b 1)
                         else if p = 1 then
                           (sinTheta_o * hair_cos2kAlpha b 0 + cosTheta_o * hair_sin2kAlpha b 0,
                            cosTheta_o * hair_cos2kAlpha b 0 - sinTheta_o * hair_sin2kAlpha b 0)
                         else if p = 2 then
                           (sinTheta_o * hair_cos2kAlpha b 2 + cosTheta_o * hair_sin2kAlpha b 2,
                            cosTheta_o * hair_cos2kAlpha b 2 - sinTheta_o * hair_sin2kAlpha b 2)
                         else (sinTheta_o, cosTheta_o));
                      it = nat \<bar>c_round (RadiansToDegrees (atan2 (vx wi) cosTheta_i))\<bar>;
                      ot = nat \<bar>c_round (RadiansToDegrees (atan2 (vx wo) cosTheta_o))\<bar>;
                      Mp_table = LookupBRDFTable H CurrentBRDFTable it ot
                  in pdf + Average H Mp_table * (apPDF ! p) * Np H phi p (hair_s b) gamma_o gamma_t)
                [0..<pMax H] pdf;
          pdf = pdf + Mp H cosTheta_i cosTheta_o sinTheta_i sinTheta_o (hair_v b (pMax H)) *
                      (apPDF ! pMax H) * (1 / (2 * pi))
      in pdf)"

text \<open>
  The helpers with both impact angles of \<open>Np\<close> and \<open>Phi\<close> pinned to one angle \<open>g\<close>: a
  function whose result does not change under \<open>pin_impact_angles g\<close> passes \<open>g\<close> for both
  impact angles in every call of the two helpers that its result depends on.
\<close>

definition pin_impact_angles :: "real \<Rightarrow> HairHelpers \<Rightarrow> HairHelpers" where
  "pin_impact_angles g H =
     H\<lparr>Np := (\<lambda>phi p s gamma_o gamma_t. Np H phi p s g g),
       Phi := (\<lambda>p gamma_o gamma_t. Phi H p g g)\<rparr>"

text \<open>A fibre hit at its edge (\<open>h = 1\<close>) with index 2, and a table that is 5/2 everywhere.\<close>

definition example_morpho :: MorphoBSDF where
  "example_morpho =
     \<lparr>hair_h = 1, hair_eta = 2, hair_sigma_a = (\<lambda>_. 0), hair_beta_m = 1, hair_beta_n = 1,
      hair_v = (\<lambda>p. if p = 0 then 27.436644 else if p = 1 then 6.859161
                    else if p = 2 \<or> p = 3 then 109.746576 else 0),
      hair_s = 0.626657069 * 6.831,
      hair_sin2kAlpha = (\<lambda>_. 0),
      hair_cos2kAlpha = (\<lambda>p. if p < 3 then 1 else 0),
      wavelengthIndex = 0\<rparr>"

definition example_table :: BRDFTable where
  "example_table it ot i = 5 / 2"

text \<open>
  A probe for the second impact angle: an azimuthal lobe function that returns the
  \<open>gamma_t\<close> it is called with.
\<close>

definition gamma_t_probe :: HairHelpers where
  "gamma_t_probe = example_helpers\<lparr>Np := (\<lambda>phi p s gamma_o gamma_t. gamma_t)\<rparr>"

subsection \<open>The dielectric model: \<open>DielectricBxDF\<close>\<close>

text \<open>
  The microfacet distribution is a capability that the model consumes (specification,
  section 6): \<open>D\<close>, \<open>G\<close>, \<open>PDF\<close>, the visible-normal sampler and \<open>EffectivelySmooth\<close>.
  \<open>FrDielectric\<close> and \<open>Refract\<close> are declared in a header outside the sources; \<open>Refract\<close>
  returns the relative index along the ray and the refracted direction, or nothing on
  total internal reflection.
\<close>

record MicrofacetDistribution =
  mf_EffectivelySmooth :: bool
  mf_Sample_wm :: "Vector3f \<Rightarrow> Point2f \<Rightarrow> Vector3f"
  mf_PDF :: "Vector3f \<Rightarrow> Vector3f \<Rightarrow> real"
  mf_D :: "Vector3f \<Rightarrow> real"
  mf_G :: "Vector3f \<Rightarrow> Vector3f \<Rightarrow> real"

record ScatteringHelpers =
  FrDielectric :: "real \<Rightarrow> real \<Rightarrow> real"
  Refract :: "Vector3f \<Rightarrow> Vector3f \<Rightarrow> real \<Rightarrow> (real \<times> Vector3f) option"

record DielectricBxDF =
  diel_eta :: real
  diel_mfDistrib :: MicrofacetDistribution

text \<open>
  \<open>DielectricBxDF::Sample_f\<close>. \<open>CHECK_RARE\<close> counts an event and goes on; \<open>DCHECK\<close> is
  compiled away; \<open>CHECK(!IsNaN(pdf))\<close> is fatal. In the rough transmission branch a failed
  \<open>Refract\<close> leaves \<open>wi\<close> the zero vector, so that the test \<open>wi.z == 0 || tir\<close> returns no
  sample: the model returns no sample when \<open>Refract\<close> returns nothing.
\<close>

definition DielectricBxDF_Sample_f ::
  "ScatteringHelpers \<Rightarrow> DielectricBxDF \<Rightarrow> Vector3f \<Rightarrow> real \<Rightarrow> Point2f \<Rightarrow> TransportMode \<Rightarrow>
   BxDFReflTransFlags \<Rightarrow> fatal + BSDFSample option" where
  "DielectricBxDF_Sample_f S bx wo uc u mode sampleFlags =
     (if diel_eta bx = 1 \<or> mf_EffectivelySmooth (diel_mfDistrib bx) then
        let R = FrDielectric S (CosTheta wo) (diel_eta bx);
            T = 1 - R;
            pr = R;
            pt = T;
            pr = (if ReflTrans_Reflection \<notin> sampleFlags then 0 else pr);
            pt = (if ReflTrans_Transmission \<notin> sampleFlags then 0 else pt)
        in if pr = 0 \<and> pt = 0 then Inr None
           else if uc < pr / (pr + pt) then
             let wi = Vector3f (- vx wo) (- vy wo) (vz wo);
                 fr = (\<lambda>_. fdiv (Fin R) (Fin (AbsCosTheta wi)))
             in Inr (Some \<lparr>bs_f = fr, bs_wi = wi, bs_pdf = Fin (pr / (pr + pt)),
                           bs_flags = SpecularReflection, bs_eta = None\<rparr>)
           else
             (case Refract S wo (Vector3f 0 0 1) (diel_eta bx) of
                None \<Rightarrow> Inr None
              | Some (etap, wi) \<Rightarrow>
                  let ft = fdiv (Fin T) (Fin (AbsCosTheta wi));
                      ft = (if mode = Radiance then fdiv ft (Fin (Sqr etap)) else ft)
                  in Inr (Some \<lparr>bs_f = (\<lambda>_. ft), bs_wi = wi, bs_pdf = Fin (pt / (pr + pt)),
                                bs_flags = SpecularTransmission, bs_eta = Some etap\<rparr>))
      else
        let mf = diel_mfDistrib bx;
            wm = mf_Sample_wm mf wo u;
            R = FrDielectric S (Dot wo wm) (diel_eta bx);
            T = 1 - R;
            pr = R;
            pt = T;
            pr = (if ReflTrans_Reflection \<notin> sampleFlags then 0 else pr);
            pt = (if ReflTrans_Transmission \<notin> sampleFlags then 0 else pt)
        in if pr = 0 \<and> pt = 0 then Inr None
           else if uc < pr / (pr + pt) then
             let wi = Reflect wo wm
             in if \<not> SameHemisphere wo wi then Inr None
                else
                  let pdf = fdiv (fmul (fdiv (Fin (mf_PDF mf wo wm)) (Fin (4 * AbsDot wo wm))) (Fin pr))
                                 (Fin (pr + pt));
                      fr = fdiv (Fin (mf_D mf wm * mf_G mf wo wi * R))
                                (Fin (4 * CosTheta wi * CosTheta wo))
                  in Inr (Some \<lparr>bs_f = (\<lambda>_. fr), bs_wi = wi, bs_pdf = pdf,
                                bs_flags = GlossyReflection, bs_eta = None\<rparr>)
           else
             (case Refract S wo wm (diel_eta bx) of
                None \<Rightarrow> Inr None
              | Some (etap, wi) \<Rightarrow>
                  if SameHemisphere wo wi \<or> vz wi = 0 then Inr None
                  else
                    let denom = Sqr (Dot wi wm + Dot wo wm / etap);
                        dwm_dwi = fdiv (Fin (AbsDot wi wm)) (Fin denom);
                        pdf = fdiv (fmul (fmul (Fin (mf_PDF mf wo wm)) dwm_dwi) (Fin pt))
                                   (Fin (pr + pt))
                    in if IsNaN pdf then Inl CHECK_failed
                       else
                         let ft = fmul (Fin (T * mf_D mf wm * mf_G mf wo wi))
                                    (fabs (fdiv (Fin (Dot wi wm * Dot wo wm))
                                                (Fin (CosTheta wi * CosTheta wo * denom))));
                             ft = (if mode = Radiance then fdiv ft (Fin (Sqr etap)) else ft)
                         in Inr (Some \<lparr>bs_f = (\<lambda>_. ft), bs_wi = wi, bs_pdf = pdf,
                                       bs_flags = GlossyTransmission, bs_eta = Some etap\<rparr>)))"

text \<open>
  The generalised half-vector of \<open>DielectricBxDF::f\<close> before it is normalised: \<open>wi * etap + wo\<close>,
  with \<open>etap = 1\<close> for a reflection and the relative index seen from the side of \<open>wo\<close> for
  a transmission.
\<close>

definition Dielectric_etap :: "DielectricBxDF \<Rightarrow> Vector3f \<Rightarrow> Vector3f \<Rightarrow> real" where
  "Dielectric_etap bx wo wi =
     (if 0 < CosTheta wi * CosTheta wo then 1
      else if 0 < CosTheta wo then diel_eta bx else 1 / diel_eta bx)"

definition Dielectric_wm :: "DielectricBxDF \<Rightarrow> Vector3f \<Rightarrow> Vector3f \<Rightarrow> Vector3f" where
  "Dielectric_wm bx wo wi = vadd (vscale wi (Dielectric_etap bx wo wi)) wo"

text \<open>\<open>DielectricBxDF::f\<close>: a constant spectrum.\<close>

definition DielectricBxDF_f ::
  "ScatteringHelpers \<Rightarrow> DielectricBxDF \<Rightarrow> Vector3f \<Rightarrow> Vector3f \<Rightarrow> TransportMode \<Rightarrow> SampledSpectrum" where
  "DielectricBxDF_f S bx wo wi mode =
     (if diel_eta bx = 1 \<or> mf_EffectivelySmooth (diel_mfDistrib bx) then (\<lambda>_. 0)
      else
        let mf = diel_mfDistrib bx;
            cosTheta_o = CosTheta wo;
            cosTheta_i = CosTheta wi;
            reflect = (0 < cosTheta_i * cosTheta_o);
            etap = 1;
            etap = (if \<not> reflect then (if 0 < cosTheta_o then diel_eta bx else 1 / diel_eta bx)
                    else etap);
            wm = vadd (vscale wi etap) wo
        in if cosTheta_i = 0 \<or> cosTheta_o = 0 \<or> LengthSquared wm = 0 then (\<lambda>_. 0)
           else
             let wm = FaceForward (Normalize wm) (Vector3f 0 0 1)
             in if Dot wm wi * cosTheta_i < 0 \<or> Dot wm wo * cosTheta_o < 0 then (\<lambda>_. 0)
                else
                  let F = FrDielectric S (Dot wo wm) (diel_eta bx)
                  in if reflect then
                       (\<lambda>_. mf_D mf wm * mf_G mf wo wi * F / \<bar>4 * cosTheta_i * cosTheta_o\<bar>)
                     else
                       let denom = Sqr (Dot wi wm + Dot wo wm / etap) * cosTheta_i * cosTheta_o;
                           ft = mf_D mf wm * (1 - F) * mf_G mf wo wi *
                                \<bar>Dot wi wm * Dot wo wm / denom\<bar>;
                           ft = (if mode = Radiance then ft / Sqr etap else ft)
                       in (\<lambda>_. ft))"

text \<open>
  Modelled from the spec: \<open>FrDielectric\<close> and \<open>Refract\<close> are declared outside the sources;
  the specification calls them the Fresnel reflectance at the geometric angle and the
  refraction by the relative index that fails on total internal reflection. These are
  the Fresnel equations for unpolarised light and Snell's law, with the interface
  flipped for a direction below the surface. They instantiate the helpers in closed
  evaluations.
\<close>

definition Fresnel_FrDielectric :: "real \<Rightarrow> real \<Rightarrow> real" where
  "Fresnel_FrDielectric cosTheta_i e =
     (let cosTheta_i = min 1 (max (- 1) cosTheta_i);
          (e, cosTheta_i) = (if cosTheta_i < 0 then (1 / e, - cosTheta_i) else (e, cosTheta_i));
          sin2Theta_i = 1 - Sqr cosTheta_i;
          sin2Theta_t = sin2Theta_i / Sqr e
      in if 1 \<le> sin2Theta_t then 1
         else
           let cosTheta_t = SafeSqrt (1 - sin2Theta_t);
               r_parl = (e * cosTheta_i - cosTheta_t) / (e * cosTheta_i + cosTheta_t);
               r_perp = (cosTheta_i - e * cosTheta_t) / (cosTheta_i + e * cosTheta_t)
           in (Sqr r_parl + Sqr r_perp) / 2)"

definition Snell_Refract :: "Vector3f \<Rightarrow> Vector3f \<Rightarrow> real \<Rightarrow> (real \<times> Vector3f) option" where
  "Snell_Refract wi n e =
     (let cosTheta_i = Dot n wi;
          (e, cosTheta_i, n) = (if cosTheta_i < 0 then (1 / e, - cosTheta_i, vneg n)
                                else (e, cosTheta_i, n));
          sin2Theta_i = max 0 (1 - Sqr cosTheta_i);
          sin2Theta_t = sin2Theta_i / Sqr e
      in if 1 \<le> sin2Theta_t then None
         else
           let cosTheta_t = SafeSqrt (1 - sin2Theta_t)
           in Some (e, vadd (vscale (vneg wi) (1 / e)) (vscale n (cosTheta_i / e - cosTheta_t))))"

definition physical_helpers :: ScatteringHelpers where
  "physical_helpers = \<lparr>FrDielectric = Fresnel_FrDielectric, Refract = Snell_Refract\<rparr>"

text \<open>A polished interface and a rough one with constant distribution terms.\<close>

definition smooth_mf :: MicrofacetDistribution where
  "smooth_mf = \<lparr>mf_EffectivelySmooth = True, mf_Sample_wm = (\<lambda>wo u. Vector3f 0 0 1),
                mf_PDF = (\<lambda>wo wm. 1), mf_D = (\<lambda>wm. 1), mf_G = (\<lambda>wo wi. 1)\<rparr>"

definition rough_mf :: MicrofacetDistribution where
  "rough_mf = \<lparr>mf_EffectivelySmooth = False, mf_Sample_wm = (\<lambda>wo u. Vector3f 0 0 1),
               mf_PDF = (\<lambda>wo wm. 1), mf_D = (\<lambda>wm. 1), mf_G = (\<lambda>wo wi. 1)\<rparr>"

definition polished_glass :: DielectricBxDF where
  "polished_glass = \<lparr>diel_eta = 3 / 2, diel_mfDistrib = smooth_mf\<rparr>"

definition rough_glass :: DielectricBxDF where
  "rough_glass = \<lparr>diel_eta = 3 / 2, diel_mfDistrib = rough_mf\<rparr>"

subsection \<open>The tensor file\<close>

text \<open>
  A file is its list of bytes; the file system maps a name to a file, or to nothing when
  the file cannot be opened. Multi-byte numbers are little-endian. Sizes and offsets are
  64-bit (\<open>size_t\<close>, \<open>uint64_t\<close>), so that \<open>total_size *= shape[j]\<close> wraps as it does in the
  source.
\<close>

type_synonym byte = "8 word"

type_synonym filesystem = "string \<Rightarrow> byte list option"

definition le_nat :: "byte list \<Rightarrow> nat" where
  "le_nat bs = foldr (\<lambda>b acc. unat b + 256 * acc) bs 0"

datatype Type =
  Invalid | UInt8 | Int8 | UInt16 | Int16 | UInt32 | Int32 | UInt64 | Int64
  | Float16 | Float32 | Float64

text \<open>The cast \<open>(Type)dtype\<close> of a type code.\<close>

definition Type_of_code :: "nat \<Rightarrow> Type" where
  "Type_of_code c =
     (if c = 1 then UInt8 else if c = 2 then Int8 else if c = 3 then UInt16
      else if c = 4 then Int16 else if c = 5 then UInt32 else if c = 6 then Int32
      else if c = 7 then UInt64 else if c = 8 then Int64 else if c = 9 then Float16
      else if c = 10 then Float32 else if c = 11 then Float64 else Invalid)"

fun type_size :: "Type \<Rightarrow> 64 word" where
  "type_size Invalid = 0"
| "type_size UInt8 = 1"
| "type_size Int8 = 1"
| "type_size UInt16 = 2"
| "type_size Int16 = 2"
| "type_size UInt32 = 4"
| "type_size Int32 = 4"
| "type_size UInt64 = 8"
| "type_size Int64 = 8"
| "type_size Float16 = 2"
| "type_size Float32 = 4"
| "type_size Float64 = 8"

record Field =
  fld_dtype :: Type
  fld_offset :: "64 word"
  fld_shape :: "64 word list"
  fld_data :: "byte list"

record Tensor =
  m_fields :: "string \<Rightarrow> Field option"
  m_filename :: string
  m_size :: nat

text \<open>
  \<open>fread(buf, size, count, file) == count\<close> at position \<open>pos\<close>, for \<open>n = size * count\<close>
  bytes: the bytes and the new position, or nothing when the file ends before. A read of
  no bytes succeeds wherever the position is.
\<close>

definition fread :: "byte list \<Rightarrow> nat \<Rightarrow> nat \<Rightarrow> (byte list \<times> nat) option" where
  "fread file pos n =
     (if n = 0 then Some ([], pos)
      else if pos + n \<le> length file then Some (take n (drop pos file), pos + n)
      else None)"

definition name_of_bytes :: "byte list \<Rightarrow> string" where
  "name_of_bytes bs = map (\<lambda>b. char_of (unat b)) bs"

definition bytes_of_name :: "string \<Rightarrow> byte list" where
  "bytes_of_name cs = map (\<lambda>c. of_nat (of_char c)) cs"

text \<open>The inner loop of \<open>Tensor::Tensor\<close>: \<open>ndim\<close> dimension sizes.\<close>

fun read_shape ::
  "byte list \<Rightarrow> nat \<Rightarrow> nat \<Rightarrow> 64 word \<Rightarrow> 64 word list \<Rightarrow>
   fatal + (64 word list \<times> 64 word \<times> nat)" where
  "read_shape file pos 0 total_size shape = Inr (shape, total_size, pos)"
| "read_shape file pos (Suc n) total_size shape =
     (case fread file pos 8 of
        None \<Rightarrow> Inl (ErrorExit ''Tensor: Unable to read &size_value.'')
      | Some (bs, pos) \<Rightarrow>
          let size_value = (of_nat (le_nat bs) :: 64 word)
          in read_shape file pos n (total_size * size_value) (shape @ [size_value]))"

text \<open>
  The loop over the fields, with the fields still to read, the position of the header
  stream and the table built so far. The offset is passed to \<open>fseek\<close> as a \<open>long\<close>: a
  negative one is refused, one behind the end of the file is not (the read after it fails
  unless it reads nothing).
\<close>

fun read_fields ::
  "byte list \<Rightarrow> nat \<Rightarrow> nat \<Rightarrow> (string \<Rightarrow> Field option) \<Rightarrow> fatal + (string \<Rightarrow> Field option)" where
  "read_fields file 0 pos m = Inr m"
| "read_fields file (Suc k) pos m =
     (case fread file pos 2 of
        None \<Rightarrow> Inl (ErrorExit ''Tensor: Unable to read &name_length.'')
      | Some (bs, pos) \<Rightarrow>
     let name_length = le_nat bs in
     (case fread file pos name_length of
        None \<Rightarrow> Inl (ErrorExit ''Tensor: Unable to read (char *)name.data().'')
      | Some (name, pos) \<Rightarrow>
     (case fread file pos 2 of
        None \<Rightarrow> Inl (ErrorExit ''Tensor: Unable to read &ndim.'')
      | Some (bs, pos) \<Rightarrow>
     let ndim = le_nat bs in
     (case fread file pos 1 of
        None \<Rightarrow> Inl (ErrorExit ''Tensor: Unable to read &dtype.'')
      | Some (bs, pos) \<Rightarrow>
     let dtype = le_nat bs in
     (case fread file pos 8 of
        None \<Rightarrow> Inl (ErrorExit ''Tensor: Unable to read &offset.'')
      | Some (bs, pos) \<Rightarrow>
     let offset = (of_nat (le_nat bs) :: 64 word) in
     if \<not> (dtype \<noteq> 0 \<and> dtype \<le> 11)
     then Inl (ErrorExit ''Tensor: Invalid tensor file: unknown type.'')
     else
     (case read_shape file pos ndim (type_size (Type_of_code dtype)) [] of
        Inl e \<Rightarrow> Inl e
      | Inr (shape, total_size, cur_pos) \<Rightarrow>
     if sint offset < 0 then Inl (ErrorExit ''Tensor: Unable to seek to tensor offset.'')
     else
     (case fread file (unat offset) (unat total_size) of
        None \<Rightarrow> Inl (ErrorExit ''Tensor: Unable to read data.get().'')
      | Some (data, _) \<Rightarrow>
          read_fields file k cur_pos
            (m(name_of_bytes name \<mapsto>
                 \<lparr>fld_dtype = Type_of_code dtype, fld_offset = offset, fld_shape = shape,
                  fld_data = data\<rparr>)))))))))"

definition tensor_magic :: "byte list" where
  "tensor_magic = bytes_of_name ''tensor_file'' @ [0]"

text \<open>\<open>Tensor::Tensor(filename)\<close>.\<close>

definition Tensor_load :: "filesystem \<Rightarrow> string \<Rightarrow> fatal + Tensor" where
  "Tensor_load fs filename =
     (case fs filename of
        None \<Rightarrow> Inl (ErrorExit ''unable to open file'')
      | Some file \<Rightarrow>
     let size = length file in
     if \<not> (12 + 2 + 4 \<le> size)
     then Inl (ErrorExit ''Tensor: Invalid tensor file: too small, truncated?'')
     else
     (case fread file 0 12 of
        None \<Rightarrow> Inl (ErrorExit ''Tensor: Unable to read header.'')
      | Some (header, pos) \<Rightarrow>
     (case fread file pos 2 of
        None \<Rightarrow> Inl (ErrorExit ''Tensor: Unable to read version.'')
      | Some (version, pos) \<Rightarrow>
     (case fread file pos 4 of
        None \<Rightarrow> Inl (ErrorExit ''Tensor: Unable to read &n_fields.'')
      | Some (bs, pos) \<Rightarrow>
     let n_fields = le_nat bs in
     if header \<noteq> tensor_magic
     then Inl (ErrorExit ''Tensor: Invalid tensor file: invalid header.'')
     else if \<not> (version ! 0 = 1 \<and> version ! 1 = 0)
     then Inl (ErrorExit ''Tensor: Invalid tensor file: unknown file version.'')
     else
     (case read_fields file n_fields pos Map.empty of
        Inl e \<Rightarrow> Inl e
      | Inr m \<Rightarrow> Inr \<lparr>m_fields = m, m_filename = filename, m_size = size\<rparr>)))))"

text \<open>\<open>Tensor::has_field\<close> and \<open>Tensor::field\<close>; the latter asserts that the field exists.\<close>

definition has_field :: "Tensor \<Rightarrow> string \<Rightarrow> bool" where
  "has_field tf name = (m_fields tf name \<noteq> None)"

definition field :: "Tensor \<Rightarrow> string \<Rightarrow> fatal + Field" where
  "field tf name = (case m_fields tf name of None \<Rightarrow> Inl CHECK_failed | Some fld \<Rightarrow> Inr fld)"

subsection \<open>The measured-data resource\<close>

text \<open>
  The piecewise-linear interpolant is a capability that the resource consumes
  (specification, section 6). Its type is a parameter; its constructor takes the raw
  data of a field, the two resolutions, the resolutions and the raw data of the
  conditioning grids, and the two flags when the caller gives them. \<open>float_at\<close> reads the
  \<open>i\<close>-th \<open>float\<close> of raw data; \<open>theta2u\<close>, \<open>phi2u\<close> and \<open>SphericalTheta\<close> are the
  reparameterisations of the header.
\<close>

record 'pl PLHelpers =
  PiecewiseLinear2D ::
    "byte list \<Rightarrow> 64 word \<Rightarrow> 64 word \<Rightarrow> 64 word list \<Rightarrow> byte list list \<Rightarrow> (bool \<times> bool) option \<Rightarrow> 'pl"
  pl_Evaluate :: "'pl \<Rightarrow> Point2f \<Rightarrow> real list \<Rightarrow> real"
  pl_Invert :: "'pl \<Rightarrow> Point2f \<Rightarrow> real list \<Rightarrow> Point2f \<times> real"
  float_at :: "byte list \<Rightarrow> nat \<Rightarrow> real"
  theta2u :: "real \<Rightarrow> real"
  phi2u :: "real \<Rightarrow> real"
  SphericalTheta :: "Vector3f \<Rightarrow> real"
  pl_NSpectrumSamples :: nat

record 'pl MeasuredBxDFData =
  md_wavelengths :: "real list"
  md_spectra :: 'pl
  md_ndf :: 'pl
  md_vndf :: 'pl
  md_sigma :: 'pl
  md_isotropic :: bool
  md_luminance :: 'pl
  md_filename :: string

text \<open>What \<open>Error(...)\<close> reports; the process goes on.\<close>

datatype diagnostic = Invalid_BRDF_file_structure string

text \<open>\<open>std::rint\<close>: to the nearest integer, halves to the even one.\<close>

definition c_rint :: "real \<Rightarrow> int" where
  "c_rint a =
     (let fl = \<lfloor>a\<rfloor>; d = a - of_int fl
      in if d < 1 / 2 then fl else if 1 / 2 < d then fl + 1 else if even fl then fl else fl + 1)"

text \<open>
  The condition that \<open>MeasuredBxDFData::Create\<close> tests before it builds anything: the
  ranks, the types and the relations between the shapes of the ten fields. An index
  \<open>shape[k]\<close> stands behind the test of \<open>shape.size()\<close> that guards it, as in the source,
  so it is read only where it exists.
\<close>

definition valid_structure ::
  "Field \<Rightarrow> Field \<Rightarrow> Field \<Rightarrow> Field \<Rightarrow> Field \<Rightarrow> Field \<Rightarrow> Field \<Rightarrow> Field \<Rightarrow> Field \<Rightarrow> Field \<Rightarrow> bool" where
  "valid_structure theta_i phi_i ndf sigma vndf spectra luminance wavelengths description jacobian =
     (length (fld_shape description) = 1 \<and> fld_dtype description = UInt8 \<and>
      length (fld_shape theta_i) = 1 \<and> fld_dtype theta_i = Float32 \<and>
      length (fld_shape phi_i) = 1 \<and> fld_dtype phi_i = Float32 \<and>
      length (fld_shape wavelengths) = 1 \<and> fld_dtype wavelengths = Float32 \<and>
      length (fld_shape ndf) = 2 \<and> fld_dtype ndf = Float32 \<and>
      length (fld_shape sigma) = 2 \<and> fld_dtype sigma = Float32 \<and>
      length (fld_shape vndf) = 4 \<and> fld_dtype vndf = Float32 \<and>
      fld_shape vndf ! 0 = fld_shape phi_i ! 0 \<and>
      fld_shape vndf ! 1 = fld_shape theta_i ! 0 \<and>
      length (fld_shape luminance) = 4 \<and> fld_dtype luminance = Float32 \<and>
      fld_shape luminance ! 0 = fld_shape phi_i ! 0 \<and>
      fld_shape luminance ! 1 = fld_shape theta_i ! 0 \<and>
      fld_shape luminance ! 2 = fld_shape luminance ! 3 \<and>
      fld_dtype spectra = Float32 \<and> length (fld_shape spectra) = 5 \<and>
      fld_shape spectra ! 0 = fld_shape phi_i ! 0 \<and>
      fld_shape spectra ! 1 = fld_shape theta_i ! 0 \<and>
      fld_shape spectra ! 2 = fld_shape wavelengths ! 0 \<and>
      fld_shape spectra ! 3 = fld_shape spectra ! 4 \<and>
      fld_shape luminance ! 2 = fld_shape spectra ! 3 \<and>
      fld_shape luminance ! 3 = fld_shape spectra ! 4 \<and>
      length (fld_shape jacobian) = 1 \<and> fld_shape jacobian ! 0 = 1 \<and>
      fld_dtype jacobian = UInt8)"

text \<open>
  \<open>MeasuredBxDFData::Create\<close>. The ten lookups come first, each through \<open>Tensor::field\<close>
  and its \<open>CHECK\<close>; then the test of the structure, which reports and returns the null
  pointer. The result is the list of diagnostics and the pointer returned.
\<close>

definition Create ::
  "'pl PLHelpers \<Rightarrow> filesystem \<Rightarrow> string \<Rightarrow> fatal + (diagnostic list \<times> 'pl MeasuredBxDFData option)" where
  "Create P fs filename =
     (case Tensor_load fs filename of Inl e \<Rightarrow> Inl e | Inr tf \<Rightarrow>
     (case field tf ''theta_i'' of Inl e \<Rightarrow> Inl e | Inr theta_i \<Rightarrow>
     (case field tf ''phi_i'' of Inl e \<Rightarrow> Inl e | Inr phi_i \<Rightarrow>
     (case field tf ''ndf'' of Inl e \<Rightarrow> Inl e | Inr ndf \<Rightarrow>
     (case field tf ''sigma'' of Inl e \<Rightarrow> Inl e | Inr sigma \<Rightarrow>
     (case field tf ''vndf'' of Inl e \<Rightarrow> Inl e | Inr vndf \<Rightarrow>
     (case field tf ''spectra'' of Inl e \<Rightarrow> Inl e | Inr spectra \<Rightarrow>
     (case field tf ''luminance'' of Inl e \<Rightarrow> Inl e | Inr luminance \<Rightarrow>
     (case field tf ''wavelengths'' of Inl e \<Rightarrow> Inl e | Inr wavelengths \<Rightarrow>
     (case field tf ''description'' of Inl e \<Rightarrow> Inl e | Inr description \<Rightarrow>
     (case field tf ''jacobian'' of Inl e \<Rightarrow> Inl e | Inr jacobian \<Rightarrow>
     if \<not> valid_structure theta_i phi_i ndf sigma vndf spectra luminance wavelengths description
             jacobian
     then Inr ([Invalid_BRDF_file_structure filename], None)
     else
       let isotropic = (fld_shape phi_i ! 0 \<le> 2)
       in if \<not> isotropic \<and>
             c_rint ((2 * pi) /
                     (float_at P (fld_data phi_i) (unat (fld_shape phi_i ! 0 - 1)) -
                      float_at P (fld_data phi_i) 0)) \<noteq> 1
          then Inl (ErrorExit ''reduction (!= 1) not supported'')
          else
            let ndf' = PiecewiseLinear2D P (fld_data ndf) (fld_shape ndf ! 1) (fld_shape ndf ! 0)
                         [] [] (Some (False, False));
                sigma' = PiecewiseLinear2D P (fld_data sigma) (fld_shape sigma ! 1)
                           (fld_shape sigma ! 0) [] [] (Some (False, False));
                vndf' = PiecewiseLinear2D P (fld_data vndf) (fld_shape vndf ! 3) (fld_shape vndf ! 2)
                          [fld_shape phi_i ! 0, fld_shape theta_i ! 0]
                          [fld_data phi_i, fld_data theta_i] None;
                luminance' = PiecewiseLinear2D P (fld_data luminance) (fld_shape luminance ! 3)
                               (fld_shape luminance ! 2)
                               [fld_shape phi_i ! 0, fld_shape theta_i ! 0]
                               [fld_data phi_i, fld_data theta_i] None;
                size = unat (fld_shape wavelengths ! 0);
                wl = map (\<lambda>i. float_at P (fld_data wavelengths) i) [0..<size];
                spectra' = PiecewiseLinear2D P (fld_data spectra) (fld_shape spectra ! 4)
                             (fld_shape spectra ! 3)
                             [fld_shape phi_i ! 0, fld_shape theta_i ! 0, fld_shape wavelengths ! 0]
                             [fld_data phi_i, fld_data theta_i, fld_data wavelengths]
                             (Some (False, False))
            in Inr ([], Some \<lparr>md_wavelengths = wl, md_spectra = spectra', md_ndf = ndf',
                               md_vndf = vndf', md_sigma = sigma', md_isotropic = isotropic,
                               md_luminance = luminance', md_filename = filename\<rparr>))))))))))))"

text \<open>The fields that \<open>Create\<close> looks up, in its order.\<close>

definition looked_up_fields :: "string list" where
  "looked_up_fields =
     [''theta_i'', ''phi_i'', ''ndf'', ''sigma'', ''vndf'', ''spectra'', ''luminance'',
      ''wavelengths'', ''description'', ''jacobian'']"

text \<open>
  \<open>MeasuredBxDF::BRDFDataFromFile\<close>. The static map \<open>loadedData\<close> is the state; the trace
  lists the files that \<open>Create\<close> was called for.
\<close>

record 'pl cache_state =
  loadedData :: "string \<Rightarrow> 'pl MeasuredBxDFData option option"
  created :: "string list"
  reported :: "diagnostic list"

definition BRDFDataFromFile ::
  "'pl PLHelpers \<Rightarrow> filesystem \<Rightarrow> 'pl cache_state \<Rightarrow> string \<Rightarrow>
   fatal + ('pl MeasuredBxDFData option \<times> 'pl cache_state)" where
  "BRDFDataFromFile P fs st filename =
     (if loadedData st filename = None then
        (case Create P fs filename of
           Inl e \<Rightarrow> Inl e
         | Inr (ds, r) \<Rightarrow>
             let st = st\<lparr>loadedData := (loadedData st)(filename \<mapsto> r),
                        created := created st @ [filename],
                        reported := reported st @ ds\<rparr>
             in Inr (the (loadedData st filename), st))
      else Inr (the (loadedData st filename), st))"

subsection \<open>The measured model: \<open>MeasuredBxDF::f\<close>\<close>

record 'pl MeasuredBxDF =
  mb_brdf :: "'pl MeasuredBxDFData"
  mb_lambda :: "nat \<Rightarrow> real"

definition MeasuredBxDF_f ::
  "'pl PLHelpers \<Rightarrow> 'pl MeasuredBxDF \<Rightarrow> Vector3f \<Rightarrow> Vector3f \<Rightarrow> TransportMode \<Rightarrow> SampledSpectrum" where
  "MeasuredBxDF_f P m wo wi mode =
     (if \<not> SameHemisphere wo wi then (\<lambda>_. 0)
      else
        let brdf = mb_brdf m;
            (wo, wi) = (if vz wo < 0 then (vneg wo, vneg wi) else (wo, wi));
            wm = vadd wi wo
        in if LengthSquared wm = 0 then (\<lambda>_. 0)
           else
             let wm = Normalize wm;
                 theta_o = SphericalTheta P wo;
                 phi_o = atan2 (vy wo) (vx wo);
                 theta_m = SphericalTheta P wm;
                 phi_m = atan2 (vy wm) (vx wm);
                 u_wo = (theta2u P theta_o, phi2u P phi_o);
                 u_wm = (theta2u P theta_m,
                         phi2u P (if md_isotropic brdf then phi_m - phi_o else phi_m));
                 u_wm = (fst u_wm, snd u_wm - of_int \<lfloor>snd u_wm\<rfloor>);
                 ui = pl_Invert P (md_vndf brdf) u_wm [phi_o, theta_o];
                 fr = (\<lambda>i. if i < pl_NSpectrumSamples P
                            then max 0 (pl_Evaluate P (md_spectra brdf) (fst ui)
                                          [phi_o, theta_o, mb_lambda m i])
                            else 0)
             in (\<lambda>i. fr i * pl_Evaluate P (md_ndf brdf) u_wm [] /
                        (4 * pl_Evaluate P (md_sigma brdf) u_wo [] * CosTheta wi)))"

text \<open>Interpolants without data: every evaluation is 1, every inversion the centre.\<close>

definition flat_interpolants :: "unit PLHelpers" where
  "flat_interpolants =
     \<lparr>PiecewiseLinear2D = (\<lambda>data xres yres param_res param_values flags. ()),
      pl_Evaluate = (\<lambda>pl p params. 1),
      pl_Invert = (\<lambda>pl p params. ((1 / 2, 1 / 2), 1)),
      float_at = (\<lambda>data i. 0),
      theta2u = (\<lambda>theta. sqrt (theta * (2 / pi))),
      phi2u = (\<lambda>phi. phi / (2 * pi) + 1 / 2),
      SphericalTheta = (\<lambda>w. arccos (min 1 (max (- 1) (vz w)))),
      pl_NSpectrumSamples = 4\<rparr>"

definition flat_measured :: "unit MeasuredBxDF" where
  "flat_measured =
     \<lparr>mb_brdf = \<lparr>md_wavelengths = [], md_spectra = (), md_ndf = (), md_vndf = (), md_sigma = (),
                  md_isotropic = True, md_luminance = (), md_filename = []\<rparr>,
      mb_lambda = (\<lambda>i. 500)\<rparr>"

text \<open>
  Two hypotheses of the reciprocity property. Directions are unit vectors. The Fresnel
  reflectance is the same from both sides of the interface: for a cosine \<open>a\<close> above and a
  cosine \<open>b\<close> below that Snell's law relates, \<open>FrDielectric\<close> returns the same value.
\<close>

definition unit_vector :: "Vector3f \<Rightarrow> bool" where
  "unit_vector a = (Dot a a = 1)"

definition Fresnel_two_sided :: "ScatteringHelpers \<Rightarrow> real \<Rightarrow> bool" where
  "Fresnel_two_sided S e =
     (\<forall>a b. 0 \<le> a \<and> a \<le> 1 \<and> - 1 \<le> b \<and> b \<le> 0 \<and> 1 - a * a = e * e * (1 - b * b)
        \<longrightarrow> FrDielectric S a e = FrDielectric S b e)"

subsection \<open>The tensor file, in the words of the specification\<close>

text \<open>
  Section 6 of the specification gives the layout of a tensor file: the magic, the
  version \<open>1.0\<close>, the number of fields, and for every field the length of its name, the
  name, the rank, the type code, the offset of its data and the sizes of its dimensions,
  all little-endian. \<open>spec_header\<close> writes that layout for a list of entries;
  \<open>spec_le_bytes n v\<close> are the \<open>n\<close> bytes of \<open>v\<close>.
\<close>

fun spec_le_bytes :: "nat \<Rightarrow> nat \<Rightarrow> byte list" where
  "spec_le_bytes 0 v = []"
| "spec_le_bytes (Suc n) v = of_nat (v mod 256) # spec_le_bytes n (v div 256)"

record spec_entry =
  se_name :: "byte list"
  se_dtype :: nat
  se_offset :: nat
  se_shape :: "nat list"

definition spec_entry_bytes :: "spec_entry \<Rightarrow> byte list" where
  "spec_entry_bytes e =
     spec_le_bytes 2 (length (se_name e)) @ se_name e @ spec_le_bytes 2 (length (se_shape e)) @
     spec_le_bytes 1 (se_dtype e) @ spec_le_bytes 8 (se_offset e) @ concat (map (spec_le_bytes 8) (se_shape e))"

definition spec_header :: "spec_entry list \<Rightarrow> byte list" where
  "spec_header es =
     tensor_magic @ [1, 0] @ spec_le_bytes 4 (length es) @ concat (map spec_entry_bytes es)"

text \<open>
  An entry fits the layout when its numbers fit their fields. The payload of a field is
  \<open>product(shape) \<times> dtype_size\<close> bytes at the absolute offset; the loader computes the
  product in \<open>size_t\<close>, and so does \<open>spec_payload_size\<close>. An entry is well-formed when its
  type code is one of \<open>1..11\<close>, its offset is not negative as a \<open>long\<close>, and its payload
  is empty or lies within the file; a file is well-formed when it begins with the header
  of well-formed entries. \<open>spec_table\<close> is the table of fields that the specification
  expects of the loader: every entry by its name, a later entry replacing an earlier one
  of the same name.
\<close>

definition spec_lexical_entry :: "spec_entry \<Rightarrow> bool" where
  "spec_lexical_entry e \<longleftrightarrow>
     length (se_name e) < 2 ^ 16 \<and> length (se_shape e) < 2 ^ 16 \<and> se_dtype e < 2 ^ 8 \<and>
     se_offset e < 2 ^ 64 \<and> list_all (\<lambda>d. d < 2 ^ 64) (se_shape e)"

definition spec_payload_size :: "spec_entry \<Rightarrow> 64 word" where
  "spec_payload_size e = type_size (Type_of_code (se_dtype e)) * of_nat (prod_list (se_shape e))"

definition spec_field :: "byte list \<Rightarrow> spec_entry \<Rightarrow> Field" where
  "spec_field file e =
     \<lparr>fld_dtype = Type_of_code (se_dtype e), fld_offset = of_nat (se_offset e),
      fld_shape = map of_nat (se_shape e),
      fld_data = take (unat (spec_payload_size e)) (drop (se_offset e) file)\<rparr>"

definition spec_well_formed_entry :: "byte list \<Rightarrow> spec_entry \<Rightarrow> bool" where
  "spec_well_formed_entry F e \<longleftrightarrow>
     se_dtype e \<noteq> 0 \<and> se_dtype e \<le> 11 \<and> se_offset e < 2 ^ 63 \<and>
     (unat (spec_payload_size e) = 0 \<or> se_offset e + unat (spec_payload_size e) \<le> length F)"

definition spec_table ::
  "byte list \<Rightarrow> spec_entry list \<Rightarrow> (string \<Rightarrow> Field option) \<Rightarrow> (string \<Rightarrow> Field option)" where
  "spec_table F es m = fold (\<lambda>e m. m(name_of_bytes (se_name e) \<mapsto> spec_field F e)) es m"

definition spec_well_formed :: "byte list \<Rightarrow> spec_entry list \<Rightarrow> bool" where
  "spec_well_formed file es \<longleftrightarrow>
     (\<exists>post. file = spec_header es @ post) \<and> length es < 2 ^ 32 \<and>
     list_all spec_lexical_entry es \<and> list_all (spec_well_formed_entry file) es"

text \<open>
  A file of two fields whose payloads lie in the magic, out of order and overlapping:
  \<open>a\<close> is one \<open>uint16\<close> at offset 3, \<open>b\<close> is \<open>3 \<times> 2\<close> bytes at offset 0. And two single
  entries that are not well-formed: one of type code 12, one whose four bytes at offset
  38 end behind the end of its file of 40 bytes.
\<close>

definition example_entries :: "spec_entry list" where
  "example_entries =
     [\<lparr>se_name = bytes_of_name ''a'', se_dtype = 3, se_offset = 3, se_shape = [1]\<rparr>,
      \<lparr>se_name = bytes_of_name ''b'', se_dtype = 1, se_offset = 0, se_shape = [3, 2]\<rparr>]"

definition example_tensor_file :: "byte list" where
  "example_tensor_file = spec_header example_entries"

definition entry_of_unknown_type :: spec_entry where
  "entry_of_unknown_type =
     \<lparr>se_name = bytes_of_name ''a'', se_dtype = 12, se_offset = 0, se_shape = [1]\<rparr>"

definition entry_behind_the_end :: spec_entry where
  "entry_behind_the_end =
     \<lparr>se_name = bytes_of_name ''a'', se_dtype = 10, se_offset = 38, se_shape = [1]\<rparr>"

text \<open>
  And a file with one field whose declared size, \<open>2\<^sup>3\<^sup>2 \<times> 2\<^sup>3\<^sup>2\<close> bytes, is \<open>2\<^sup>6\<^sup>4\<close>.
\<close>

definition entry_of_wrapping_size :: spec_entry where
  "entry_of_wrapping_size =
     \<lparr>se_name = bytes_of_name ''a'', se_dtype = 1, se_offset = 0,
      se_shape = [4294967296, 4294967296]\<rparr>"

definition file_of_wrapping_size :: "byte list" where
  "file_of_wrapping_size = spec_header [entry_of_wrapping_size]"

subsection \<open>Measured files and requests\<close>

text \<open>
  A file system that holds one file. Three headers of measured data, whose payloads all
  lie at offset 0: one without the field \<open>vndf\<close>, one whose \<open>spectra\<close> has rank 4, and one
  of valid structure, with every dimension of size 1. \<open>flat_resource\<close> is what
  \<open>Create\<close> builds from the last with the interpolants of \<open>flat_interpolants\<close>.
\<close>

definition only_file :: "string \<Rightarrow> byte list \<Rightarrow> filesystem" where
  "only_file name F = (\<lambda>n. if n = name then Some F else None)"

definition schema_entry :: "string \<Rightarrow> nat \<Rightarrow> nat list \<Rightarrow> spec_entry" where
  "schema_entry name dtype shape =
     \<lparr>se_name = bytes_of_name name, se_dtype = dtype, se_offset = 0, se_shape = shape\<rparr>"

definition entries_without_vndf :: "spec_entry list" where
  "entries_without_vndf =
     [schema_entry ''description'' 1 [1], schema_entry ''theta_i'' 10 [1],
      schema_entry ''phi_i'' 10 [1], schema_entry ''wavelengths'' 10 [1],
      schema_entry ''ndf'' 10 [1, 1], schema_entry ''sigma'' 10 [1, 1],
      schema_entry ''luminance'' 10 [1, 1, 1, 1], schema_entry ''spectra'' 10 [1, 1, 1, 1, 1],
      schema_entry ''jacobian'' 1 [1]]"

definition entries_with_flat_spectra :: "spec_entry list" where
  "entries_with_flat_spectra =
     [schema_entry ''description'' 1 [1], schema_entry ''theta_i'' 10 [1],
      schema_entry ''phi_i'' 10 [1], schema_entry ''wavelengths'' 10 [1],
      schema_entry ''ndf'' 10 [1, 1], schema_entry ''sigma'' 10 [1, 1],
      schema_entry ''vndf'' 10 [1, 1, 1, 1],
      schema_entry ''luminance'' 10 [1, 1, 1, 1], schema_entry ''spectra'' 10 [1, 1, 1, 1],
      schema_entry ''jacobian'' 1 [1]]"

definition entries_of_valid_structure :: "spec_entry list" where
  "entries_of_valid_structure =
     [schema_entry ''description'' 1 [1], schema_entry ''theta_i'' 10 [1],
      schema_entry ''phi_i'' 10 [1], schema_entry ''wavelengths'' 10 [1],
      schema_entry ''ndf'' 10 [1, 1], schema_entry ''sigma'' 10 [1, 1],
      schema_entry ''vndf'' 10 [1, 1, 1, 1],
      schema_entry ''luminance'' 10 [1, 1, 1, 1], schema_entry ''spectra'' 10 [1, 1, 1, 1, 1],
      schema_entry ''jacobian'' 1 [1]]"

definition measured_file_without_vndf :: "byte list" where
  "measured_file_without_vndf = spec_header entries_without_vndf"

definition measured_file_with_flat_spectra :: "byte list" where
  "measured_file_with_flat_spectra = spec_header entries_with_flat_spectra"

definition measured_file_of_valid_structure :: "byte list" where
  "measured_file_of_valid_structure = spec_header entries_of_valid_structure"

definition flat_resource :: "string \<Rightarrow> unit MeasuredBxDFData" where
  "flat_resource filename =
     \<lparr>md_wavelengths = [0], md_spectra = (), md_ndf = (), md_vndf = (), md_sigma = (),
      md_isotropic = True, md_luminance = (), md_filename = filename\<rparr>"

text \<open>
  The static map is empty when the process starts. \<open>sequential_requests\<close> are calls of
  \<open>BRDFDataFromFile\<close> one after another, each on the state that the call before it left;
  \<open>cache_inv\<close> says that the trace of builds lists every cached path once.
\<close>

definition empty_cache :: "'pl cache_state" where
  "empty_cache = \<lparr>loadedData = Map.empty, created = [], reported = []\<rparr>"

fun sequential_requests ::
  "'pl PLHelpers \<Rightarrow> filesystem \<Rightarrow> 'pl cache_state \<Rightarrow> string list \<Rightarrow>
   fatal + ('pl MeasuredBxDFData option list \<times> 'pl cache_state)" where
  "sequential_requests P fs st [] = Inr ([], st)"
| "sequential_requests P fs st (f # fns) =
     (case BRDFDataFromFile P fs st f of
        Inl e \<Rightarrow> Inl e
      | Inr (r, st) \<Rightarrow>
          (case sequential_requests P fs st fns of
             Inl e \<Rightarrow> Inl e
           | Inr (rs, st) \<Rightarrow> Inr (r # rs, st)))"

definition cache_inv :: "'pl cache_state \<Rightarrow> bool" where
  "cache_inv st \<longleftrightarrow> distinct (created st) \<and> set (created st) = dom (loadedData st)"

text \<open>
  \<open>BRDFDataFromFile\<close> takes no lock, so two calls can overlap. A call in progress stands
  before one of the three statements of the function, in the order of the source: the
  test \<open>loadedData.find(filename) == loadedData.end()\<close>, the assignment
  \<open>loadedData[filename] = MeasuredBxDFData::Create(filename, alloc)\<close> and
  \<open>return loadedData[filename]\<close>, whose \<open>operator[]\<close> inserts a null pointer for a path
  that is not there; or it has returned. \<open>call_step\<close> executes the statement that a call
  stands before, as one step; \<open>interleaving\<close> lets the calls take their steps in the order
  of a schedule, which names the call that steps next. \<open>builds\<close> reads the trace of builds
  off a result.
\<close>

datatype 'pl call =
  At_find string | At_assign string | At_return string | Returned "'pl MeasuredBxDFData option"

definition call_step ::
  "'pl PLHelpers \<Rightarrow> filesystem \<Rightarrow> 'pl cache_state \<Rightarrow> 'pl call \<Rightarrow>
   fatal + ('pl cache_state \<times> 'pl call)" where
  "call_step P fs st c =
     (case c of
        At_find filename \<Rightarrow>
          Inr (st, if loadedData st filename = None then At_assign filename else At_return filename)
      | At_assign filename \<Rightarrow>
          (case Create P fs filename of
             Inl e \<Rightarrow> Inl e
           | Inr (ds, r) \<Rightarrow>
               Inr (st\<lparr>loadedData := (loadedData st)(filename \<mapsto> r),
                       created := created st @ [filename],
                       reported := reported st @ ds\<rparr>, At_return filename))
      | At_return filename \<Rightarrow>
          (case loadedData st filename of
             None \<Rightarrow> Inr (st\<lparr>loadedData := (loadedData st)(filename \<mapsto> None)\<rparr>, Returned None)
           | Some r \<Rightarrow> Inr (st, Returned r))
      | Returned r \<Rightarrow> Inr (st, Returned r))"

fun interleaving ::
  "'pl PLHelpers \<Rightarrow> filesystem \<Rightarrow> 'pl cache_state \<times> 'pl call list \<Rightarrow> nat list \<Rightarrow>
   fatal + ('pl cache_state \<times> 'pl call list)" where
  "interleaving P fs (st, calls) [] = Inr (st, calls)"
| "interleaving P fs (st, calls) (i # schedule) =
     (if i < length calls then
        (case call_step P fs st (calls ! i) of
           Inl e \<Rightarrow> Inl e
         | Inr (st, c) \<Rightarrow> interleaving P fs (st, calls[i := c]) schedule)
      else interleaving P fs (st, calls) schedule)"

definition builds :: "fatal + ('pl cache_state \<times> 'a) \<Rightarrow> fatal + string list" where
  "builds r = map_sum id (\<lambda>(st, _). created st) r"

section \<open>Properties\<close>

subsection \<open>The hair model and the sample filter\<close>

text \<open>
  Claim C10. \<open>HairBxDF::Sample_f\<close> and \<open>HairBxDF::PDF\<close> do not depend on the sample
  filter: any two values of \<open>sampleFlags\<close> (the empty filter included) give the same
  result, for every \<open>wo\<close>, \<open>uc\<close>, \<open>u\<close>, \<open>wi\<close> and transport mode; and \<open>Sample_f\<close> returns a
  sample, never "no sample", also under the empty filter.
\<close>

theorem HairBxDF_sampleFlags_independent:
  "HairBxDF_Sample_f H b wo uc u mode flags1 = HairBxDF_Sample_f H b wo uc u mode flags2
   \<and> HairBxDF_PDF H b wo wi mode flags1 = HairBxDF_PDF H b wo wi mode flags2
   \<and> HairBxDF_Sample_f H b wo uc u mode flags1 \<noteq> None
   \<and> HairBxDF_Sample_f H b wo uc u mode {} \<noteq> None"
  by (simp add: HairBxDF_Sample_f_def HairBxDF_PDF_def Let_def split_beta)

subsection \<open>The lobe-selection distribution\<close>

lemma fold_add_sum_list:
  "fold (\<lambda>i acc. acc + g i) xs (a::real) = a + sum_list (map g xs)"
  by (induction xs arbitrary: a) simp_all







lemma upt4: "[0..<4] = [0, 1, 2, 3]" "[0..<3] = [0, 1, 2]" "[3..<4] = [3]"
  "[Suc 0..<3] = [Suc 0, 2]"
  by (simp_all add: upt_rec)

lemma example_hair_constructed:
  "HairBxDF_new example_helpers 0 (3 / 2) (\<lambda>_. 0) 1 1 0 = Inr example_hair"
  by (auto simp: HairBxDF_new_def example_helpers_def example_hair_def Let_def upt4 Sqr_def
       SafeSqrt_def Radians_def fun_eq_iff)

lemma example_ApPDF: "ApPDF example_helpers b c = [1/4, 1/4, 1/4, 1/4]"
  by (simp add: ApPDF_def example_helpers_def Let_def upt4 Average_def)






subsection \<open>The density that \<open>Sample_f\<close> returns\<close>

lemma atan2_eq:
  "atan2 b a =
     (if 0 < a then arctan (b / a)
      else if a < 0 then (if 0 \<le> b then arctan (b / a) + pi else arctan (b / a) - pi)
      else if 0 < b then pi / 2
      else if b < 0 then - (pi / 2)
      else 0)"
  by (auto simp: atan2_def atan2_signbit_def)

lemma atan2_signbit_nonzero:
  assumes "0 < a \<or> b \<noteq> 0"
  shows "atan2_signbit nb na b a = atan2 b a"
  using assms by (auto simp: atan2_def atan2_signbit_def)

lemma atan2_cos_sin:
  assumes "a \<noteq> 0 \<or> b \<noteq> 0"
  shows "cos (atan2 b a) = a / sqrt (a\<^sup>2 + b\<^sup>2) \<and> sin (atan2 b a) = b / sqrt (a\<^sup>2 + b\<^sup>2)"
proof -
  consider (pos) "0 < a" | (neg) "a < 0" | (zp) "a = 0" "0 < b" | (zn) "a = 0" "b < 0"
    using assms by linarith
  then show ?thesis
  proof cases
    case pos
    have "sqrt (1 + (b / a)\<^sup>2) = sqrt (a\<^sup>2 + b\<^sup>2) / a"
    proof -
      have "1 + (b / a)\<^sup>2 = (a\<^sup>2 + b\<^sup>2) / a\<^sup>2"
        using pos by (simp add: field_simps power2_eq_square)
      then show ?thesis using pos by (simp add: real_sqrt_divide)
    qed
    then show ?thesis using pos by (simp add: atan2_eq cos_arctan sin_arctan)
  next
    case neg
    have "sqrt (1 + (b / a)\<^sup>2) = sqrt (a\<^sup>2 + b\<^sup>2) / (- a)"
    proof -
      have "1 + (b / a)\<^sup>2 = (a\<^sup>2 + b\<^sup>2) / a\<^sup>2"
        using neg by (simp add: field_simps power2_eq_square)
      then show ?thesis using neg by (simp add: real_sqrt_divide)
    qed
    then show ?thesis using neg by (simp add: atan2_eq cos_arctan sin_arctan)
  next
    case zp
    then show ?thesis by (simp add: atan2_eq)
  next
    case zn
    then show ?thesis by (simp add: atan2_eq)
  qed
qed

lemma atan2_polar:
  assumes "0 < r"
  shows "\<exists>k::int. atan2 (r * sin t) (r * cos t) = t + 2 * pi * of_int k"
proof -
  have nz: "r * cos t \<noteq> 0 \<or> r * sin t \<noteq> 0"
  proof -
    have "(cos t)\<^sup>2 + (sin t)\<^sup>2 = 1" by simp
    then have "cos t \<noteq> 0 \<or> sin t \<noteq> 0" by fastforce
    then show ?thesis using assms by simp
  qed
  have "(r * cos t)\<^sup>2 + (r * sin t)\<^sup>2 = r\<^sup>2 * ((cos t)\<^sup>2 + (sin t)\<^sup>2)"
    by (simp only: power_mult_distrib distrib_left)
  then have "(r * cos t)\<^sup>2 + (r * sin t)\<^sup>2 = r\<^sup>2"
    by (simp only: sin_cos_squared_add2 mult_1_right)
  then have len: "sqrt ((r * cos t)\<^sup>2 + (r * sin t)\<^sup>2) = r"
    using assms by simp
  have "sin (atan2 (r * sin t) (r * cos t)) = sin t \<and> cos (atan2 (r * sin t) (r * cos t)) = cos t"
    using atan2_cos_sin [OF nz] assms by (simp add: len)
  then show ?thesis by (simp only: sin_cos_eq_iff)
qed

lemma fold_add_fun:
  "fold (\<lambda>p fs. (\<lambda>i. fs i + g p i)) xs a = (\<lambda>i::nat. (a i::real) + sum_list (map (\<lambda>p. g p i) xs))"
  by (induction xs arbitrary: a) (simp_all add: fun_eq_iff)

lemma HairBxDF_PDF_mixture:
  "HairBxDF_PDF H b wo wi mode fl =
     spec_lobe_mixture H b (\<lambda>p. ApPDF H b (SafeSqrt (1 - Sqr (vx wo))) ! p)
        (vx wo) (SafeSqrt (1 - Sqr (vx wo))) (vx wi) (SafeSqrt (1 - Sqr (vx wi)))
        (atan2 (vz wi) (vy wi) - atan2 (vz wo) (vy wo))
        (SafeASin (hair_h b)) (hair_gamma_t b wo)"
  unfolding HairBxDF_PDF_def spec_lobe_mixture_def spec_tilt_def hair_gamma_t_def Let_def split_beta
    fold_add_sum_list
  by (simp add: Sqr_def if_distrib [of fst] if_distrib [of snd] if_distrib [of abs] cong: if_cong)

lemma HairBxDF_Sample_f_result:
  assumes "HairBxDF_Sample_f H b wo uc u mode fl = Some bs"
  shows "\<exists>sinTheta_i dphi.
           bs_wi bs = Vector3f sinTheta_i
                        (SafeSqrt (1 - Sqr sinTheta_i) * cos (atan2 (vz wo) (vy wo) + dphi))
                        (SafeSqrt (1 - Sqr sinTheta_i) * sin (atan2 (vz wo) (vy wo) + dphi))
         \<and> bs_pdf bs = Fin (spec_lobe_mixture H b (\<lambda>p. ApPDF H b (SafeSqrt (1 - Sqr (vx wo))) ! p)
                (vx wo) (SafeSqrt (1 - Sqr (vx wo))) sinTheta_i (SafeSqrt (1 - Sqr sinTheta_i))
                dphi (SafeASin (hair_h b)) (hair_gamma_t b wo))"
  using assms
  unfolding HairBxDF_Sample_f_def spec_lobe_mixture_def spec_tilt_def hair_gamma_t_def Let_def split_beta
    fold_add_sum_list
  by (auto simp: Sqr_def if_distrib [of fst] if_distrib [of snd] if_distrib [of abs] cong: if_cong)

lemma spec_lobe_mixture_periodic:
  assumes "\<forall>phi p s go gt (k::int). Np H (phi + 2 * pi * of_int k) p s go gt = Np H phi p s go gt"
  shows "spec_lobe_mixture H b w so co si ci (phi + 2 * pi * of_int k) go gt =
         spec_lobe_mixture H b w so co si ci phi go gt"
  by (simp add: spec_lobe_mixture_def assms)

lemma SafeSqrt_pos: "\<bar>a\<bar> < 1 \<Longrightarrow> 0 < SafeSqrt (1 - Sqr a)"
proof -
  assume "\<bar>a\<bar> < 1"
  then have "a * a < 1"
    by (metis abs_mult_self_eq abs_ge_zero mult_strict_mono' mult_1)
  then show ?thesis by (simp add: SafeSqrt_def Sqr_def)
qed

lemma HairBxDF_density_consistent:
  assumes periodic: "\<forall>phi p s go gt (k::int). Np H (phi + 2 * pi * of_int k) p s go gt = Np H phi p s go gt"
      and sample: "HairBxDF_Sample_f H b wo uc u mode fl = Some bs"
      and nondeg: "\<bar>vx (bs_wi bs)\<bar> < 1"
  shows "bs_pdf bs = Fin (HairBxDF_PDF H b wo (bs_wi bs) mode fl)"
proof -
  obtain si dphi where
    wi: "bs_wi bs = Vector3f si (SafeSqrt (1 - Sqr si) * cos (atan2 (vz wo) (vy wo) + dphi))
                        (SafeSqrt (1 - Sqr si) * sin (atan2 (vz wo) (vy wo) + dphi))"
    and pdf: "bs_pdf bs = Fin (spec_lobe_mixture H b (\<lambda>p. ApPDF H b (SafeSqrt (1 - Sqr (vx wo))) ! p)
                (vx wo) (SafeSqrt (1 - Sqr (vx wo))) si (SafeSqrt (1 - Sqr si))
                dphi (SafeASin (hair_h b)) (hair_gamma_t b wo))"
    using HairBxDF_Sample_f_result [OF sample] by blast
  have "\<bar>si\<bar> < 1" using nondeg wi by simp
  then have pos: "0 < SafeSqrt (1 - Sqr si)" by (rule SafeSqrt_pos)
  obtain k :: int where
    k: "atan2 (vz (bs_wi bs)) (vy (bs_wi bs)) = atan2 (vz wo) (vy wo) + dphi + 2 * pi * of_int k"
    using atan2_polar [OF pos, of "atan2 (vz wo) (vy wo) + dphi"] wi by auto
  have "atan2 (vz (bs_wi bs)) (vy (bs_wi bs)) - atan2 (vz wo) (vy wo) = dphi + 2 * pi * of_int k"
    using k by simp
  then show ?thesis
    by (simp add: HairBxDF_PDF_mixture pdf spec_lobe_mixture_periodic [OF periodic] wi)
qed

lemma HairBxDF_f_mixture:
  "HairBxDF_f H b wo wi mode i * (if 0 < AbsCosTheta wi then AbsCosTheta wi else 1) =
     spec_lobe_mixture H b (\<lambda>p. HairBxDF_f_ap H b wo p i)
        (vx wo) (SafeSqrt (1 - Sqr (vx wo))) (vx wi) (SafeSqrt (1 - Sqr (vx wi)))
        (atan2 (vz wi) (vy wi) - atan2 (vz wo) (vy wo))
        (SafeASin (hair_h b)) (hair_gamma_t b wo)"
  unfolding HairBxDF_f_def HairBxDF_f_ap_def spec_lobe_mixture_def spec_tilt_def hair_gamma_t_def Let_def split_beta
    fold_add_fun
  by (simp add: Sqr_def if_distrib [of fst] if_distrib [of snd] if_distrib [of abs] cong: if_cong)

lemma longitudinal_right_angle:
  assumes "1 \<le> (v::real)"
  shows "1 + v * ln (max (1 / (exp (1 / v) + 1)) (1 / 100000) +
                     (1 - 1 / (exp (1 / v) + 1)) * exp (- 2 / v)) = 0"
proof -
  define a where "a = exp (1 / v)"
  have a1: "1 < a" using assms by (simp add: a_def)
  have "1 / v \<le> 1" using assms by simp
  then have "a \<le> exp 1" unfolding a_def by (simp only: exp_le_cancel_iff)
  then have a3: "a \<le> 3" using exp_le by linarith
  have e2: "exp (- 2 / v) = 1 / (a * a)"
  proof -
    have "- 2 / v = - (1 / v + 1 / v)" by simp
    then show ?thesis by (simp only: exp_minus exp_add a_def inverse_eq_divide)
  qed
  have mx: "max (1 / (a + 1)) (1 / 100000) = 1 / (a + 1)"
    using a1 a3 by (simp add: max_def field_simps)
  have "1 / (a + 1) + (1 - 1 / (a + 1)) * (1 / (a * a)) = 1 / a"
  proof -
    have "a \<noteq> 0" "a + 1 \<noteq> 0" using a1 by simp_all
    then show ?thesis by (simp add: divide_simps)
  qed
  then have "ln (max (1 / (a + 1)) (1 / 100000) + (1 - 1 / (a + 1)) * exp (- 2 / v)) = ln (1 / a)"
    by (simp only: mx e2)
  also have "\<dots> = - (1 / v)"
    using a1 by (simp add: ln_div a_def)
  finally show ?thesis using assms by (simp add: a_def)
qed

lemma example_SampleDiscrete:
  "SampleDiscrete example_helpers [1/4, 1/4, 1/4, 1/4] (7 / 8) = (3, 1 / 2)"
  by (simp add: example_helpers_def)

lemma example_fields:
  "pMax example_helpers = 3" "FastExp example_helpers = exp"
  "Mp example_helpers = (\<lambda>cosTheta_i cosTheta_o sinTheta_i sinTheta_o v. 1)"
  "Np example_helpers = (\<lambda>phi p s gamma_o gamma_t. (2 + cos (phi - example_Phi p gamma_o gamma_t)) / (4 * pi))"
  "Flags example_helpers = GlossyReflection"
  "hair_v example_hair 3 = 6859161 / 62500" "hair_h example_hair = 0"
  by (simp_all add: example_helpers_def example_hair_def)

lemma example_cosTheta:
  "1 + 6859161 / 62500 * ln (max (1 / (exp (62500 / 6859161) + 1)) (1 / 100000) +
       (1 - 1 / (exp (62500 / 6859161) + 1)) * exp (- 2 / (6859161 / 62500))) = (0::real)"
  using longitudinal_right_angle [of "6859161 / 62500"] by simp

lemma atan2_0_1: "atan2 0 1 = 0" "atan2 0 0 = 0"
  by (simp_all add: atan2_eq)

lemma example_SampleDiscrete_sixth:
  "SampleDiscrete example_helpers [1/4, 1/4, 1/4, 1/4] (19 / 24) = (3, 1 / 6)"
  by (simp add: example_helpers_def)

lemma cos_third: "cos (2 * pi / 3) = - (1 / 2)" "cos (5 * pi / 3) = 1 / 2"
  "cos (pi / 3) = 1 / 2" "sin (pi / 3) = sqrt 3 / 2"
proof -
  have "cos (pi - pi / 3) = - cos (pi / 3)" by (rule cos_pi_minus)
  moreover have "pi - pi / 3 = 2 * pi / 3" by simp
  ultimately show "cos (2 * pi / 3) = - (1 / 2)" by (simp add: cos_60)
  have "cos (2 * pi - pi / 3) = cos (pi / 3)" by (rule cos_2pi_minus)
  moreover have "2 * pi - pi / 3 = 5 * pi / 3" by simp
  ultimately show "cos (5 * pi / 3) = 1 / 2" by (simp add: cos_60)
  show "cos (pi / 3) = 1 / 2" by (simp add: cos_60)
  show "sin (pi / 3) = sqrt 3 / 2" by (simp add: sin_60)
qed

lemma example_sample_axis:
  "HairBxDF_Sample_f example_helpers example_hair (Vector3f 0 1 0) (19 / 24)
      (1 / (exp (62500 / 6859161) + 1), 0) mode fl =
   Some \<lparr>bs_f = (\<lambda>i. Fin (HairBxDF_f example_helpers example_hair (Vector3f 0 1 0) (Vector3f 1 0 0) mode i)),
         bs_wi = Vector3f 1 0 0, bs_pdf = Fin (17 / (32 * pi)),
         bs_flags = GlossyReflection, bs_eta = None\<rparr>"
  unfolding HairBxDF_Sample_f_def example_ApPDF Let_def example_SampleDiscrete_sixth prod.case
  apply (simp only: example_fields fst_conv snd_conv example_cosTheta)
  by (simp add: upt4 atan2_0_1 SafeSqrt_def Sqr_def SafeASin_def example_Phi_def cos_third)

lemma example_PDF:
  "HairBxDF_PDF example_helpers example_hair (Vector3f 0 1 0) (Vector3f 1 0 0) mode fl = 9 / (16 * pi)"
  unfolding HairBxDF_PDF_def example_ApPDF Let_def
  apply (simp only: example_fields)
  by (simp add: upt4 atan2_0_1 SafeSqrt_def Sqr_def SafeASin_def example_Phi_def)

text \<open>
  The claim as stated, for every \<open>wo\<close>, \<open>uc\<close> and \<open>u\<close>, fails where the sampled direction
  is along the fibre axis: \<open>cosTheta_i\<close> is zero, the components \<open>wi.y\<close> and \<open>wi.z\<close> are
  zeros that keep only the signs of \<open>cos phi_i\<close> and \<open>sin phi_i\<close>, and \<open>PDF\<close> cannot recover
  \<open>phi_i\<close> from them. With \<open>wo = (0, 1, 0)\<close>, \<open>uc = 19/24\<close> (the residual lobe, remapped to
  \<open>1/6\<close>, so \<open>dphi = pi/3\<close> and \<open>phi_i = pi/3\<close>) and \<open>u = (1 / (exp (1/v) + 1), 0)\<close> for
  \<open>v = v[3] = 6859161/62500\<close>, the sampled longitudinal angle is a right angle and
  \<open>wi = (1, 0 * cos phi_i, 0 * sin phi_i)\<close>. Both factors are positive, so both zeros are
  positive zeros, and the library's \<open>atan2\<close> of two zeros with the sign bits of these
  products is \<open>0\<close>, the value of \<open>atan2 0 0\<close>: \<open>PDF\<close> evaluates the azimuthal lobes at \<open>0\<close>,
  \<open>Sample_f\<close> evaluated them at \<open>pi/3\<close>.
\<close>

theorem HairBxDF_density_axis_counterexample:
  "map_option bs_wi (HairBxDF_Sample_f example_helpers example_hair (Vector3f 0 1 0) (19 / 24)
      (1 / (exp (62500 / 6859161) + 1), 0) Radiance {})
     = Some (Vector3f 1 (0 * cos (atan2 0 1 + 2 * pi * (1 / 6))) (0 * sin (atan2 0 1 + 2 * pi * (1 / 6))))
   \<and> 0 < cos (atan2 0 1 + 2 * pi * (1 / 6)) \<and> 0 < sin (atan2 0 1 + 2 * pi * (1 / 6))
   \<and> atan2_signbit (sin (atan2 0 1 + 2 * pi * (1 / 6)) < 0) (cos (atan2 0 1 + 2 * pi * (1 / 6)) < 0) 0 0
       = atan2 0 0
   \<and> map_option bs_pdf (HairBxDF_Sample_f example_helpers example_hair (Vector3f 0 1 0) (19 / 24)
      (1 / (exp (62500 / 6859161) + 1), 0) Radiance {}) = Some (Fin (17 / (32 * pi)))
   \<and> HairBxDF_PDF example_helpers example_hair (Vector3f 0 1 0) (Vector3f 1 0 0) Radiance {}
        = 9 / (16 * pi)
   \<and> Fin (17 / (32 * pi)) \<noteq> Fin (9 / (16 * pi))"
proof -
  have a: "atan2 0 1 + 2 * pi * (1 / 6) = pi / 3" by (simp add: atan2_0_1)
  have ne: "17 / (32 * pi) \<noteq> 9 / (16 * pi)" by (simp add: field_simps)
  show ?thesis
    unfolding a cos_third
    by (simp add: example_sample_axis example_PDF ne atan2_def atan2_signbit_def)
qed

text \<open>
  Claim C1 (as amended). Let the azimuthal lobe function \<open>Np\<close> be \<open>2 pi\<close>-periodic in its
  angle. For every \<open>wo\<close>, \<open>uc\<close>, \<open>u\<close> whose sampled direction \<open>wi\<close> is not along the fibre
  axis (\<open>|wi.x| < 1\<close>), the density that \<open>HairBxDF::Sample_f\<close> returns equals
  \<open>HairBxDF::PDF(wo, wi)\<close>. That density is the mixture over all \<open>pMax + 1\<close> lobes, the
  residual included, weighted by \<open>ApPDF\<close>; \<open>HairBxDF::f(wo, wi)\<close> is the same per-lobe
  expression weighted by \<open>Ap\<close> and divided by \<open>|cos theta_i|\<close> where that is positive.
\<close>

theorem HairBxDF_Sample_f_density_is_PDF:
  assumes periodic: "\<forall>phi p s go gt (k::int). Np H (phi + 2 * pi * of_int k) p s go gt = Np H phi p s go gt"
      and sample: "HairBxDF_Sample_f H b wo uc u mode fl = Some bs"
      and nondeg: "\<bar>vx (bs_wi bs)\<bar> < 1"
  shows "bs_pdf bs = Fin (HairBxDF_PDF H b wo (bs_wi bs) mode fl)
       \<and> HairBxDF_PDF H b wo (bs_wi bs) mode fl =
           spec_lobe_mixture H b (\<lambda>p. ApPDF H b (SafeSqrt (1 - Sqr (vx wo))) ! p)
             (vx wo) (SafeSqrt (1 - Sqr (vx wo)))
             (vx (bs_wi bs)) (SafeSqrt (1 - Sqr (vx (bs_wi bs))))
             (atan2 (vz (bs_wi bs)) (vy (bs_wi bs)) - atan2 (vz wo) (vy wo))
             (SafeASin (hair_h b)) (hair_gamma_t b wo)
       \<and> (\<forall>i. HairBxDF_f H b wo (bs_wi bs) mode i *
                 (if 0 < AbsCosTheta (bs_wi bs) then AbsCosTheta (bs_wi bs) else 1) =
           spec_lobe_mixture H b (\<lambda>p. HairBxDF_f_ap H b wo p i)
             (vx wo) (SafeSqrt (1 - Sqr (vx wo)))
             (vx (bs_wi bs)) (SafeSqrt (1 - Sqr (vx (bs_wi bs))))
             (atan2 (vz (bs_wi bs)) (vy (bs_wi bs)) - atan2 (vz wo) (vy wo))
             (SafeASin (hair_h b)) (hair_gamma_t b wo))"
  using HairBxDF_density_consistent [OF periodic sample nondeg]
        HairBxDF_PDF_mixture [of H b wo "bs_wi bs" mode fl]
        HairBxDF_f_mixture [of H b wo "bs_wi bs" mode]
  by blast

lemma example_Np_periodic:
  "\<forall>phi p s go gt (k::int).
      Np example_helpers (phi + 2 * pi * of_int k) p s go gt = Np example_helpers phi p s go gt"
proof -
  have "cos (phi + 2 * pi * of_int k - c) = cos (phi - c)" for phi c :: real and k :: int
  proof -
    have "phi + 2 * pi * of_int k - c = (phi - c) + 2 * pi * of_int k" by simp
    then have "\<exists>n::int. phi + 2 * pi * of_int k - c = (phi - c) + 2 * pi * of_int n" by blast
    then show ?thesis by (simp only: sin_cos_eq_iff [symmetric])
  qed
  then show ?thesis by (simp add: example_helpers_def)
qed

lemma example_sample_wi:
  "bs_wi (the (HairBxDF_Sample_f example_helpers example_hair (Vector3f 0 1 0) (7 / 8) (1 / 2, 1 / 4)
             Radiance {})) = Vector3f 0 (- 1) 0"
  unfolding HairBxDF_Sample_f_def example_ApPDF Let_def example_SampleDiscrete prod.case
  apply (simp only: example_fields fst_conv snd_conv)
  by (simp add: upt4 atan2_0_1 SafeSqrt_def Sqr_def SafeASin_def example_Phi_def)

theorem HairBxDF_Sample_f_density_is_PDF_witness:
  "(\<forall>phi p s go gt (k::int).
      Np example_helpers (phi + 2 * pi * of_int k) p s go gt = Np example_helpers phi p s go gt)
   \<and> HairBxDF_Sample_f example_helpers example_hair (Vector3f 0 1 0) (7 / 8) (1 / 2, 1 / 4) Radiance {}
       \<noteq> None
   \<and> bs_wi (the (HairBxDF_Sample_f example_helpers example_hair (Vector3f 0 1 0) (7 / 8) (1 / 2, 1 / 4)
             Radiance {})) = Vector3f 0 (- 1) 0
   \<and> bs_pdf (the (HairBxDF_Sample_f example_helpers example_hair (Vector3f 0 1 0) (7 / 8) (1 / 2, 1 / 4)
             Radiance {}))
      = Fin (HairBxDF_PDF example_helpers example_hair (Vector3f 0 1 0) (Vector3f 0 (- 1) 0) Radiance {})"
proof -
  let ?s = "HairBxDF_Sample_f example_helpers example_hair (Vector3f 0 1 0) (7 / 8) (1 / 2, 1 / 4) Radiance {}"
  have some: "?s = Some (the ?s)"
    by (simp add: HairBxDF_Sample_f_def Let_def split_beta)
  have nondeg: "\<bar>vx (bs_wi (the ?s))\<bar> < 1"
    by (simp only: example_sample_wi) simp
  have nn: "?s \<noteq> None"
    by (simp add: HairBxDF_Sample_f_def Let_def split_beta)
  have "bs_pdf (the ?s) =
          Fin (HairBxDF_PDF example_helpers example_hair (Vector3f 0 1 0) (bs_wi (the ?s)) Radiance {})"
    using HairBxDF_Sample_f_density_is_PDF [OF example_Np_periodic some nondeg] by (rule conjunct1)
  then have r: "bs_pdf (the ?s) =
          Fin (HairBxDF_PDF example_helpers example_hair (Vector3f 0 1 0) (Vector3f 0 (- 1) 0) Radiance {})"
    by (simp only: example_sample_wi)
  show ?thesis
    by (intro conjI) (fact example_Np_periodic nn example_sample_wi r)+
qed

subsection \<open>The impact angles of the table-driven variant\<close>

lemma Average_lobe_update [simp]:
  "Average (H\<lparr>Np := n\<rparr>) a = Average H a" "Average (H\<lparr>Phi := q\<rparr>) a = Average H a"
  by (simp_all add: Average_def)

lemma ComputeApPdf_lobe_update [simp]:
  "ComputeApPdf (H\<lparr>Np := n\<rparr>) b c wo = ComputeApPdf H b c wo"
  "ComputeApPdf (H\<lparr>Phi := q\<rparr>) b c wo = ComputeApPdf H b c wo"
  by (simp_all add: ComputeApPdf_def)

lemma LookupBRDFTable_lobe_update [simp]:
  "LookupBRDFTable (H\<lparr>Np := n\<rparr>) tbl it ot = LookupBRDFTable H tbl it ot"
  "LookupBRDFTable (H\<lparr>Phi := q\<rparr>) tbl it ot = LookupBRDFTable H tbl it ot"
  by (simp_all add: LookupBRDFTable_def)

lemma MorphoBSDF_f_lobe_update [simp]:
  "MorphoBSDF_f (H\<lparr>Np := n\<rparr>) tbl b wo wi mode = MorphoBSDF_f H tbl b wo wi mode"
  "MorphoBSDF_f (H\<lparr>Phi := q\<rparr>) tbl b wo wi mode = MorphoBSDF_f H tbl b wo wi mode"
  by (simp_all add: MorphoBSDF_f_def)

text \<open>
  Claim C8 (as amended). In \<open>MorphoBSDF::Sample_f\<close> every call of \<open>Phi\<close> and of \<open>Np\<close> has
  both impact-angle arguments equal to the incident impact angle \<open>gamma_o = SafeASin(h)\<close>:
  the result is the same when the two helpers are replaced by ones that ignore their
  impact-angle arguments and use \<open>gamma_o\<close> twice. \<open>MorphoBSDF::Pdf\<close> does not call \<open>Phi\<close>
  (its result does not depend on \<open>Phi\<close>), and it calls \<open>Np\<close> with the pair
  \<open>(gamma_o, gamma_t)\<close> of the primary hair model.
\<close>

theorem MorphoBSDF_Sample_f_pins_gamma_o:
  "MorphoBSDF_Sample_f (pin_impact_angles (SafeASin (hair_h b)) H) tbl b wo uc u mode fl
     = MorphoBSDF_Sample_f H tbl b wo uc u mode fl
   \<and> MorphoBSDF_Pdf (H\<lparr>Phi := any_Phi\<rparr>) tbl b wo wi mode fl = MorphoBSDF_Pdf H tbl b wo wi mode fl
   \<and> MorphoBSDF_Pdf (H\<lparr>Np := (\<lambda>phi p s gamma_o gamma_t.
          Np H phi p s (SafeASin (hair_h b))
            (SafeASin (hair_h b / (SafeSqrt (Sqr (hair_eta b) - Sqr (vx wo)) / SafeSqrt (1 - Sqr (vx wo))))))\<rparr>)
        tbl b wo wi mode fl = MorphoBSDF_Pdf H tbl b wo wi mode fl"
  by (simp add: MorphoBSDF_Sample_f_def MorphoBSDF_Pdf_def pin_impact_angles_def Let_def split_beta)

lemma arcsin_half: "arcsin (1 / 2) = pi / 6"
  using arcsin_sin [of "pi / 6"] by (simp add: sin_30)

lemma probe_ComputeApPdf: "ComputeApPdf gamma_t_probe b c wo = [1/4, 1/4, 1/4, 1/4]"
  by (simp add: ComputeApPdf_def gamma_t_probe_def example_helpers_def Let_def upt4 Average_def)

lemma probe_ComputeApPdf': "ComputeApPdf (pin_impact_angles g gamma_t_probe) b c wo = [1/4, 1/4, 1/4, 1/4]"
  by (simp add: ComputeApPdf_def gamma_t_probe_def example_helpers_def Let_def upt4 Average_def
      pin_impact_angles_def)

text \<open>
  The density path of the claim as stated: \<open>MorphoBSDF::Pdf\<close> passes the refracted angle.
  For \<open>h = 1\<close>, \<open>eta = 2\<close> and \<open>wo = (0, 1, 0)\<close> the angles are \<open>gamma_o = pi/2\<close> and
  \<open>gamma_t = pi/6\<close>; with the probe for \<open>Np\<close>, three lobes of weight \<open>1/4\<close> and the
  residual \<open>1/(8 pi)\<close>, \<open>Pdf\<close> returns \<open>3/4 * pi/6 + 1/(8 pi)\<close>, and not the
  \<open>3/4 * pi/2 + 1/(8 pi)\<close> of a function that passed \<open>gamma_o\<close> twice.
\<close>

theorem MorphoBSDF_Pdf_reads_gamma_t:
  "MorphoBSDF_Pdf gamma_t_probe example_table example_morpho (Vector3f 0 1 0) (Vector3f 0 1 0)
      Radiance {} = 3 / 4 * (pi / 6) + 1 / (8 * pi)
   \<and> MorphoBSDF_Pdf (pin_impact_angles (SafeASin (hair_h example_morpho)) gamma_t_probe)
        example_table example_morpho (Vector3f 0 1 0) (Vector3f 0 1 0) Radiance {}
      = 3 / 4 * (pi / 2) + 1 / (8 * pi)
   \<and> MorphoBSDF_Pdf (pin_impact_angles (SafeASin (hair_h example_morpho)) gamma_t_probe)
        example_table example_morpho (Vector3f 0 1 0) (Vector3f 0 1 0) Radiance {}
      \<noteq> MorphoBSDF_Pdf gamma_t_probe example_table example_morpho (Vector3f 0 1 0) (Vector3f 0 1 0)
          Radiance {}"
proof -
  have a: "MorphoBSDF_Pdf gamma_t_probe example_table example_morpho (Vector3f 0 1 0) (Vector3f 0 1 0)
      Radiance {} = 3 / 4 * (pi / 6) + 1 / (8 * pi)"
    unfolding MorphoBSDF_Pdf_def probe_ComputeApPdf Let_def
    by (simp add: gamma_t_probe_def example_helpers_def example_morpho_def example_table_def upt4
        SafeSqrt_def Sqr_def SafeASin_def LookupBRDFTable_def Average_def arcsin_half)
  have b: "MorphoBSDF_Pdf (pin_impact_angles (SafeASin (hair_h example_morpho)) gamma_t_probe)
        example_table example_morpho (Vector3f 0 1 0) (Vector3f 0 1 0) Radiance {}
      = 3 / 4 * (pi / 2) + 1 / (8 * pi)"
    unfolding MorphoBSDF_Pdf_def probe_ComputeApPdf' Let_def
    by (simp add: gamma_t_probe_def example_helpers_def example_morpho_def example_table_def upt4
        SafeSqrt_def Sqr_def SafeASin_def LookupBRDFTable_def Average_def arcsin_half
        pin_impact_angles_def)
  have "3 / 4 * (pi / 6) + 1 / (8 * pi) \<noteq> 3 / 4 * (pi / 2) + 1 / (8 * pi)"
    using pi_gt_zero by simp
  then show ?thesis using a b by simp
qed

subsection \<open>Sampling the smooth dielectric\<close>

text \<open>
  Claim C3. In the smooth case (relative index 1, or an effectively smooth distribution),
  with \<open>R\<close> the Fresnel reflectance at \<open>cos theta_o\<close>, \<open>T = 1 - R\<close>, and \<open>pr\<close>, \<open>pt\<close> the two
  after masking by the sample filter: \<open>Sample_f\<close> returns no sample when both are zero;
  when \<open>uc < pr / (pr + pt)\<close> it returns the mirrored direction with weight
  \<open>R / |cos theta_i|\<close>, density \<open>pr / (pr + pt)\<close> and the flags of a specular reflection;
  otherwise it refracts: no sample on total internal reflection, else the refracted
  direction with weight \<open>T / |cos theta_i|\<close>, divided by the squared relative index in
  Radiance mode, and density \<open>pt / (pr + pt)\<close>. The sum \<open>pr + pt\<close> is not zero unless both
  are.
\<close>

theorem DielectricBxDF_Sample_f_smooth:
  assumes smooth: "diel_eta bx = 1 \<or> mf_EffectivelySmooth (diel_mfDistrib bx)"
      and R: "R = FrDielectric S (CosTheta wo) (diel_eta bx)"
      and T: "T = 1 - R"
      and pr: "pr = (if ReflTrans_Reflection \<in> sampleFlags then R else 0)"
      and pt: "pt = (if ReflTrans_Transmission \<in> sampleFlags then T else 0)"
  shows "(pr = 0 \<and> pt = 0 \<longrightarrow> DielectricBxDF_Sample_f S bx wo uc u mode sampleFlags = Inr None)
       \<and> (\<not> (pr = 0 \<and> pt = 0) \<and> uc < pr / (pr + pt) \<longrightarrow>
            DielectricBxDF_Sample_f S bx wo uc u mode sampleFlags =
              Inr (Some \<lparr>bs_f = (\<lambda>_. fdiv (Fin R) (Fin \<bar>vz wo\<bar>)),
                         bs_wi = Vector3f (- vx wo) (- vy wo) (vz wo),
                         bs_pdf = Fin (pr / (pr + pt)),
                         bs_flags = SpecularReflection, bs_eta = None\<rparr>))
       \<and> (\<not> (pr = 0 \<and> pt = 0) \<and> \<not> uc < pr / (pr + pt) \<longrightarrow>
            DielectricBxDF_Sample_f S bx wo uc u mode sampleFlags =
              (case Refract S wo (Vector3f 0 0 1) (diel_eta bx) of
                 None \<Rightarrow> Inr None
               | Some (etap, wi) \<Rightarrow>
                   Inr (Some \<lparr>bs_f = (\<lambda>_. if mode = Radiance
                                           then fdiv (fdiv (Fin T) (Fin \<bar>vz wi\<bar>)) (Fin (etap * etap))
                                           else fdiv (Fin T) (Fin \<bar>vz wi\<bar>)),
                              bs_wi = wi,
                              bs_pdf = Fin (pt / (pr + pt)),
                              bs_flags = SpecularTransmission, bs_eta = Some etap\<rparr>)))
       \<and> (\<not> (pr = 0 \<and> pt = 0) \<longrightarrow> pr + pt \<noteq> 0)"
proof -
  have nz: "\<not> (pr = 0 \<and> pt = 0) \<Longrightarrow> pr + pt \<noteq> 0"
    using R T pr pt by (auto split: if_splits)
  show ?thesis
    using smooth nz
    by (auto simp: DielectricBxDF_Sample_f_def Let_def R T pr pt AbsCosTheta_def Sqr_def
             split: option.splits)
qed


lemma Fresnel_normal: "Fresnel_FrDielectric 1 (3 / 2) = 1 / 25"
  by (simp add: Fresnel_FrDielectric_def Let_def Sqr_def SafeSqrt_def)

lemma Fresnel_grazing: "Fresnel_FrDielectric 0 (3 / 2) = 1"
  by (simp add: Fresnel_FrDielectric_def Let_def Sqr_def SafeSqrt_def)

theorem DielectricBxDF_Sample_f_smooth_witness:
  "(diel_eta polished_glass = 1 \<or> mf_EffectivelySmooth (diel_mfDistrib polished_glass))
   \<and> 1 / 25 = FrDielectric physical_helpers (CosTheta (Vector3f 0 0 1)) (diel_eta polished_glass)
   \<and> DielectricBxDF_Sample_f physical_helpers polished_glass (Vector3f 0 0 1) (1 / 100) (0, 0) Radiance
         {ReflTrans_Reflection, ReflTrans_Transmission} =
       Inr (Some \<lparr>bs_f = (\<lambda>_. Fin (1 / 25)), bs_wi = Vector3f 0 0 1, bs_pdf = Fin (1 / 25),
                  bs_flags = SpecularReflection, bs_eta = None\<rparr>)"
proof -
  have smooth: "diel_eta polished_glass = 1 \<or> mf_EffectivelySmooth (diel_mfDistrib polished_glass)"
    by (simp add: polished_glass_def smooth_mf_def)
  have R: "1 / 25 = FrDielectric physical_helpers (CosTheta (Vector3f 0 0 1)) (diel_eta polished_glass)"
    by (simp add: physical_helpers_def polished_glass_def CosTheta_def Fresnel_normal)
  have T: "(24 / 25 :: real) = 1 - 1 / 25" by simp
  have pr: "(1 / 25 :: real) = (if ReflTrans_Reflection \<in> {ReflTrans_Reflection, ReflTrans_Transmission}
                                then 1 / 25 else 0)" by simp
  have pt: "(24 / 25 :: real) = (if ReflTrans_Transmission \<in> {ReflTrans_Reflection, ReflTrans_Transmission}
                                then 24 / 25 else 0)" by simp
  have main: "DielectricBxDF_Sample_f physical_helpers polished_glass (Vector3f 0 0 1) (1 / 100) (0, 0)
         Radiance {ReflTrans_Reflection, ReflTrans_Transmission} =
       Inr (Some \<lparr>bs_f = (\<lambda>_. Fin (1 / 25)), bs_wi = Vector3f 0 0 1, bs_pdf = Fin (1 / 25),
                  bs_flags = SpecularReflection, bs_eta = None\<rparr>)"
    using DielectricBxDF_Sample_f_smooth [OF smooth R T pr pt, of "1 / 100" "(0, 0)" Radiance]
    by simp
  show ?thesis
    by (intro conjI) (fact smooth R main)+
qed

text \<open>
  The claim C4 as stated, for the sampling of the smooth dielectric: at \<open>wo = (1, 0, 0)\<close>,
  where \<open>wo.z = 0\<close>, the Fresnel reflectance is 1, reflection is chosen, and the sample
  returned carries the weight \<open>1 / 0\<close>.
\<close>

theorem DielectricBxDF_Sample_f_grazing_counterexample:
  "DielectricBxDF_Sample_f physical_helpers polished_glass (Vector3f 1 0 0) (1 / 2) (0, 0) Radiance
      {ReflTrans_Reflection, ReflTrans_Transmission} =
     Inr (Some \<lparr>bs_f = (\<lambda>_. Infty), bs_wi = Vector3f (- 1) 0 0, bs_pdf = Fin 1,
                bs_flags = SpecularReflection, bs_eta = None\<rparr>)
   \<and> vz (Vector3f 1 0 0) = 0"
  by (simp add: DielectricBxDF_Sample_f_def polished_glass_def smooth_mf_def physical_helpers_def
      CosTheta_def AbsCosTheta_def Fresnel_grazing Let_def)

subsection \<open>Degenerate directions\<close>

lemma LengthSquared_zero: "LengthSquared a = 0 \<longleftrightarrow> vx a = 0 \<and> vy a = 0 \<and> vz a = 0"
proof -
  have "vx a * vx a + vy a * vy a + vz a * vz a = 0 \<longleftrightarrow> vx a = 0 \<and> vy a = 0 \<and> vz a = 0"
    using sum_squares_eq_zero_iff [of "vx a" "vy a"] 
    by (smt (verit) mult_eq_0_iff zero_le_square add_nonneg_eq_0_iff add_nonneg_nonneg)
  then show ?thesis by (simp add: LengthSquared_def Sqr_def)
qed

lemma DielectricBxDF_f_degenerate:
  assumes "vz wo = 0 \<or> vz wi = 0 \<or> LengthSquared (Dielectric_wm bx wo wi) = 0"
  shows "DielectricBxDF_f S bx wo wi mode = (\<lambda>_. 0)"
  using assms
  by (auto simp: DielectricBxDF_f_def Dielectric_wm_def Dielectric_etap_def Let_def CosTheta_def)

lemma MeasuredBxDF_f_degenerate:
  assumes "vz wo = 0 \<or> vz wi = 0 \<or> LengthSquared (vadd wi wo) = 0"
  shows "MeasuredBxDF_f P m wo wi mode = (\<lambda>_. 0)"
proof -
  have "\<not> SameHemisphere wo wi"
  proof -
    consider "vz wo = 0" | "vz wi = 0" | "LengthSquared (vadd wi wo) = 0" using assms by blast
    then show ?thesis
    proof cases
      case 3
      then have "vz wi = - vz wo" by (simp add: LengthSquared_zero vadd_def)
      then have "vz wo * vz wi = - (vz wo * vz wo)" by simp
      then have "vz wo * vz wi \<le> 0" by simp
      then show ?thesis by (simp add: SameHemisphere_def)
    qed (simp_all add: SameHemisphere_def)
  qed
  then show ?thesis by (simp add: MeasuredBxDF_f_def)
qed

text \<open>
  Claim C4 (as amended). \<open>DielectricBxDF::f\<close> returns the zero spectrum when \<open>wo.z = 0\<close>,
  when \<open>wi.z = 0\<close> and when the generalised half-vector has zero length;
  \<open>MeasuredBxDF::f\<close> returns the zero spectrum when \<open>wo.z = 0\<close>, when \<open>wi.z = 0\<close> and when
  \<open>wi + wo\<close> has zero length. Both are total: nothing is raised.
\<close>

theorem evaluate_degenerate_is_zero:
  "(vz wo = 0 \<or> vz wi = 0 \<or> LengthSquared (Dielectric_wm bx wo wi) = 0
      \<longrightarrow> DielectricBxDF_f S bx wo wi mode = (\<lambda>_. 0))
   \<and> (vz wo = 0 \<or> vz wi = 0 \<or> LengthSquared (vadd wi wo) = 0
      \<longrightarrow> MeasuredBxDF_f P m wo wi mode = (\<lambda>_. 0))"
  using DielectricBxDF_f_degenerate MeasuredBxDF_f_degenerate by blast

theorem evaluate_degenerate_is_zero_witness:
  "vz (Vector3f 1 0 0) = 0
   \<and> DielectricBxDF_f physical_helpers rough_glass (Vector3f 1 0 0) (Vector3f 0 0 1) Radiance = (\<lambda>_. 0)
   \<and> LengthSquared (Dielectric_wm rough_glass (Vector3f 0 0 1) (Vector3f 0 0 (- 2 / 3))) = 0
   \<and> DielectricBxDF_f physical_helpers rough_glass (Vector3f 0 0 1) (Vector3f 0 0 (- 2 / 3)) Radiance
       = (\<lambda>_. 0)
   \<and> MeasuredBxDF_f flat_interpolants flat_measured (Vector3f 1 0 0) (Vector3f 0 0 1) Radiance
       = (\<lambda>_. 0)
   \<and> LengthSquared (vadd (Vector3f 0 0 (- 1)) (Vector3f 0 0 1)) = 0
   \<and> MeasuredBxDF_f flat_interpolants flat_measured (Vector3f 0 0 1) (Vector3f 0 0 (- 1)) Radiance
       = (\<lambda>_. 0)"
proof -
  have a: "vz (Vector3f 1 0 0) = 0" by simp
  have b: "LengthSquared (Dielectric_wm rough_glass (Vector3f 0 0 1) (Vector3f 0 0 (- 2 / 3))) = 0"
    by (simp add: Dielectric_wm_def Dielectric_etap_def rough_glass_def LengthSquared_def Sqr_def
        vadd_def vscale_def CosTheta_def)
  have c: "LengthSquared (vadd (Vector3f 0 0 (- 1)) (Vector3f 0 0 1)) = 0"
    by (simp add: LengthSquared_def Sqr_def vadd_def)
  note t = evaluate_degenerate_is_zero
  show ?thesis
    using a b c
      t [of "Vector3f 1 0 0" "Vector3f 0 0 1" rough_glass physical_helpers Radiance
            flat_interpolants flat_measured]
      t [of "Vector3f 0 0 1" "Vector3f 0 0 (- 2 / 3)" rough_glass physical_helpers Radiance
            flat_interpolants flat_measured]
      t [of "Vector3f 0 0 1" "Vector3f 0 0 (- 1)" rough_glass physical_helpers Radiance
            flat_interpolants flat_measured]
    by simp
qed

subsection \<open>Reciprocity of evaluate\<close>

lemma Dot_commute: "Dot a b = Dot b a"
  by (simp add: Dot_def mult.commute)

lemma Dot_vadd: "Dot (vadd a b) c = Dot a c + Dot b c" "Dot c (vadd a b) = Dot c a + Dot c b"
  by (simp_all add: Dot_def vadd_def algebra_simps)

lemma Dot_vscale: "Dot (vscale a k) c = k * Dot a c" "Dot c (vscale a k) = k * Dot c a"
  by (simp_all add: Dot_def vscale_def algebra_simps)

lemma Dot_vneg: "Dot (vneg a) c = - Dot a c" "Dot c (vneg a) = - Dot c a"
  by (simp_all add: Dot_def vneg_def algebra_simps)

lemma LengthSquared_Dot: "LengthSquared a = Dot a a"
  by (simp add: LengthSquared_def Dot_def Sqr_def)

lemma LengthSquared_nonneg: "0 \<le> LengthSquared a"
  by (simp add: LengthSquared_def Sqr_def)

lemma Dot_Normalize: "Dot (Normalize a) c = Dot a c / Length a" "Dot c (Normalize a) = Dot c a / Length a"
  by (simp_all add: Dot_def Normalize_def add_divide_distrib)

lemma Dot_FaceForward:
  "Dot (FaceForward a n) c = (if Dot a n < 0 then - Dot a c else Dot a c)"
  "Dot c (FaceForward a n) = (if Dot a n < 0 then - Dot c a else Dot c a)"
  by (simp_all add: FaceForward_def Dot_vneg)

lemma Length_vscale: "Length (vscale a k) = \<bar>k\<bar> * Length a"
proof -
  have "LengthSquared (vscale a k) = k * k * LengthSquared a"
    by (simp add: LengthSquared_def Sqr_def vscale_def algebra_simps)
  then show ?thesis
    by (simp add: Length_def real_sqrt_mult)
qed

lemma Normalize_vscale: "0 < k \<Longrightarrow> Normalize (vscale a k) = Normalize a"
  by (simp add: Normalize_def Length_vscale) (simp add: vscale_def)

lemma vadd_commute: "vadd a b = vadd b a"
  by (simp add: vadd_def add.commute)

lemma unit_Dot_bounds:
  assumes "unit_vector a" "unit_vector b"
  shows "- 1 \<le> Dot a b" "Dot a b \<le> 1"
proof -
  have "0 \<le> LengthSquared (vadd a b)" by (rule LengthSquared_nonneg)
  then have "0 \<le> 2 + 2 * Dot a b"
    using assms by (simp add: LengthSquared_Dot Dot_vadd unit_vector_def Dot_commute)
  then show "- 1 \<le> Dot a b" by simp
  have "0 \<le> LengthSquared (vadd a (vneg b))" by (rule LengthSquared_nonneg)
  then have "0 \<le> 2 - 2 * Dot a b"
    using assms by (simp add: LengthSquared_Dot Dot_vadd Dot_vneg unit_vector_def Dot_commute)
  then show "Dot a b \<le> 1" by simp
qed

lemma half_vector_cosines:
  assumes uo: "unit_vector wo" and ui: "unit_vector wi" and e: "0 < e"
      and h: "h = vadd (vscale wi e) wo" and nz: "LengthSquared h \<noteq> 0"
      and wm: "wm = FaceForward (Normalize h) n"
  shows "1 - Dot wo wm * Dot wo wm = e * e * (1 - Dot wi wm * Dot wi wm)"
    and "Dot wo wm * Dot wo wm \<le> 1" and "Dot wi wm * Dot wi wm \<le> 1"
proof -
  define c where "c = Dot wo wi"
  define L2 where "L2 = LengthSquared h"
  have L2pos: "0 < L2" using nz LengthSquared_nonneg [of h] by (simp add: L2_def)
  have oo: "Dot wo wo = 1" and ii: "Dot wi wi = 1" using uo ui by (simp_all add: unit_vector_def)
  have io: "Dot wi wo = c" by (simp add: c_def Dot_commute)
  have oh: "Dot wo h = e * c + 1" by (simp add: h Dot_vadd Dot_vscale oo c_def)
  have ih: "Dot wi h = e + c" by (simp add: h Dot_vadd Dot_vscale ii io)
  have L2: "L2 = e * e + 2 * e * c + 1"
    by (simp add: L2_def LengthSquared_Dot h Dot_vadd Dot_vscale oo ii io c_def algebra_simps)
  have LL: "Length h * Length h = L2" using L2pos by (simp add: Length_def L2_def)
  have aa: "Dot wo wm * Dot wo wm = (e * c + 1) * (e * c + 1) / L2"
    by (simp add: wm Dot_FaceForward Dot_Normalize oh LL)
  have bb: "Dot wi wm * Dot wi wm = (e + c) * (e + c) / L2"
    by (simp add: wm Dot_FaceForward Dot_Normalize ih LL)
  have cb: "c * c \<le> 1"
    using unit_Dot_bounds [OF uo ui] unfolding c_def [symmetric]
    by (metis abs_le_iff abs_mult_self_eq minus_le_iff mult_mono' abs_ge_zero mult_1)
  have 1: "1 - (e * c + 1) * (e * c + 1) / L2 = e * e * (1 - c * c) / L2"
    using L2pos by (simp add: field_simps L2)
  have 2: "1 - (e + c) * (e + c) / L2 = (1 - c * c) / L2"
    using L2pos by (simp add: field_simps L2)
  show "1 - Dot wo wm * Dot wo wm = e * e * (1 - Dot wi wm * Dot wi wm)"
    by (simp only: aa bb 1 2) simp
  have "0 \<le> e * e * (1 - c * c) / L2" using L2pos cb e by simp
  then show "Dot wo wm * Dot wo wm \<le> 1" using 1 aa by simp
  have "0 \<le> (1 - c * c) / L2" using L2pos cb by simp
  then show "Dot wi wm * Dot wi wm \<le> 1" using 2 bb by simp
qed

lemma sq_le_1_bounds: "(a::real) * a \<le> 1 \<Longrightarrow> - 1 \<le> a \<and> a \<le> 1"
  by (metis abs_le_iff abs_mult_self_eq abs_ge_zero mult_le_one mult_less_cancel_right1 
      not_le_imp_less order.strict_trans2 minus_le_iff abs_le_square_iff power2_eq_square one_power2 abs_one)

lemma half_vector_Fresnel:
  assumes uo: "unit_vector wo" and ui: "unit_vector wi" and eta: "0 < e0"
      and tr: "vz wi * vz wo < 0"
      and two: "Fresnel_two_sided S e0"
      and e: "e = (if 0 < vz wo then e0 else 1 / e0)"
      and h: "h = vadd (vscale wi e) wo" and nz: "LengthSquared h \<noteq> 0"
      and wm: "wm = FaceForward (Normalize h) n"
      and front: "\<not> (Dot wm wi * vz wi < 0 \<or> Dot wm wo * vz wo < 0)"
  shows "FrDielectric S (Dot wo wm) e0 = FrDielectric S (Dot wi wm) e0"
proof -
  have epos: "0 < e" using eta e by simp
  note hc = half_vector_cosines [OF uo ui epos h nz wm]
  have ab: "- 1 \<le> Dot wo wm \<and> Dot wo wm \<le> 1" by (rule sq_le_1_bounds) (rule hc(2))
  have bb: "- 1 \<le> Dot wi wm \<and> Dot wi wm \<le> 1" by (rule sq_le_1_bounds) (rule hc(3))
  have f1: "0 \<le> Dot wm wi * vz wi" and f2: "0 \<le> Dot wm wo * vz wo"
    using front by simp_all
  show ?thesis
  proof -
    consider (up) "0 < vz wo" "vz wi < 0" | (down) "vz wo < 0" "0 < vz wi"
      using tr by (metis mult_less_0_iff)
    then show ?thesis
    proof cases
      case up
      have a: "0 \<le> Dot wo wm" using f2 up by (simp add: Dot_commute zero_le_mult_iff)
      have b: "Dot wi wm \<le> 0" using f1 up by (simp add: Dot_commute zero_le_mult_iff)
      have "e = e0" using e up by simp
      then have "1 - Dot wo wm * Dot wo wm = e0 * e0 * (1 - Dot wi wm * Dot wi wm)"
        using hc(1) by simp
      then show ?thesis
        using two a b ab bb unfolding Fresnel_two_sided_def by blast
    next
      case down
      have a: "Dot wo wm \<le> 0" using f2 down by (simp add: Dot_commute zero_le_mult_iff)
      have b: "0 \<le> Dot wi wm" using f1 down by (simp add: Dot_commute zero_le_mult_iff)
      have "e = 1 / e0" using e down by simp
      then have "1 - Dot wo wm * Dot wo wm = (1 / e0) * (1 / e0) * (1 - Dot wi wm * Dot wi wm)"
        using hc(1) by simp
      then have "1 - Dot wi wm * Dot wi wm = e0 * e0 * (1 - Dot wo wm * Dot wo wm)"
        using eta by (simp add: field_simps)
      then have "FrDielectric S (Dot wi wm) e0 = FrDielectric S (Dot wo wm) e0"
        using two a b ab bb unfolding Fresnel_two_sided_def by blast
      then show ?thesis by simp
    qed
  qed
qed

lemma DielectricBxDF_f_transmit:
  assumes ns: "\<not> (diel_eta bx = 1 \<or> mf_EffectivelySmooth (diel_mfDistrib bx))"
      and tr: "vz wi * vz wo < 0"
  shows "DielectricBxDF_f S bx wo wi mode =
     (if LengthSquared (Dielectric_wm bx wo wi) = 0 then (\<lambda>_. 0)
      else if Dot (FaceForward (Normalize (Dielectric_wm bx wo wi)) (Vector3f 0 0 1)) wi * vz wi < 0
            \<or> Dot (FaceForward (Normalize (Dielectric_wm bx wo wi)) (Vector3f 0 0 1)) wo * vz wo < 0
      then (\<lambda>_. 0)
      else (\<lambda>_. mf_D (diel_mfDistrib bx) (FaceForward (Normalize (Dielectric_wm bx wo wi)) (Vector3f 0 0 1)) *
                (1 - FrDielectric S (Dot wo (FaceForward (Normalize (Dielectric_wm bx wo wi)) (Vector3f 0 0 1))) (diel_eta bx)) *
                mf_G (diel_mfDistrib bx) wo wi *
                \<bar>Dot wi (FaceForward (Normalize (Dielectric_wm bx wo wi)) (Vector3f 0 0 1)) *
                 Dot wo (FaceForward (Normalize (Dielectric_wm bx wo wi)) (Vector3f 0 0 1)) /
                 (Sqr (Dot wi (FaceForward (Normalize (Dielectric_wm bx wo wi)) (Vector3f 0 0 1)) +
                       Dot wo (FaceForward (Normalize (Dielectric_wm bx wo wi)) (Vector3f 0 0 1)) /
                       Dielectric_etap bx wo wi) * vz wi * vz wo)\<bar> /
                (if mode = Radiance then Sqr (Dielectric_etap bx wo wi) else 1)))"
proof -
  have "\<not> 0 < vz wi * vz wo" "vz wi \<noteq> 0" "vz wo \<noteq> 0" using tr by auto
  then show ?thesis
    using ns
    by (simp add: DielectricBxDF_f_def Dielectric_wm_def Dielectric_etap_def Let_def CosTheta_def)
qed

lemma DielectricBxDF_f_reflect:
  assumes ns: "\<not> (diel_eta bx = 1 \<or> mf_EffectivelySmooth (diel_mfDistrib bx))"
      and re: "0 < vz wi * vz wo"
  shows "DielectricBxDF_f S bx wo wi mode =
     (if Dot (FaceForward (Normalize (vadd wi wo)) (Vector3f 0 0 1)) wi * vz wi < 0
            \<or> Dot (FaceForward (Normalize (vadd wi wo)) (Vector3f 0 0 1)) wo * vz wo < 0
      then (\<lambda>_. 0)
      else (\<lambda>_. mf_D (diel_mfDistrib bx) (FaceForward (Normalize (vadd wi wo)) (Vector3f 0 0 1)) *
                mf_G (diel_mfDistrib bx) wo wi *
                FrDielectric S (Dot wo (FaceForward (Normalize (vadd wi wo)) (Vector3f 0 0 1))) (diel_eta bx) /
                \<bar>4 * vz wi * vz wo\<bar>))"
proof -
  have z: "vz wi \<noteq> 0" "vz wo \<noteq> 0" using re by auto
  have "vz wi + vz wo \<noteq> 0"
    using re by (metis add_nonneg_eq_0_iff add_nonpos_eq_0_iff less_eq_real_def linorder_le_cases mult_neg_pos mult_pos_neg not_less_iff_gr_or_eq z)
  then have "LengthSquared (vadd wi wo) \<noteq> 0"
    by (simp add: LengthSquared_zero vadd_def)
  then have "LengthSquared (vadd (vscale wi 1) wo) \<noteq> 0" by (simp add: vscale_def)
  then show ?thesis
    using ns re z
    by (simp add: DielectricBxDF_f_def Let_def CosTheta_def) (simp add: vscale_def)
qed

lemma Dielectric_etap_swap:
  assumes "vz wi * vz wo < 0" "0 < diel_eta bx"
  shows "Dielectric_etap bx wi wo = 1 / Dielectric_etap bx wo wi" "0 < Dielectric_etap bx wo wi"
proof -
  consider "0 < vz wo" "vz wi < 0" | "vz wo < 0" "0 < vz wi"
    using assms(1) by (metis mult_less_0_iff)
  then show "Dielectric_etap bx wi wo = 1 / Dielectric_etap bx wo wi"
    using assms by cases (simp_all add: Dielectric_etap_def CosTheta_def mult.commute)
  show "0 < Dielectric_etap bx wo wi"
    using assms by (simp add: Dielectric_etap_def CosTheta_def)
qed

lemma Dielectric_wm_swap:
  assumes "vz wi * vz wo < 0" "0 < diel_eta bx"
  shows "Dielectric_wm bx wi wo = vscale (Dielectric_wm bx wo wi) (1 / Dielectric_etap bx wo wi)"
proof -
  have "Dielectric_etap bx wo wi \<noteq> 0" using Dielectric_etap_swap(2) [OF assms] by simp
  then show ?thesis
    by (simp add: Dielectric_wm_def Dielectric_etap_swap(1) [OF assms] vadd_def vscale_def field_simps)
qed

lemma LengthSquared_vscale: "LengthSquared (vscale a k) = k * k * LengthSquared a"
  by (simp add: LengthSquared_def Sqr_def vscale_def algebra_simps)

lemma DielectricBxDF_f_transmit_swap:
  assumes uo: "unit_vector wo" and ui: "unit_vector wi" and eta: "0 < diel_eta bx"
      and G: "\<forall>a b. mf_G (diel_mfDistrib bx) a b = mf_G (diel_mfDistrib bx) b a"
      and two: "Fresnel_two_sided S (diel_eta bx)"
      and tr: "vz wi * vz wo < 0"
      and ns: "\<not> (diel_eta bx = 1 \<or> mf_EffectivelySmooth (diel_mfDistrib bx))"
  shows "DielectricBxDF_f S bx wo wi Importance i =
           Sqr (Dielectric_etap bx wo wi) * DielectricBxDF_f S bx wi wo Importance i"
    and "DielectricBxDF_f S bx wi wo Radiance i = DielectricBxDF_f S bx wo wi Importance i"
    and "DielectricBxDF_f S bx wi wo Radiance i =
           Sqr (Dielectric_etap bx wo wi) * DielectricBxDF_f S bx wo wi Radiance i"
proof -
  define e where "e = Dielectric_etap bx wo wi"
  define h where "h = Dielectric_wm bx wo wi"
  define wm where "wm = FaceForward (Normalize h) (Vector3f 0 0 1)"
  have tr': "vz wo * vz wi < 0" using tr by (simp add: mult.commute)
  have epos: "0 < e" unfolding e_def by (rule Dielectric_etap_swap(2) [OF tr eta])
  have e': "Dielectric_etap bx wi wo = 1 / e" unfolding e_def by (rule Dielectric_etap_swap(1) [OF tr eta])
  have h': "Dielectric_wm bx wi wo = vscale h (1 / e)"
    unfolding e_def h_def by (rule Dielectric_wm_swap [OF tr eta])
  have ls: "LengthSquared (vscale h (1 / e)) = 0 \<longleftrightarrow> LengthSquared h = 0"
    using epos by (simp add: LengthSquared_vscale)
  have wm': "FaceForward (Normalize (vscale h (1 / e))) (Vector3f 0 0 1) = wm"
    using epos by (simp add: wm_def Normalize_vscale)
  have f1: "DielectricBxDF_f S bx wo wi mode =
     (if LengthSquared h = 0 then (\<lambda>_. 0)
      else if Dot wm wi * vz wi < 0 \<or> Dot wm wo * vz wo < 0 then (\<lambda>_. 0)
      else (\<lambda>_. mf_D (diel_mfDistrib bx) wm * (1 - FrDielectric S (Dot wo wm) (diel_eta bx)) *
                mf_G (diel_mfDistrib bx) wo wi *
                \<bar>Dot wi wm * Dot wo wm / (Sqr (Dot wi wm + Dot wo wm / e) * vz wi * vz wo)\<bar> /
                (if mode = Radiance then Sqr e else 1)))" for mode
    unfolding DielectricBxDF_f_transmit [OF ns tr] wm_def h_def e_def by (rule refl)
  have f2: "DielectricBxDF_f S bx wi wo mode =
     (if LengthSquared h = 0 then (\<lambda>_. 0)
      else if Dot wm wo * vz wo < 0 \<or> Dot wm wi * vz wi < 0 then (\<lambda>_. 0)
      else (\<lambda>_. mf_D (diel_mfDistrib bx) wm * (1 - FrDielectric S (Dot wi wm) (diel_eta bx)) *
                mf_G (diel_mfDistrib bx) wi wo *
                \<bar>Dot wo wm * Dot wi wm / (Sqr (Dot wo wm + Dot wi wm / (1 / e)) * vz wo * vz wi)\<bar> /
                (if mode = Radiance then Sqr (1 / e) else 1)))" for mode
    unfolding DielectricBxDF_f_transmit [OF ns tr'] h' e' ls wm' by (rule refl)
  show "DielectricBxDF_f S bx wi wo Radiance i = DielectricBxDF_f S bx wo wi Importance i"
   and "DielectricBxDF_f S bx wo wi Importance i = Sqr (Dielectric_etap bx wo wi) * DielectricBxDF_f S bx wi wo Importance i"
   and "DielectricBxDF_f S bx wi wo Radiance i = Sqr (Dielectric_etap bx wo wi) * DielectricBxDF_f S bx wo wi Radiance i"
  proof -
    have goal: "DielectricBxDF_f S bx wi wo Radiance i = DielectricBxDF_f S bx wo wi Importance i
      \<and> DielectricBxDF_f S bx wo wi Importance i = Sqr e * DielectricBxDF_f S bx wi wo Importance i
      \<and> DielectricBxDF_f S bx wi wo Radiance i = Sqr e * DielectricBxDF_f S bx wo wi Radiance i"
    proof -
      consider (zero) "LengthSquared h = 0 \<or> Dot wm wi * vz wi < 0 \<or> Dot wm wo * vz wo < 0"
        | (front) "LengthSquared h \<noteq> 0" "\<not> (Dot wm wi * vz wi < 0 \<or> Dot wm wo * vz wo < 0)"
        by blast
      then show ?thesis
      proof cases
        case zero
        then show ?thesis by (auto simp: f1 f2)
      next
        case front
        have eq: "e = (if 0 < vz wo then diel_eta bx else 1 / diel_eta bx)"
          using tr by (auto simp: e_def Dielectric_etap_def CosTheta_def mult.commute
                dest: mult_pos_pos)
        have hh: "h = vadd (vscale wi e) wo" by (simp add: h_def Dielectric_wm_def e_def)
        have F: "FrDielectric S (Dot wo wm) (diel_eta bx) = FrDielectric S (Dot wi wm) (diel_eta bx)"
          by (rule half_vector_Fresnel [OF uo ui eta tr two eq hh front(1) wm_def front(2)])
        have Gs: "mf_G (diel_mfDistrib bx) wi wo = mf_G (diel_mfDistrib bx) wo wi" using G by blast
        define K where "K = mf_D (diel_mfDistrib bx) wm * (1 - FrDielectric S (Dot wi wm) (diel_eta bx)) *
                mf_G (diel_mfDistrib bx) wo wi"
        define X where "X = \<bar>Dot wo wm * Dot wi wm / (Sqr (Dot wo wm + Dot wi wm / (1 / e)) * vz wo * vz wi)\<bar>"
        define Y where "Y = \<bar>Dot wi wm * Dot wo wm / (Sqr (Dot wi wm + Dot wo wm / e) * vz wi * vz wo)\<bar>"
        have sq: "Sqr (Dot wo wm + Dot wi wm / (1 / e)) = Sqr e * Sqr (Dot wi wm + Dot wo wm / e)"
          using epos by (simp add: Sqr_def field_simps)
        have sne: "Sqr e \<noteq> 0" and spos: "0 < Sqr e" using epos by (simp_all add: Sqr_def)
        have "Dot wo wm * Dot wi wm / (Sqr (Dot wo wm + Dot wi wm / (1 / e)) * vz wo * vz wi)
              = (Dot wi wm * Dot wo wm / (Sqr (Dot wi wm + Dot wo wm / e) * vz wi * vz wo)) / Sqr e"
          unfolding sq by (simp add: mult.commute mult.left_commute)
        then have XY: "X = Y / Sqr e"
          unfolding X_def Y_def using spos by (simp only: abs_divide abs_of_pos)
        have s1: "Sqr (1 / e) = 1 / Sqr e" by (simp add: Sqr_def)
        have v1: "DielectricBxDF_f S bx wo wi mode i = K * Y / (if mode = Radiance then Sqr e else 1)" for mode
          unfolding f1 K_def Y_def F using front by simp
        have v2: "DielectricBxDF_f S bx wi wo mode i = K * X / (if mode = Radiance then Sqr (1 / e) else 1)" for mode
          unfolding f2 K_def X_def Gs using front by simp
        show ?thesis
          using sne by (simp add: v1 v2 XY s1)
      qed
    qed
    show "DielectricBxDF_f S bx wi wo Radiance i = DielectricBxDF_f S bx wo wi Importance i"
      using goal by blast
    show "DielectricBxDF_f S bx wo wi Importance i = Sqr (Dielectric_etap bx wo wi) * DielectricBxDF_f S bx wi wo Importance i"
      using goal unfolding e_def by blast
    show "DielectricBxDF_f S bx wi wo Radiance i = Sqr (Dielectric_etap bx wo wi) * DielectricBxDF_f S bx wo wi Radiance i"
      using goal unfolding e_def by blast
  qed
qed

lemma DielectricBxDF_f_reflect_swap:
  assumes uo: "unit_vector wo" and ui: "unit_vector wi"
      and G: "\<forall>a b. mf_G (diel_mfDistrib bx) a b = mf_G (diel_mfDistrib bx) b a"
      and re: "0 < vz wi * vz wo"
      and ns: "\<not> (diel_eta bx = 1 \<or> mf_EffectivelySmooth (diel_mfDistrib bx))"
  shows "DielectricBxDF_f S bx wo wi mode = DielectricBxDF_f S bx wi wo mode'"
proof -
  define wm where "wm = FaceForward (Normalize (vadd wi wo)) (Vector3f 0 0 1)"
  have re': "0 < vz wo * vz wi" using re by (simp add: mult.commute)
  have wm': "FaceForward (Normalize (vadd wo wi)) (Vector3f 0 0 1) = wm"
    by (simp add: wm_def vadd_commute)
  have oo: "Dot wo wo = 1" and ii: "Dot wi wi = 1" using uo ui by (simp_all add: unit_vector_def)
  have "Dot wo (vadd wi wo) = Dot wi (vadd wi wo)"
    by (simp add: Dot_vadd oo ii Dot_commute)
  then have d: "Dot wo wm = Dot wi wm"
    by (simp add: wm_def Dot_FaceForward Dot_Normalize)
  have Gs: "mf_G (diel_mfDistrib bx) wi wo = mf_G (diel_mfDistrib bx) wo wi" using G by blast
  have m: "\<bar>4 * vz wo * vz wi\<bar> = \<bar>4 * vz wi * vz wo\<bar>" by (simp add: mult.commute mult.left_commute)
  show ?thesis
    unfolding DielectricBxDF_f_reflect [OF ns re] DielectricBxDF_f_reflect [OF ns re'] wm'
      wm_def [symmetric] d Gs m
    by auto
qed

lemma Fresnel_two_sided_physical:
  assumes e: "0 < e"
  shows "Fresnel_two_sided physical_helpers e"
  unfolding Fresnel_two_sided_def
proof (intro allI impI)
  fix a b :: real
  assume h: "0 \<le> a \<and> a \<le> 1 \<and> - 1 \<le> b \<and> b \<le> 0 \<and> 1 - a * a = e * e * (1 - b * b)"
  then have a: "0 \<le> a" "a \<le> 1" and b: "- 1 \<le> b" "b \<le> 0"
    and snell: "1 - a * a = e * e * (1 - b * b)" by simp_all
  have e2: "0 < e * e" using e by simp
  have st: "(1 - a * a) / (e * e) = 1 - b * b" using snell e by (simp add: field_simps)
  have Fa: "Fresnel_FrDielectric a e =
          (if b = 0 then 1
           else ((e * a + b) / (e * a - b)) * ((e * a + b) / (e * a - b)) / 2 +
                ((a + e * b) / (a - e * b)) * ((a + e * b) / (a - e * b)) / 2)"
  proof -
    have sb: "sqrt (b * b) = - b" using b by (simp add: real_sqrt_mult_self)
    have bz: "1 \<le> 1 - b * b \<longleftrightarrow> b = 0"
      by (auto simp: mult_le_0_iff)
    have m: "max 0 (1 - (1 - b * b)) = b * b" by simp
    have "Fresnel_FrDielectric a e =
            (if 1 \<le> 1 - b * b then 1
             else ((e * a - sqrt (b * b)) / (e * a + sqrt (b * b))) *
                  ((e * a - sqrt (b * b)) / (e * a + sqrt (b * b))) / 2 +
                  ((a - e * sqrt (b * b)) / (a + e * sqrt (b * b))) *
                  ((a - e * sqrt (b * b)) / (a + e * sqrt (b * b))) / 2)"
      using a
      by (simp add: Fresnel_FrDielectric_def Let_def Sqr_def SafeSqrt_def st m add_divide_distrib
               del: real_sqrt_mult_self)
    then show ?thesis unfolding sb bz by simp
  qed
  show "FrDielectric physical_helpers a e = FrDielectric physical_helpers b e"
  proof -
    consider (b0) "b = 0" | (a0) "b < 0" "a = 0" | (gen) "b < 0" "0 < a" using a b by linarith
    then have "Fresnel_FrDielectric a e = Fresnel_FrDielectric b e"
    proof cases
      case b0
      have "Fresnel_FrDielectric 0 e = 1"
      proof -
        have "sqrt (1 - 1 / (e * e)) \<noteq> 0" if "1 / (e * e) < 1"
        proof -
          have "0 < 1 - 1 / (e * e)" using that by simp
          then have "0 < sqrt (1 - 1 / (e * e))" by (simp only: real_sqrt_gt_0_iff)
          then show ?thesis by linarith
        qed
        then show ?thesis
          using e by (auto simp: Fresnel_FrDielectric_def Let_def Sqr_def SafeSqrt_def) 
      qed
      then show ?thesis using b0 Fa by simp
    next
      case a0
      have "1 = e * e * (1 - b * b)" using snell a0 by simp
      have Fb: "Fresnel_FrDielectric b e = 1"
        using a0 b snell e
        by (simp add: Fresnel_FrDielectric_def Let_def Sqr_def SafeSqrt_def field_simps)
      show ?thesis using a0 Fa Fb e by (simp add: field_simps)
    next
      case gen
      have sa: "sqrt (a * a) = a" using a by (simp add: real_sqrt_mult_self)
      have lt: "e * e * (1 - b * b) < 1" using snell gen by (smt (verit) mult_pos_pos)
      have Fb: "Fresnel_FrDielectric b e =
            (((1 / e) * (- b) - a) / ((1 / e) * (- b) + a)) * (((1 / e) * (- b) - a) / ((1 / e) * (- b) + a)) / 2 +
            ((- b - (1 / e) * a) / (- b + (1 / e) * a)) * ((- b - (1 / e) * a) / (- b + (1 / e) * a)) / 2"
      proof -
        have s2: "(1 - b * b) / ((1 / e) * (1 / e)) = 1 - a * a" using snell e by (simp add: field_simps)
        have "0 < a * a" using gen by (simp only: mult_pos_pos)
        then have n: "\<not> 1 \<le> 1 - a * a" by linarith
        show ?thesis
          using gen b n
          by (simp add: Fresnel_FrDielectric_def Let_def Sqr_def SafeSqrt_def s2 [simplified] sa
              add_divide_distrib)
      qed
      have d1: "e * a - b \<noteq> 0" "a - e * b \<noteq> 0" "- b + a / e \<noteq> 0" "- b / e + a \<noteq> 0"
        using gen e by (smt (verit) mult_pos_pos mult_pos_neg divide_pos_pos divide_neg_pos)+
      have p: "((1 / e) * (- b) - a) / ((1 / e) * (- b) + a) = - ((e * a + b) / (e * a - b))"
        using d1 e by (simp add: field_simps)
      have q: "(- b - (1 / e) * a) / (- b + (1 / e) * a) = - ((a + e * b) / (a - e * b))"
        using d1 e by (simp add: field_simps)
      show ?thesis
        unfolding Fb p q using Fa gen by simp
    qed
    then show ?thesis by (simp add: physical_helpers_def)
  qed
qed

text \<open>
  Claim C6 (as amended). For unit directions, a positive relative index, a symmetric
  masking term \<open>G\<close> and a Fresnel reflectance that is the same from both sides:
  \<open>DielectricBxDF::f\<close> under Importance at \<open>(wo, wi)\<close> equals \<open>f\<close> under Radiance at
  \<open>(wi, wo)\<close>; for a reflective pair \<open>f\<close> is reciprocal in either mode; for a
  transmissive pair the two orders differ, in either mode, by the squared relative
  index \<open>etap\<close> seen from \<open>wo\<close>. \<open>HairBxDF::f\<close> does not read the transport mode.
\<close>

theorem DielectricBxDF_f_adjoint_reciprocity:
  assumes uo: "unit_vector wo" and ui: "unit_vector wi" and eta: "0 < diel_eta bx"
      and G: "\<forall>a b. mf_G (diel_mfDistrib bx) a b = mf_G (diel_mfDistrib bx) b a"
      and two: "Fresnel_two_sided S (diel_eta bx)"
  shows "DielectricBxDF_f S bx wo wi Importance = DielectricBxDF_f S bx wi wo Radiance
       \<and> (0 < vz wi * vz wo \<longrightarrow>
            DielectricBxDF_f S bx wo wi mode = DielectricBxDF_f S bx wi wo mode)
       \<and> (vz wi * vz wo < 0 \<longrightarrow>
            (\<forall>i. DielectricBxDF_f S bx wo wi Importance i =
                   Sqr (Dielectric_etap bx wo wi) * DielectricBxDF_f S bx wi wo Importance i
               \<and> DielectricBxDF_f S bx wi wo Radiance i =
                   Sqr (Dielectric_etap bx wo wi) * DielectricBxDF_f S bx wo wi Radiance i))
       \<and> HairBxDF_f H b wo wi Radiance = HairBxDF_f H b wo wi Importance"
proof -
  have hair: "HairBxDF_f H b wo wi Radiance = HairBxDF_f H b wo wi Importance"
    by (simp add: HairBxDF_f_def)
  consider (smooth) "diel_eta bx = 1 \<or> mf_EffectivelySmooth (diel_mfDistrib bx)"
    | (re) "\<not> (diel_eta bx = 1 \<or> mf_EffectivelySmooth (diel_mfDistrib bx))" "0 < vz wi * vz wo"
    | (tr) "\<not> (diel_eta bx = 1 \<or> mf_EffectivelySmooth (diel_mfDistrib bx))" "vz wi * vz wo < 0"
    | (graze) "\<not> (diel_eta bx = 1 \<or> mf_EffectivelySmooth (diel_mfDistrib bx))" "vz wi * vz wo = 0"
    by linarith
  then have "DielectricBxDF_f S bx wo wi Importance = DielectricBxDF_f S bx wi wo Radiance
       \<and> (0 < vz wi * vz wo \<longrightarrow>
            DielectricBxDF_f S bx wo wi mode = DielectricBxDF_f S bx wi wo mode)
       \<and> (vz wi * vz wo < 0 \<longrightarrow>
            (\<forall>i. DielectricBxDF_f S bx wo wi Importance i =
                   Sqr (Dielectric_etap bx wo wi) * DielectricBxDF_f S bx wi wo Importance i
               \<and> DielectricBxDF_f S bx wi wo Radiance i =
                   Sqr (Dielectric_etap bx wo wi) * DielectricBxDF_f S bx wo wi Radiance i))"
  proof cases
    case smooth
    then show ?thesis by (simp add: DielectricBxDF_f_def)
  next
    case re
    show ?thesis
      using DielectricBxDF_f_reflect_swap [OF uo ui G re(2) re(1)] re(2) by auto
  next
    case tr
    note sw = DielectricBxDF_f_transmit_swap [OF uo ui eta G two tr(2) tr(1)]
    have "DielectricBxDF_f S bx wo wi Importance = DielectricBxDF_f S bx wi wo Radiance"
      by (rule ext) (simp add: sw(2))
    then show ?thesis using sw(1) sw(3) tr(2) by auto
  next
    case graze
    then have z: "vz wi = 0 \<or> vz wo = 0" by simp
    have "DielectricBxDF_f S bx wo wi m1 = (\<lambda>_. 0)" for m1
      using z by (intro DielectricBxDF_f_degenerate) auto
    moreover have "DielectricBxDF_f S bx wi wo m2 = (\<lambda>_. 0)" for m2
      using z by (intro DielectricBxDF_f_degenerate) auto
    ultimately show ?thesis using graze(2) by simp
  qed
  then show ?thesis using hair by blast
qed

lemma sqrt_ninth: "sqrt (1 / 9) = 1 / 3"
  by (rule real_sqrt_unique) (simp_all add: power2_eq_square)

lemma Fresnel_normal_below: "Fresnel_FrDielectric (- 1) (3 / 2) = 1 / 25"
  by (simp add: Fresnel_FrDielectric_def Let_def Sqr_def SafeSqrt_def)

lemma DielectricBxDF_f_Importance_values:
  "DielectricBxDF_f physical_helpers rough_glass (Vector3f 0 0 1) (Vector3f 0 0 (- 1)) Importance 0
     = 216 / 25
   \<and> DielectricBxDF_f physical_helpers rough_glass (Vector3f 0 0 (- 1)) (Vector3f 0 0 1) Importance 0
     = 96 / 25
   \<and> DielectricBxDF_f physical_helpers rough_glass (Vector3f 0 0 1) (Vector3f 0 0 (- 1)) Importance
     \<noteq> DielectricBxDF_f physical_helpers rough_glass (Vector3f 0 0 (- 1)) (Vector3f 0 0 1) Importance"
proof -
  have a: "DielectricBxDF_f physical_helpers rough_glass (Vector3f 0 0 1) (Vector3f 0 0 (- 1)) Importance 0
     = 216 / 25"
    by (simp add: DielectricBxDF_f_def rough_glass_def rough_mf_def physical_helpers_def Let_def
        CosTheta_def vadd_def vscale_def LengthSquared_def Length_def Normalize_def FaceForward_def
        Dot_def vneg_def Sqr_def real_sqrt_divide Fresnel_normal Fresnel_normal_below)
  have b: "DielectricBxDF_f physical_helpers rough_glass (Vector3f 0 0 (- 1)) (Vector3f 0 0 1) Importance 0
     = 96 / 25"
    by (simp add: DielectricBxDF_f_def rough_glass_def rough_mf_def physical_helpers_def Let_def
        CosTheta_def vadd_def vscale_def LengthSquared_def Length_def Normalize_def FaceForward_def
        Dot_def vneg_def Sqr_def real_sqrt_divide sqrt_ninth Fresnel_normal Fresnel_normal_below)
  have "DielectricBxDF_f physical_helpers rough_glass (Vector3f 0 0 1) (Vector3f 0 0 (- 1)) Importance 0
     \<noteq> DielectricBxDF_f physical_helpers rough_glass (Vector3f 0 0 (- 1)) (Vector3f 0 0 1) Importance 0"
    unfolding a b by simp
  then have "DielectricBxDF_f physical_helpers rough_glass (Vector3f 0 0 1) (Vector3f 0 0 (- 1)) Importance
     \<noteq> DielectricBxDF_f physical_helpers rough_glass (Vector3f 0 0 (- 1)) (Vector3f 0 0 1) Importance"
    by metis
  then show ?thesis using a b by blast
qed

theorem DielectricBxDF_f_adjoint_reciprocity_witness:
  "unit_vector (Vector3f 0 0 1) \<and> unit_vector (Vector3f 0 0 (- 1)) \<and> 0 < diel_eta rough_glass
   \<and> (\<forall>a b. mf_G (diel_mfDistrib rough_glass) a b = mf_G (diel_mfDistrib rough_glass) b a)
   \<and> Fresnel_two_sided physical_helpers (diel_eta rough_glass)
   \<and> vz (Vector3f 0 0 (- 1)) * vz (Vector3f 0 0 1) < 0
   \<and> DielectricBxDF_f physical_helpers rough_glass (Vector3f 0 0 1) (Vector3f 0 0 (- 1)) Importance
       = DielectricBxDF_f physical_helpers rough_glass (Vector3f 0 0 (- 1)) (Vector3f 0 0 1) Radiance
   \<and> Dielectric_etap rough_glass (Vector3f 0 0 1) (Vector3f 0 0 (- 1)) = 3 / 2
   \<and> DielectricBxDF_f physical_helpers rough_glass (Vector3f 0 0 1) (Vector3f 0 0 (- 1)) Importance 0
       = Sqr (3 / 2) *
         DielectricBxDF_f physical_helpers rough_glass (Vector3f 0 0 (- 1)) (Vector3f 0 0 1) Importance 0"
proof -
  have u1: "unit_vector (Vector3f 0 0 1)" and u2: "unit_vector (Vector3f 0 0 (- 1))"
    by (simp_all add: unit_vector_def Dot_def)
  have e: "0 < diel_eta rough_glass" by (simp add: rough_glass_def)
  have g: "\<forall>a b. mf_G (diel_mfDistrib rough_glass) a b = mf_G (diel_mfDistrib rough_glass) b a"
    by (simp add: rough_glass_def rough_mf_def)
  have t: "Fresnel_two_sided physical_helpers (diel_eta rough_glass)"
    by (rule Fresnel_two_sided_physical [OF e])
  have z: "vz (Vector3f 0 0 (- 1)) * vz (Vector3f 0 0 1) < 0" by simp
  have ep: "Dielectric_etap rough_glass (Vector3f 0 0 1) (Vector3f 0 0 (- 1)) = 3 / 2"
    by (simp add: Dielectric_etap_def rough_glass_def CosTheta_def)
  note r = DielectricBxDF_f_adjoint_reciprocity [OF u1 u2 e g t]
  have r1: "DielectricBxDF_f physical_helpers rough_glass (Vector3f 0 0 1) (Vector3f 0 0 (- 1)) Importance
       = DielectricBxDF_f physical_helpers rough_glass (Vector3f 0 0 (- 1)) (Vector3f 0 0 1) Radiance"
    using r by blast
  have r3: "DielectricBxDF_f physical_helpers rough_glass (Vector3f 0 0 1) (Vector3f 0 0 (- 1)) Importance 0
       = Sqr (3 / 2) *
         DielectricBxDF_f physical_helpers rough_glass (Vector3f 0 0 (- 1)) (Vector3f 0 0 1) Importance 0"
    using r z unfolding ep by blast
  show ?thesis
    by (intro conjI) (fact u1 u2 e g t z r1 ep r3)+
qed

lemma example_hair_mixture:
  "spec_lobe_mixture example_helpers example_hair (\<lambda>p. HairBxDF_f_ap example_helpers example_hair wo p i)
      0 1 0 1 phi 0 0 = (6 + cos phi) / (4 * pi) + 1 / (2 * pi)"
  by (simp add: spec_lobe_mixture_def example_helpers_def example_Phi_def HairBxDF_f_ap_def upt4
      cos_diff add_divide_distrib)

lemma example_hair_angles:
  "SafeASin (hair_h example_hair) = 0" "vx wo = 0 \<Longrightarrow> hair_gamma_t example_hair wo = 0"
  by (simp_all add: example_hair_def SafeASin_def hair_gamma_t_def)

lemma HairBxDF_f_not_reciprocal:
  "HairBxDF_f example_helpers example_hair (Vector3f 0 0 1) (Vector3f 0 (3 / 5) (4 / 5)) Importance 0
   \<noteq> HairBxDF_f example_helpers example_hair (Vector3f 0 (3 / 5) (4 / 5)) (Vector3f 0 0 1) Importance 0"
proof -
  define phi where "phi = atan2 (4 / 5) (3 / 5) - atan2 1 0"
  define M where "M = (6 + cos phi) / (4 * pi) + 1 / (2 * pi)"
  have Mpos: "0 < M"
  proof -
    have "- 1 \<le> cos phi" by simp
    then have "0 < 6 + cos phi" by linarith
    then have "0 < (6 + cos phi) / (4 * pi)" by simp
    moreover have "0 < 1 / (2 * pi)" by simp
    ultimately show ?thesis unfolding M_def by linarith
  qed
  have s: "SafeSqrt (1 - Sqr 0) = 1" by (simp add: SafeSqrt_def Sqr_def)
  have a: "HairBxDF_f example_helpers example_hair (Vector3f 0 0 1) (Vector3f 0 (3 / 5) (4 / 5)) Importance 0
            * (4 / 5) = M"
    using HairBxDF_f_mixture [of example_helpers example_hair "Vector3f 0 0 1" "Vector3f 0 (3 / 5) (4 / 5)"
            Importance 0]
    by (simp add: AbsCosTheta_def s example_hair_angles example_hair_mixture M_def phi_def)
  have b: "HairBxDF_f example_helpers example_hair (Vector3f 0 (3 / 5) (4 / 5)) (Vector3f 0 0 1) Importance 0
            = M"
    using HairBxDF_f_mixture [of example_helpers example_hair "Vector3f 0 (3 / 5) (4 / 5)" "Vector3f 0 0 1"
            Importance 0]
    by (simp add: AbsCosTheta_def s example_hair_angles example_hair_mixture M_def phi_def
             cos_diff [of "atan2 1 0"] cos_diff [of "atan2 (4 / 5) (3 / 5)"] mult.commute)
  show ?thesis
  proof
    assume "HairBxDF_f example_helpers example_hair (Vector3f 0 0 1) (Vector3f 0 (3 / 5) (4 / 5)) Importance 0
      = HairBxDF_f example_helpers example_hair (Vector3f 0 (3 / 5) (4 / 5)) (Vector3f 0 0 1) Importance 0"
    then have "M * (4 / 5) = M" using a b by simp
    then show False using Mpos by simp
  qed
qed

text \<open>
  The claim as stated, reciprocity under Importance for every pair, fails for both
  models. Straight through rough glass of index \<open>3/2\<close> with \<open>D = G = 1\<close>:
  \<open>f((0,0,1), (0,0,-1))\<close> is \<open>24/25 * 9\<close> and \<open>f((0,0,-1), (0,0,1))\<close> is \<open>24/25 * 4\<close>, in
  the ratio \<open>(3/2)\<^sup>2\<close>. The hair model divides by \<open>|wi.z|\<close>: for \<open>wo = (0,0,1)\<close> and
  \<open>wi = (0, 3/5, 4/5)\<close> the lobe sums of the two orders agree and the values differ by
  the factor \<open>4/5\<close>.
\<close>

theorem evaluate_Importance_reciprocity_counterexample:
  "DielectricBxDF_f physical_helpers rough_glass (Vector3f 0 0 1) (Vector3f 0 0 (- 1)) Importance 0
     = 216 / 25
   \<and> DielectricBxDF_f physical_helpers rough_glass (Vector3f 0 0 (- 1)) (Vector3f 0 0 1) Importance 0
     = 96 / 25
   \<and> DielectricBxDF_f physical_helpers rough_glass (Vector3f 0 0 1) (Vector3f 0 0 (- 1)) Importance
     \<noteq> DielectricBxDF_f physical_helpers rough_glass (Vector3f 0 0 (- 1)) (Vector3f 0 0 1) Importance
   \<and> HairBxDF_f example_helpers example_hair (Vector3f 0 0 1) (Vector3f 0 (3 / 5) (4 / 5)) Importance 0
     \<noteq> HairBxDF_f example_helpers example_hair (Vector3f 0 (3 / 5) (4 / 5)) (Vector3f 0 0 1) Importance 0"
  using DielectricBxDF_f_Importance_values HairBxDF_f_not_reciprocal by blast

subsection \<open>The tensor loader\<close>

lemma length_spec_le_bytes [simp]: "length (spec_le_bytes n v) = n"
  by (induction n arbitrary: v) simp_all

lemma le_nat_spec_le_bytes: "le_nat (spec_le_bytes n v) = v mod 256 ^ n"
proof (induction n arbitrary: v)
  case 0
  then show ?case by (simp add: le_nat_def)
next
  case (Suc n)
  have "le_nat (spec_le_bytes (Suc n) v) = unat (of_nat (v mod 256) :: 8 word) + 256 * le_nat (spec_le_bytes n (v div 256))"
    by (simp add: le_nat_def)
  also have "unat (of_nat (v mod 256) :: 8 word) = v mod 256"
    by (simp add: unat_of_nat)
  finally show ?case
    by (simp add: Suc mod_mult2_eq)
qed

lemma le_nat_less: "le_nat bs < 256 ^ length bs"
proof (induction bs)
  case Nil
  then show ?case by (simp add: le_nat_def)
next
  case (Cons b bs)
  have "unat b < 256" using unsigned_less [of b, where ?'a = nat] by simp
  moreover have "le_nat (b # bs) = unat b + 256 * le_nat bs" by (simp add: le_nat_def)
  ultimately show ?case using Cons by simp
qed

lemma spec_le_bytes_le_nat: "spec_le_bytes (length bs) (le_nat bs) = bs"
proof (induction bs)
  case Nil
  then show ?case by simp
next
  case (Cons b bs)
  have b: "unat b < 256" using unsigned_less [of b, where ?'a = nat] by simp
  have e: "le_nat (b # bs) = unat b + 256 * le_nat bs" by (simp add: le_nat_def)
  show ?case using Cons b by (simp add: e)
qed

lemma fread_append:
  "fread (pre @ bs @ post) (length pre) (length bs) = Some (bs, length pre + length bs)"
  by (simp add: fread_def)

lemma sint_neg_iff: "sint (w :: 64 word) < 0 \<longleftrightarrow> 2 ^ 63 \<le> unat w"
proof -
  have "bit w 63 = (sint w < 0)" using bit_last_iff [of w] by simp
  moreover have "bit w 63 \<longleftrightarrow> 2 ^ 63 \<le> unat w"
  proof -
    have "bit w 63 \<longleftrightarrow> bit (unat w) 63" by (simp add: bit_unsigned_iff)
    also have "\<dots> \<longleftrightarrow> odd (unat w div 2 ^ 63)" by (simp only: bit_iff_odd)
    also have "\<dots> \<longleftrightarrow> 2 ^ 63 \<le> unat w"
    proof -
      have lt: "unat w < 2 ^ 64" using unsigned_less [of w, where ?'a = nat] by simp
      define n where "n = unat w"
      have "n < 2 * 2 ^ 63" using lt by (simp add: n_def)
      then have "n div 2 ^ 63 < 2" by (simp only: less_mult_imp_div_less)
      then have "n div 2 ^ 63 = 0 \<or> n div 2 ^ 63 = 1" by linarith
      moreover have "n div 2 ^ 63 = 0 \<longleftrightarrow> n < 2 ^ 63" by (simp only: div_eq_0_iff) simp
      ultimately show ?thesis unfolding n_def [symmetric] by (metis even_zero odd_one not_le)
    qed
    finally show ?thesis .
  qed
  ultimately show ?thesis by simp
qed

lemma fread_at:
  assumes "file = pre @ bs @ post" "pos = length pre" "n = length bs"
  shows "fread file pos n = Some (bs, pos + n)"
  using assms by (simp add: fread_def)

lemma fread_Some:
  "fread file pos n = Some (bs, pos') \<longleftrightarrow>
     (n = 0 \<or> pos + n \<le> length file) \<and> bs = take n (drop pos file) \<and> pos' = pos + n"
  by (auto simp: fread_def)

lemma read_shape_enc:
  assumes "list_all (\<lambda>d. d < 2 ^ 64) ds"
  shows "read_shape (pre @ concat (map (spec_le_bytes 8) ds) @ post) (length pre) (length ds) tot sh
         = Inr (sh @ map of_nat ds, tot * of_nat (prod_list ds), length pre + 8 * length ds)"
  using assms
proof (induction ds arbitrary: pre tot sh)
  case Nil
  then show ?case by simp
next
  case (Cons d ds)
  have d: "d < 2 ^ 64" and ds: "list_all (\<lambda>d. d < 2 ^ 64) ds" using Cons.prems by simp_all
  define F where "F = pre @ concat (map (spec_le_bytes 8) (d # ds)) @ post"
  have fl: "F = (pre @ spec_le_bytes 8 d) @ concat (map (spec_le_bytes 8) ds) @ post" by (simp add: F_def)
  have fr: "fread F (length pre) 8 = Some (spec_le_bytes 8 d, length pre + 8)"
    by (rule fread_at [where post = "concat (map (spec_le_bytes 8) ds) @ post"]) (simp_all add: F_def)
  have v: "le_nat (spec_le_bytes 8 d) = d" using d by (simp only: le_nat_spec_le_bytes) simp
  have "read_shape F (length pre) (length (d # ds)) tot sh
        = read_shape F (length (pre @ spec_le_bytes 8 d)) (length ds) (tot * of_nat d) (sh @ [of_nat d])"
    by (simp add: fr v Let_def)
  also have "\<dots> = read_shape ((pre @ spec_le_bytes 8 d) @ concat (map (spec_le_bytes 8) ds) @ post)
            (length (pre @ spec_le_bytes 8 d)) (length ds) (tot * of_nat d) (sh @ [of_nat d])"
    by (simp only: fl)
  also have "\<dots> = Inr ((sh @ [of_nat d]) @ map of_nat ds, (tot * of_nat d) * of_nat (prod_list ds),
                      length (pre @ spec_le_bytes 8 d) + 8 * length ds)"
    by (rule Cons.IH [OF ds])
  finally show ?case by (simp add: mult.assoc F_def)
qed

lemma read_fields_entry:
  assumes lex: "spec_lexical_entry e"
      and F: "F = pre @ spec_entry_bytes e @ post"
  shows "read_fields F (Suc k) (length pre) m =
         (if \<not> (se_dtype e \<noteq> 0 \<and> se_dtype e \<le> 11)
          then Inl (ErrorExit ''Tensor: Invalid tensor file: unknown type.'')
          else if 2 ^ 63 \<le> se_offset e
          then Inl (ErrorExit ''Tensor: Unable to seek to tensor offset.'')
          else if \<not> (unat (spec_payload_size e) = 0 \<or> se_offset e + unat (spec_payload_size e) \<le> length F)
          then Inl (ErrorExit ''Tensor: Unable to read data.get().'')
          else read_fields F k (length pre + length (spec_entry_bytes e))
                 (m(name_of_bytes (se_name e) \<mapsto> spec_field F e)))"
proof -
  define nm where "nm = se_name e"
  define sh where "sh = se_shape e"
  define dt where "dt = se_dtype e"
  define off where "off = se_offset e"
  have b: "length nm < 65536" "length sh < 65536" "dt < 256" "off < 18446744073709551616"
    and dims: "list_all (\<lambda>d. d < 2 ^ 64) sh"
    using lex by (simp_all add: spec_lexical_entry_def nm_def sh_def dt_def off_def)
  define p1 where "p1 = pre @ spec_le_bytes 2 (length nm)"
  define p2 where "p2 = p1 @ nm"
  define p3 where "p3 = p2 @ spec_le_bytes 2 (length sh)"
  define p4 where "p4 = p3 @ spec_le_bytes 1 dt"
  define p5 where "p5 = p4 @ spec_le_bytes 8 off"
  have F0: "F = pre @ spec_le_bytes 2 (length nm) @ (nm @ spec_le_bytes 2 (length sh) @ spec_le_bytes 1 dt @
              spec_le_bytes 8 off @ concat (map (spec_le_bytes 8) sh) @ post)"
    by (simp add: F spec_entry_bytes_def nm_def sh_def dt_def off_def)
  have F1: "F = p1 @ nm @ (spec_le_bytes 2 (length sh) @ spec_le_bytes 1 dt @
              spec_le_bytes 8 off @ concat (map (spec_le_bytes 8) sh) @ post)"
    by (simp add: F0 p1_def)
  have F2: "F = p2 @ spec_le_bytes 2 (length sh) @ (spec_le_bytes 1 dt @
              spec_le_bytes 8 off @ concat (map (spec_le_bytes 8) sh) @ post)"
    by (simp add: F1 p2_def)
  have F3: "F = p3 @ spec_le_bytes 1 dt @ (spec_le_bytes 8 off @ concat (map (spec_le_bytes 8) sh) @ post)"
    by (simp add: F2 p3_def)
  have F4: "F = p4 @ spec_le_bytes 8 off @ (concat (map (spec_le_bytes 8) sh) @ post)"
    by (simp add: F3 p4_def)
  have F5: "F = p5 @ concat (map (spec_le_bytes 8) sh) @ post"
    by (simp add: F4 p5_def)
  have r0: "fread F (length pre) 2 = Some (spec_le_bytes 2 (length nm), length p1)"
    using fread_at [OF F0 refl, of 2] by (simp add: p1_def)
  have r1: "fread F (length p1) (length nm) = Some (nm, length p2)"
    using fread_at [OF F1 refl refl] by (simp add: p2_def)
  have r2: "fread F (length p2) 2 = Some (spec_le_bytes 2 (length sh), length p3)"
    using fread_at [OF F2 refl, of 2] by (simp add: p3_def)
  have r3: "fread F (length p3) 1 = Some (spec_le_bytes 1 dt, length p4)"
    using fread_at [OF F3 refl, of 1] by (simp add: p4_def)
  have r4: "fread F (length p4) 8 = Some (spec_le_bytes 8 off, length p5)"
    using fread_at [OF F4 refl, of 8] by (simp add: p5_def)
  have v0: "le_nat (spec_le_bytes 2 (length nm)) = length nm" using b by (simp only: le_nat_spec_le_bytes) simp
  have v2: "le_nat (spec_le_bytes 2 (length sh)) = length sh" using b by (simp only: le_nat_spec_le_bytes) simp
  have v3: "le_nat (spec_le_bytes 1 dt) = dt" using b by (simp only: le_nat_spec_le_bytes) simp
  have v4: "le_nat (spec_le_bytes 8 off) = off" using b by (simp only: le_nat_spec_le_bytes) simp
  have rs: "read_shape F (length p5) (length sh) tot [] =
            Inr (map of_nat sh, tot * of_nat (prod_list sh), length p5 + 8 * length sh)" for tot
    using read_shape_enc [OF dims, of p5 post tot "[]"] by (simp add: F5)
  have uo: "unat (of_nat off :: 64 word) = off" using b by (simp add: unat_of_nat)
  have sg: "sint (of_nat off :: 64 word) < 0 \<longleftrightarrow> 2 ^ 63 \<le> off"
    by (simp only: sint_neg_iff uo)
  have len: "length p5 + 8 * length sh = length pre + length (spec_entry_bytes e)"
    by (simp add: p5_def p4_def p3_def p2_def p1_def spec_entry_bytes_def nm_def sh_def
          length_concat comp_def sum_list_triv)
  have ps: "spec_payload_size e = type_size (Type_of_code dt) * of_nat (prod_list sh)"
    by (simp add: spec_payload_size_def dt_def sh_def)
  have fd: "fread F off n = (if n = 0 \<or> off + n \<le> length F then Some (take n (drop off F), off + n) else None)" for n
    by (auto simp: fread_def)
  show ?thesis
    unfolding read_fields.simps(2) r0 option.case prod.case Let_def v0 r1 r2 v2 r3 v3 r4 v4 rs
      sum.case sg uo fd
    by (simp add: ps [symmetric] len spec_field_def nm_def [symmetric] sh_def [symmetric]
          dt_def [symmetric] off_def [symmetric])
qed

lemma read_fields_Suc_Inr:
  "read_fields F (Suc k) pos m = Inr m' \<longleftrightarrow>
     (\<exists>b0 p1 nm p2 b2 p3 b3 p4 b4 p5 shape total cur data q.
        fread F pos 2 = Some (b0, p1) \<and> fread F p1 (le_nat b0) = Some (nm, p2) \<and>
        fread F p2 2 = Some (b2, p3) \<and> fread F p3 1 = Some (b3, p4) \<and>
        fread F p4 8 = Some (b4, p5) \<and> le_nat b3 \<noteq> 0 \<and> le_nat b3 \<le> 11 \<and>
        read_shape F p5 (le_nat b2) (type_size (Type_of_code (le_nat b3))) []
          = Inr (shape, total, cur) \<and>
        \<not> sint (of_nat (le_nat b4) :: 64 word) < 0 \<and>
        fread F (unat (of_nat (le_nat b4) :: 64 word)) (unat total) = Some (data, q) \<and>
        read_fields F k cur
          (m(name_of_bytes nm \<mapsto>
               \<lparr>fld_dtype = Type_of_code (le_nat b3), fld_offset = of_nat (le_nat b4),
                fld_shape = shape, fld_data = data\<rparr>)) = Inr m')"
  by (simp only: read_fields.simps Let_def)
     (auto split: option.splits sum.splits prod.splits if_splits)

lemma read_shape_Suc_Inr:
  "read_shape F pos (Suc n) tot sh = Inr r \<longleftrightarrow>
     (\<exists>bs p. fread F pos 8 = Some (bs, p) \<and>
        read_shape F p n (tot * of_nat (le_nat bs)) (sh @ [of_nat (le_nat bs)]) = Inr r)"
  by (simp only: read_shape.simps Let_def) (auto split: option.splits)

lemma take_drop_add: "take (a + b) (drop p xs) = take a (drop p xs) @ take b (drop (p + a) xs)"
  by (simp add: take_add add.commute)

lemma read_shape_sound:
  assumes "read_shape F pos n tot sh = Inr (sh', tot', pos')" "pos \<le> length F"
  shows "\<exists>ds. length ds = n \<and> list_all (\<lambda>d. d < 2 ^ 64) ds \<and>
              take (8 * n) (drop pos F) = concat (map (spec_le_bytes 8) ds) \<and>
              pos + 8 * n \<le> length F"
  using assms
proof (induction n arbitrary: pos tot sh)
  case 0
  then show ?case by simp
next
  case (Suc n)
  from Suc.prems(1) obtain bs p where
    fr: "fread F pos 8 = Some (bs, p)" and
    rest: "read_shape F p n (tot * of_nat (le_nat bs)) (sh @ [of_nat (le_nat bs)]) = Inr (sh', tot', pos')"
    unfolding read_shape_Suc_Inr by blast
  from fr have le: "pos + 8 \<le> length F" and bs: "bs = take 8 (drop pos F)" and p: "p = pos + 8"
    by (simp_all add: fread_Some)
  have lb: "length bs = 8" using le bs by simp
  from Suc.IH [OF rest] le p obtain ds where
    ds: "length ds = n" "list_all (\<lambda>d. d < 2 ^ 64) ds"
        "take (8 * n) (drop (pos + 8) F) = concat (map (spec_le_bytes 8) ds)" "pos + 8 + 8 * n \<le> length F"
    by auto
  have d: "le_nat bs < 2 ^ 64" using le_nat_less [of bs] by (simp add: lb)
  have e: "spec_le_bytes 8 (le_nat bs) = bs" using spec_le_bytes_le_nat [of bs] by (simp add: lb)
  have "take (8 * Suc n) (drop pos F) = take 8 (drop pos F) @ take (8 * n) (drop (pos + 8) F)"
    using take_drop_add [of 8 "8 * n" pos F] by simp
  then have "take (8 * Suc n) (drop pos F) = concat (map (spec_le_bytes 8) (le_nat bs # ds))"
    by (simp add: ds e bs [symmetric])
  then show ?case using ds d
    by (intro exI [of _ "le_nat bs # ds"]) simp
qed

declare read_fields.simps(2) [simp del]

lemma read_fields_entries:
  assumes "list_all spec_lexical_entry es"
      and "F = pre @ concat (map spec_entry_bytes es) @ post"
  shows "if list_all (spec_well_formed_entry F) es
         then read_fields F (length es) (length pre) m = Inr (spec_table F es m)
         else isl (read_fields F (length es) (length pre) m)"
  using assms
proof (induction es arbitrary: pre m)
  case Nil
  then show ?case by (simp add: spec_table_def)
next
  case (Cons e es)
  have lex: "spec_lexical_entry e" and lexs: "list_all spec_lexical_entry es" using Cons.prems(1) by simp_all
  have F1: "F = pre @ spec_entry_bytes e @ (concat (map spec_entry_bytes es) @ post)"
    using Cons.prems(2) by simp
  have F2: "F = (pre @ spec_entry_bytes e) @ concat (map spec_entry_bytes es) @ post"
    using Cons.prems(2) by simp
  note step = read_fields_entry [OF lex F1, of "length es" m]
  note IH = Cons.IH [OF lexs F2, of "m(name_of_bytes (se_name e) \<mapsto> spec_field F e)"]
  have IHa: "read_fields F (length es) (length pre + length (spec_entry_bytes e))
               (m(name_of_bytes (se_name e) \<mapsto> spec_field F e))
             = Inr (spec_table F es (m(name_of_bytes (se_name e) \<mapsto> spec_field F e)))"
    if "list_all (spec_well_formed_entry F) es"
    using IH that by (simp split: if_splits)
  have IHb: "isl (read_fields F (length es) (length pre + length (spec_entry_bytes e))
               (m(name_of_bytes (se_name e) \<mapsto> spec_field F e)))"
    if "\<not> list_all (spec_well_formed_entry F) es"
    using IH that by (simp split: if_splits)
  consider (bad) "\<not> spec_well_formed_entry F e"
    | (good) "spec_well_formed_entry F e" "list_all (spec_well_formed_entry F) es"
    | (later) "spec_well_formed_entry F e" "\<not> list_all (spec_well_formed_entry F) es"
    by blast
  then show ?case
  proof cases
    case bad
    then have "isl (read_fields F (Suc (length es)) (length pre) m)"
      unfolding step by (auto simp: spec_well_formed_entry_def)
    then show ?thesis using bad by simp
  next
    case good
    have "read_fields F (Suc (length es)) (length pre) m =
          Inr (spec_table F es (m(name_of_bytes (se_name e) \<mapsto> spec_field F e)))"
      unfolding step using good(1) IHa [OF good(2)] by (simp add: spec_well_formed_entry_def)
    then show ?thesis using good by (simp add: spec_table_def)
  next
    case later
    have "isl (read_fields F (Suc (length es)) (length pre) m)"
      unfolding step using later(1) IHb [OF later(2)] by (simp add: spec_well_formed_entry_def)
    then show ?thesis using later by simp
  qed
qed

lemma read_fields_sound:
  assumes "read_fields F k pos m = Inr m'" "pos \<le> length F"
  shows "\<exists>es post. length es = k \<and> list_all spec_lexical_entry es \<and>
           F = take pos F @ concat (map spec_entry_bytes es) @ post"
  using assms
proof (induction k arbitrary: pos m)
  case 0
  show ?case by (intro exI [of _ "[]"] exI [of _ "drop pos F"]) simp
next
  case (Suc k)
  from Suc.prems(1) obtain b0 p1 nm p2 b2 p3 b3 p4 b4 p5 shape total cur data q where
    r0: "fread F pos 2 = Some (b0, p1)" and r1: "fread F p1 (le_nat b0) = Some (nm, p2)" and
    r2: "fread F p2 2 = Some (b2, p3)" and r3: "fread F p3 1 = Some (b3, p4)" and
    r4: "fread F p4 8 = Some (b4, p5)" and
    rs: "read_shape F p5 (le_nat b2) (type_size (Type_of_code (le_nat b3))) [] = Inr (shape, total, cur)" and
    rest: "read_fields F k cur
          (m(name_of_bytes nm \<mapsto>
               \<lparr>fld_dtype = Type_of_code (le_nat b3), fld_offset = of_nat (le_nat b4),
                fld_shape = shape, fld_data = data\<rparr>)) = Inr m'"
    unfolding read_fields_Suc_Inr by blast
  define L where "L = le_nat b0"
  define R where "R = le_nat b2"
  from r0 have l0: "pos + 2 \<le> length F" and b0: "b0 = take 2 (drop pos F)" and p1: "p1 = pos + 2"
    by (simp_all add: fread_Some)
  from r1 have l1: "p1 + L \<le> length F" and nm: "nm = take L (drop p1 F)" and p2: "p2 = p1 + L"
    using l0 p1 by (auto simp: fread_Some L_def)
  from r2 have l2: "p2 + 2 \<le> length F" and b2: "b2 = take 2 (drop p2 F)" and p3: "p3 = p2 + 2"
    by (simp_all add: fread_Some)
  from r3 have l3: "p3 + 1 \<le> length F" and b3: "b3 = take 1 (drop p3 F)" and p4: "p4 = p3 + 1"
    by (simp_all add: fread_Some)
  from r4 have l4: "p4 + 8 \<le> length F" and b4: "b4 = take 8 (drop p4 F)" and p5: "p5 = p4 + 8"
    by (simp_all add: fread_Some)
  have len: "length b0 = 2" "length nm = L" "length b2 = 2" "length b3 = 1" "length b4 = 8"
    using l0 l1 l2 l3 l4 by (simp_all add: b0 nm b2 b3 b4)
  have p5le: "p5 \<le> length F" using l4 p5 by simp
  from read_shape_sound [OF rs p5le] obtain ds where
    ds: "length ds = R" "list_all (\<lambda>d. d < 2 ^ 64) ds"
        "take (8 * R) (drop p5 F) = concat (map (spec_le_bytes 8) ds)" "p5 + 8 * R \<le> length F"
    by (auto simp: R_def)
  have cur: "cur = p5 + 8 * R"
  proof -
    have "read_shape F p5 R (type_size (Type_of_code (le_nat b3))) [] =
          Inr (map of_nat ds, type_size (Type_of_code (le_nat b3)) * of_nat (prod_list ds),
               p5 + 8 * R)"
    proof -
      have "F = take p5 F @ concat (map (spec_le_bytes 8) ds) @ drop (p5 + 8 * R) F"
        using ds(3) [symmetric] by (simp add: take_drop_add [of "8 * R" 0 p5 F, simplified] 
            drop_take [symmetric] add.commute)
         (metis append_take_drop_id drop_drop add.commute)
      from read_shape_enc [OF ds(2), of "take p5 F" "drop (p5 + 8 * R) F", folded this]
      show ?thesis using p5le by (simp add: ds(1))
    qed
    then show ?thesis using rs by (simp add: R_def)
  qed
  define e where "e = \<lparr>se_name = nm, se_dtype = le_nat b3, se_offset = le_nat b4, se_shape = ds\<rparr>"
  have lex: "spec_lexical_entry e"
    using le_nat_less [of b0] le_nat_less [of b2] le_nat_less [of b3] le_nat_less [of b4] ds
    by (simp add: spec_lexical_entry_def e_def len L_def R_def)
  have enc: "spec_entry_bytes e = b0 @ nm @ b2 @ b3 @ b4 @ concat (map (spec_le_bytes 8) ds)"
    using spec_le_bytes_le_nat [of b0] spec_le_bytes_le_nat [of b2] spec_le_bytes_le_nat [of b3]
      spec_le_bytes_le_nat [of b4]
    by (simp add: spec_entry_bytes_def e_def len ds(1) L_def R_def)
  have lenc: "length (spec_entry_bytes e) = 2 + L + 2 + 1 + 8 + 8 * R"
    using ds(3) [symmetric] ds(4) by (simp add: enc len)
  have tk: "take (2 + L + 2 + 1 + 8 + 8 * R) (drop pos F) = spec_entry_bytes e"
  proof -
    have "take (2 + (L + (2 + (1 + (8 + 8 * R))))) (drop pos F) =
          b0 @ nm @ b2 @ b3 @ b4 @ take (8 * R) (drop p5 F)"
      unfolding take_drop_add b0 nm b2 b3 b4 p1 p2 p3 p4 p5 by (simp add: add.assoc)
    then show ?thesis by (simp add: enc ds(3) add.assoc)
  qed
  have curpos: "cur = pos + length (spec_entry_bytes e)"
    by (simp add: cur lenc p5 p4 p3 p2 p1)
  have curle: "cur \<le> length F" using ds(4) cur by simp
  from Suc.IH [OF rest curle] obtain es post where
    es: "length es = k" "list_all spec_lexical_entry es"
        "F = take cur F @ concat (map spec_entry_bytes es) @ post"
    by blast
  have "take cur F = take pos F @ spec_entry_bytes e"
  proof -
    have "take cur F = take pos F @ take (length (spec_entry_bytes e)) (drop pos F)"
      unfolding curpos by (simp add: take_add)
    then show ?thesis using tk by (simp add: lenc)
  qed
  then have "F = take pos F @ concat (map spec_entry_bytes (e # es)) @ post"
    using es(3) by simp
  then show ?case using es lex
    by (intro exI [of _ "e # es"] exI [of _ post]) simp
qed

lemma length_tensor_magic [simp]: "length tensor_magic = 12"
  by (simp add: tensor_magic_def bytes_of_name_def)

lemma Tensor_load_short:
  assumes "fs filename = Some file" "length file < 18"
  shows "Tensor_load fs filename
         = Inl (ErrorExit ''Tensor: Invalid tensor file: too small, truncated?'')"
  using assms by (simp add: Tensor_load_def Let_def)

lemma Tensor_load_long:
  assumes "fs filename = Some file" "18 \<le> length file"
  shows "Tensor_load fs filename =
         (if take 12 file \<noteq> tensor_magic
          then Inl (ErrorExit ''Tensor: Invalid tensor file: invalid header.'')
          else if \<not> (file ! 12 = 1 \<and> file ! 13 = 0)
          then Inl (ErrorExit ''Tensor: Invalid tensor file: unknown file version.'')
          else (case read_fields file (le_nat (take 4 (drop 14 file))) 18 Map.empty of
                  Inl e \<Rightarrow> Inl e
                | Inr m \<Rightarrow> Inr \<lparr>m_fields = m, m_filename = filename, m_size = length file\<rparr>))"
  using assms by (simp add: Tensor_load_def Let_def fread_def)

lemma spec_header_parts:
  assumes "file = spec_header es @ post" "length es < 2 ^ 32"
  shows "18 \<le> length file" "take 12 file = tensor_magic" "file ! 12 = 1" "file ! 13 = 0"
        "le_nat (take 4 (drop 14 file)) = length es"
        "file = (tensor_magic @ [1, 0] @ spec_le_bytes 4 (length es))
                  @ concat (map spec_entry_bytes es) @ post"
proof -
  show "18 \<le> length file" using assms by (simp add: spec_header_def)
  show "take 12 file = tensor_magic" using assms by (simp add: spec_header_def)
  show "file ! 12 = 1" using assms by (simp add: spec_header_def nth_append)
  show "file ! 13 = 0" using assms by (simp add: spec_header_def nth_append)
  have "take 4 (drop 14 file) = spec_le_bytes 4 (length es)"
    using assms by (simp add: spec_header_def)
  then show "le_nat (take 4 (drop 14 file)) = length es"
    using assms(2) by (simp only: le_nat_spec_le_bytes) simp
  show "file = (tensor_magic @ [1, 0] @ spec_le_bytes 4 (length es))
                  @ concat (map spec_entry_bytes es) @ post"
    using assms by (simp add: spec_header_def)
qed

lemma Tensor_load_encoded:
  assumes fs: "fs filename = Some file"
      and fl: "file = spec_header es @ post"
      and n: "length es < 2 ^ 32"
      and lex: "list_all spec_lexical_entry es"
  shows "if list_all (spec_well_formed_entry file) es
         then Tensor_load fs filename
              = Inr \<lparr>m_fields = spec_table file es Map.empty, m_filename = filename,
                     m_size = length file\<rparr>
         else isl (Tensor_load fs filename)"
proof -
  note hp = spec_header_parts [OF fl n]
  have l18: "length (tensor_magic @ [1, 0] @ spec_le_bytes 4 (length es)) = 18" by simp
  note rf = read_fields_entries [OF lex hp(6), of Map.empty, unfolded l18]
  have tl: "Tensor_load fs filename =
            (case read_fields file (length es) 18 Map.empty of
               Inl e \<Rightarrow> Inl e
             | Inr m \<Rightarrow> Inr \<lparr>m_fields = m, m_filename = filename, m_size = length file\<rparr>)"
    unfolding Tensor_load_long [of fs filename "file", OF fs hp(1)] hp(5) using hp(2,3,4) by simp
  consider (wf) "list_all (spec_well_formed_entry file) es"
    | (nwf) "\<not> list_all (spec_well_formed_entry file) es" by blast
  then show ?thesis
  proof cases
    case wf
    then show ?thesis using rf by (simp add: tl)
  next
    case nwf
    then have "isl (read_fields file (length es) 18 Map.empty)" using rf by simp
    then show ?thesis using nwf by (auto simp: tl isl_def)
  qed
qed

lemma Tensor_load_accept:
  assumes "fs filename = Some file" "file = spec_header es @ post" "length es < 2 ^ 32"
    "list_all spec_lexical_entry es" "list_all (spec_well_formed_entry file) es"
  shows "Tensor_load fs filename
         = Inr \<lparr>m_fields = spec_table file es Map.empty, m_filename = filename,
                m_size = length file\<rparr>"
  using Tensor_load_encoded [of fs filename "file" es post, OF assms(1-4)] assms(5)
  by (simp only: if_True)

lemma Tensor_load_reject:
  assumes "fs filename = Some file" "file = spec_header es @ post" "length es < 2 ^ 32"
    "list_all spec_lexical_entry es" "\<not> list_all (spec_well_formed_entry file) es"
  shows "isl (Tensor_load fs filename)"
  using Tensor_load_encoded [of fs filename "file" es post, OF assms(1-4)] assms(5)
  by (simp only: if_False)

lemma Tensor_load_accepted_is_well_formed:
  assumes fs: "fs filename = Some file"
      and ok: "Tensor_load fs filename = Inr t"
  shows "\<exists>es. spec_well_formed file es"
proof -
  have l18: "18 \<le> length file"
  proof (rule ccontr)
    assume "\<not> 18 \<le> length file"
    then have "length file < 18" by simp
    from Tensor_load_short [of fs filename "file", OF fs this] show False using ok by simp
  qed
  note tl = Tensor_load_long [of fs filename "file", OF fs l18]
  have mg: "take 12 file = tensor_magic" and v: "file ! 12 = 1" "file ! 13 = 0"
    using ok unfolding tl by (simp_all split: if_splits)
  define N where "N = le_nat (take 4 (drop 14 file))"
  obtain m where rf: "read_fields file N 18 Map.empty = Inr m"
    using ok unfolding tl N_def [symmetric] using mg v by (simp split: sum.splits)
  from read_fields_sound [OF rf l18] obtain es post where
    es: "length es = N" "list_all spec_lexical_entry es"
        "file = take 18 file @ concat (map spec_entry_bytes es) @ post"
    by blast
  have N: "N < 2 ^ 32" using le_nat_less [of "take 4 (drop 14 file)"] l18 by (simp add: N_def)
  have nb: "spec_le_bytes 4 N = take 4 (drop 14 file)"
    using spec_le_bytes_le_nat [of "take 4 (drop 14 file)"] l18 by (simp add: N_def)
  have "take 18 file = take 12 file @ take 2 (drop 12 file) @ take 4 (drop 14 file)"
    using take_drop_add [of 12 6 0 "file"] take_drop_add [of 2 4 12 "file"] by simp
  moreover have "take 2 (drop 12 file) = [1, 0]"
  proof -
    have "length (take 2 (drop 12 file)) = 2" using l18 by simp
    moreover have "take 2 (drop 12 file) ! 0 = 1" "take 2 (drop 12 file) ! 1 = 0"
      using v l18 by simp_all
    ultimately show ?thesis
      by (metis (no_types, lifting) One_nat_def Suc_1 length_0_conv length_Suc_conv nth_Cons_0 nth_Cons_Suc)
  qed
  ultimately have h: "take 18 file = tensor_magic @ [1, 0] @ spec_le_bytes 4 (length es)"
    by (simp add: mg nb es(1))
  have fl: "file = spec_header es @ post"
    using es(3) unfolding h by (simp add: spec_header_def)
  have "list_all (spec_well_formed_entry file) es"
  proof (rule ccontr)
    assume "\<not> list_all (spec_well_formed_entry file) es"
    from Tensor_load_reject [of fs filename "file" es post, OF fs fl _ es(2) this] N es(1)
    show False using ok by simp
  qed
  then show ?thesis
    using fl N es by (auto simp: spec_well_formed_def)
qed

lemma spec_payload_size_exact:
  assumes "unat (type_size (Type_of_code (se_dtype e))) * prod_list (se_shape e) < 2 ^ 64"
  shows "unat (spec_payload_size e) = unat (type_size (Type_of_code (se_dtype e))) * prod_list (se_shape e)"
proof -
  have "spec_payload_size e = of_nat (unat (type_size (Type_of_code (se_dtype e))) * prod_list (se_shape e))"
    by (simp add: spec_payload_size_def)
  then show ?thesis using assms by (simp only: unat_of_nat) simp
qed

text \<open>
  Claim C7 (as amended). \<open>Tensor::Tensor\<close> ends in \<open>ErrorExit\<close> on a file shorter than
  the 18 bytes of magic, version and field count, on another magic, on a version other
  than \<open>1.0\<close>, and on a header whose entries are not all well-formed: a type code \<open>0\<close> or
  above \<open>11\<close>, an offset that \<open>fseek\<close> refuses, a payload that the file does not hold.
  Every file that it accepts is well-formed, so a file cut short anywhere in its header
  is refused as well. Every well-formed file is accepted, whatever the number of fields,
  their names and their shapes, and the table holds for each field its type, offset and
  shape and, as data, the bytes of the file from the absolute offset on, whatever the
  position of the header stream. Their number is \<open>product(shape) \<times> dtype_size\<close> computed
  in \<open>size_t\<close>, that is modulo \<open>2\<^sup>6\<^sup>4\<close>: the exact product wherever that is below \<open>2\<^sup>6\<^sup>4\<close>.
\<close>

theorem Tensor_load_fails_fast_or_accepts:
  assumes fs: "fs filename = Some file"
  shows "(length file < 18 \<longrightarrow>
            Tensor_load fs filename
            = Inl (ErrorExit ''Tensor: Invalid tensor file: too small, truncated?''))
       \<and> (18 \<le> length file \<and> take 12 file \<noteq> tensor_magic \<longrightarrow>
            Tensor_load fs filename
            = Inl (ErrorExit ''Tensor: Invalid tensor file: invalid header.''))
       \<and> (18 \<le> length file \<and> take 12 file = tensor_magic \<and> \<not> (file ! 12 = 1 \<and> file ! 13 = 0) \<longrightarrow>
            Tensor_load fs filename
            = Inl (ErrorExit ''Tensor: Invalid tensor file: unknown file version.''))
       \<and> (\<forall>es post. file = spec_header es @ post \<and> length es < 2 ^ 32 \<and>
              list_all spec_lexical_entry es \<and> \<not> list_all (spec_well_formed_entry file) es \<longrightarrow>
            isl (Tensor_load fs filename))
       \<and> (\<forall>t. Tensor_load fs filename = Inr t \<longrightarrow> (\<exists>es. spec_well_formed file es))
       \<and> (\<forall>es. spec_well_formed file es \<longrightarrow>
            Tensor_load fs filename
            = Inr \<lparr>m_fields = spec_table file es Map.empty, m_filename = filename,
                   m_size = length file\<rparr>)
       \<and> (\<forall>e. spec_field file e
              = \<lparr>fld_dtype = Type_of_code (se_dtype e), fld_offset = of_nat (se_offset e),
                 fld_shape = map of_nat (se_shape e),
                 fld_data = take (unat (spec_payload_size e)) (drop (se_offset e) file)\<rparr>
            \<and> (unat (type_size (Type_of_code (se_dtype e))) * prod_list (se_shape e) < 2 ^ 64 \<longrightarrow>
                 unat (spec_payload_size e)
                 = unat (type_size (Type_of_code (se_dtype e))) * prod_list (se_shape e)))"
proof (intro conjI impI allI)
  show "Tensor_load fs filename = Inl (ErrorExit ''Tensor: Invalid tensor file: too small, truncated?'')"
    if "length file < 18"
    using Tensor_load_short [of fs filename "file", OF fs that] .
  show "Tensor_load fs filename = Inl (ErrorExit ''Tensor: Invalid tensor file: invalid header.'')"
    if "18 \<le> length file \<and> take 12 file \<noteq> tensor_magic"
    using Tensor_load_long [of fs filename "file", OF fs] that by simp
  show "Tensor_load fs filename = Inl (ErrorExit ''Tensor: Invalid tensor file: unknown file version.'')"
    if "18 \<le> length file \<and> take 12 file = tensor_magic \<and> \<not> (file ! 12 = 1 \<and> file ! 13 = 0)"
    using Tensor_load_long [of fs filename "file", OF fs] that by simp
  show "isl (Tensor_load fs filename)"
    if "file = spec_header es @ post \<and> length es < 2 ^ 32 \<and>
        list_all spec_lexical_entry es \<and> \<not> list_all (spec_well_formed_entry file) es" for es post
    using Tensor_load_reject [of fs filename "file" es post, OF fs] that by blast
  show "\<exists>es. spec_well_formed file es" if "Tensor_load fs filename = Inr t" for t
    using Tensor_load_accepted_is_well_formed [of fs filename "file", OF fs that] .
  show "Tensor_load fs filename
        = Inr \<lparr>m_fields = spec_table file es Map.empty, m_filename = filename,
               m_size = length file\<rparr>"
    if "spec_well_formed file es" for es
  proof -
    from that obtain post where "file = spec_header es @ post" "length es < 2 ^ 32"
      "list_all spec_lexical_entry es" "list_all (spec_well_formed_entry file) es"
      by (auto simp: spec_well_formed_def)
    then show ?thesis
      using Tensor_load_accept [of fs filename "file" es post, OF fs] by blast
  qed
  show "spec_field file e
        = \<lparr>fld_dtype = Type_of_code (se_dtype e), fld_offset = of_nat (se_offset e),
           fld_shape = map of_nat (se_shape e),
           fld_data = take (unat (spec_payload_size e)) (drop (se_offset e) file)\<rparr>" for e
    by (simp add: spec_field_def)
  show "unat (spec_payload_size e) = unat (type_size (Type_of_code (se_dtype e))) * prod_list (se_shape e)"
    if "unat (type_size (Type_of_code (se_dtype e))) * prod_list (se_shape e) < 2 ^ 64" for e
    using spec_payload_size_exact [OF that] .
qed

lemma name_of_bytes_of_name [simp]: "name_of_bytes (bytes_of_name s) = s"
proof -
  have "char_of (unat (of_nat (of_char c) :: 8 word)) = c" for c :: char
  proof -
    have "unat (of_nat (of_char c) :: 8 word) = of_char c"
      using nat_of_char_less_256 [of c] by (simp add: unat_of_nat)
    then show ?thesis by simp
  qed
  then show ?thesis by (simp add: name_of_bytes_def bytes_of_name_def comp_def)
qed

lemma length_spec_entry_bytes:
  "length (spec_entry_bytes e) = 13 + length (se_name e) + 8 * length (se_shape e)"
  by (simp add: spec_entry_bytes_def length_concat comp_def sum_list_triv)

lemma example_tensor_file_length: "length example_tensor_file = 70"
  by (simp add: example_tensor_file_def spec_header_def example_entries_def
      length_spec_entry_bytes bytes_of_name_def)

lemma example_tensor_file_well_formed: "spec_well_formed example_tensor_file example_entries"
proof -
  have "list_all spec_lexical_entry example_entries"
    by (simp add: example_entries_def spec_lexical_entry_def bytes_of_name_def)
  moreover have "list_all (spec_well_formed_entry example_tensor_file) example_entries"
    by (simp add: example_entries_def spec_well_formed_entry_def spec_payload_size_def
        Type_of_code_def example_tensor_file_length)
  moreover have "length example_entries < 2 ^ 32" by (simp add: example_entries_def)
  ultimately show ?thesis
    by (simp add: spec_well_formed_def example_tensor_file_def)
qed

lemma example_tensor_file_take: "take 12 example_tensor_file = tensor_magic"
  by (simp add: example_tensor_file_def spec_header_def)

lemma example_tensor_file_fields:
  "map_option fld_data (spec_table example_tensor_file example_entries Map.empty ''a'')
     = Some (bytes_of_name ''so'')"
  "map_option fld_data (spec_table example_tensor_file example_entries Map.empty ''b'')
     = Some (bytes_of_name ''tensor'')"
  "spec_table example_tensor_file example_entries Map.empty ''c'' = None"
proof -
  have m: "take 12 example_tensor_file = bytes_of_name ''tensor_file'' @ [0]"
    by (simp add: example_tensor_file_take tensor_magic_def)
  have t: "take n (drop k example_tensor_file) = take n (drop k (take 12 example_tensor_file))"
    if "k + n \<le> 12" for n k
    using that by (simp add: drop_take)
  have a: "take 2 (drop 3 example_tensor_file) = bytes_of_name ''so''"
    unfolding t [of 3 2, simplified] m by (simp add: bytes_of_name_def)
  have "take 6 example_tensor_file = take 6 (take 12 example_tensor_file)" by simp
  then have b: "take 6 example_tensor_file = bytes_of_name ''tensor''"
    unfolding m by (simp add: bytes_of_name_def)
  show "map_option fld_data (spec_table example_tensor_file example_entries Map.empty ''a'')
     = Some (bytes_of_name ''so'')"
    by (simp add: spec_table_def example_entries_def spec_field_def spec_payload_size_def
        Type_of_code_def a)
  show "map_option fld_data (spec_table example_tensor_file example_entries Map.empty ''b'')
     = Some (bytes_of_name ''tensor'')"
    by (simp add: spec_table_def example_entries_def spec_field_def spec_payload_size_def
        Type_of_code_def b)
  show "spec_table example_tensor_file example_entries Map.empty ''c'' = None"
    by (simp add: spec_table_def example_entries_def)
qed

lemma lexical_examples:
  "spec_lexical_entry entry_of_unknown_type" "spec_lexical_entry entry_behind_the_end"
  by (simp_all add: spec_lexical_entry_def entry_of_unknown_type_def entry_behind_the_end_def
      bytes_of_name_def)

lemma not_well_formed_examples:
  "\<not> spec_well_formed_entry F entry_of_unknown_type"
  "\<not> spec_well_formed_entry (spec_header [entry_behind_the_end]) entry_behind_the_end"
  by (simp_all add: spec_well_formed_entry_def entry_of_unknown_type_def entry_behind_the_end_def
      spec_payload_size_def Type_of_code_def spec_header_def length_spec_entry_bytes bytes_of_name_def)

theorem Tensor_load_fails_fast_or_accepts_witness:
  "Tensor_load (\<lambda>_. Some example_tensor_file) ''f''
     = Inr \<lparr>m_fields = spec_table example_tensor_file example_entries Map.empty,
            m_filename = ''f'', m_size = 70\<rparr>
   \<and> map_option fld_data (spec_table example_tensor_file example_entries Map.empty ''a'')
     = Some (bytes_of_name ''so'')
   \<and> map_option fld_data (spec_table example_tensor_file example_entries Map.empty ''b'')
     = Some (bytes_of_name ''tensor'')
   \<and> Tensor_load (\<lambda>_. Some (take 17 example_tensor_file)) ''f''
     = Inl (ErrorExit ''Tensor: Invalid tensor file: too small, truncated?'')
   \<and> Tensor_load (\<lambda>_. Some (0 # drop 1 example_tensor_file)) ''f''
     = Inl (ErrorExit ''Tensor: Invalid tensor file: invalid header.'')
   \<and> Tensor_load (\<lambda>_. Some (tensor_magic @ [1, 1] @ drop 14 example_tensor_file)) ''f''
     = Inl (ErrorExit ''Tensor: Invalid tensor file: unknown file version.'')
   \<and> isl (Tensor_load (\<lambda>_. Some (spec_header [entry_of_unknown_type])) ''f'')
   \<and> isl (Tensor_load (\<lambda>_. Some (spec_header [entry_behind_the_end])) ''f'')"
proof -
  note T = Tensor_load_fails_fast_or_accepts
  have 1: "Tensor_load (\<lambda>_. Some example_tensor_file) ''f''
     = Inr \<lparr>m_fields = spec_table example_tensor_file example_entries Map.empty,
            m_filename = ''f'', m_size = 70\<rparr>"
    using T [of "\<lambda>_. Some example_tensor_file" "''f''" example_tensor_file]
      example_tensor_file_well_formed
    by (simp add: example_tensor_file_length)
  have 4: "Tensor_load (\<lambda>_. Some (take 17 example_tensor_file)) ''f''
     = Inl (ErrorExit ''Tensor: Invalid tensor file: too small, truncated?'')"
    using T [of "\<lambda>_. Some (take 17 example_tensor_file)" "''f''" "take 17 example_tensor_file"]
    by (simp add: example_tensor_file_length)
  have 5: "Tensor_load (\<lambda>_. Some (0 # drop 1 example_tensor_file)) ''f''
     = Inl (ErrorExit ''Tensor: Invalid tensor file: invalid header.'')"
  proof -
    have "take 12 (0 # drop 1 example_tensor_file) \<noteq> tensor_magic"
      by (simp add: tensor_magic_def bytes_of_name_def)
    then show ?thesis
      using T [of "\<lambda>_. Some (0 # drop 1 example_tensor_file)" "''f''"
          "0 # drop 1 example_tensor_file"]
      by (simp add: example_tensor_file_length)
  qed
  have 6: "Tensor_load (\<lambda>_. Some (tensor_magic @ [1, 1] @ drop 14 example_tensor_file)) ''f''
     = Inl (ErrorExit ''Tensor: Invalid tensor file: unknown file version.'')"
  proof -
    have "(tensor_magic @ [1, 1] @ drop 14 example_tensor_file) ! 13 = 1"
      by (simp add: nth_append)
    then show ?thesis
      using T [of "\<lambda>_. Some (tensor_magic @ [1, 1] @ drop 14 example_tensor_file)" "''f''"
          "tensor_magic @ [1, 1] @ drop 14 example_tensor_file"]
      by (simp add: example_tensor_file_length)
  qed
  have 7: "isl (Tensor_load (\<lambda>_. Some (spec_header [entry_of_unknown_type])) ''f'')"
  proof -
    have "\<forall>es post. spec_header [entry_of_unknown_type] = spec_header es @ post \<and>
            length es < 2 ^ 32 \<and> list_all spec_lexical_entry es \<and>
            \<not> list_all (spec_well_formed_entry (spec_header [entry_of_unknown_type])) es \<longrightarrow>
          isl (Tensor_load (\<lambda>_. Some (spec_header [entry_of_unknown_type])) ''f'')"
      using T [of "\<lambda>_. Some (spec_header [entry_of_unknown_type])" "''f''"
          "spec_header [entry_of_unknown_type]", OF refl] by blast
    from this [rule_format, of "[entry_of_unknown_type]" "[]"] show ?thesis
      using lexical_examples(1) not_well_formed_examples(1) by simp
  qed
  have 8: "isl (Tensor_load (\<lambda>_. Some (spec_header [entry_behind_the_end])) ''f'')"
  proof -
    have "\<forall>es post. spec_header [entry_behind_the_end] = spec_header es @ post \<and>
            length es < 2 ^ 32 \<and> list_all spec_lexical_entry es \<and>
            \<not> list_all (spec_well_formed_entry (spec_header [entry_behind_the_end])) es \<longrightarrow>
          isl (Tensor_load (\<lambda>_. Some (spec_header [entry_behind_the_end])) ''f'')"
      using T [of "\<lambda>_. Some (spec_header [entry_behind_the_end])" "''f''"
          "spec_header [entry_behind_the_end]", OF refl] by blast
    from this [rule_format, of "[entry_behind_the_end]" "[]"] show ?thesis
      using lexical_examples(2) not_well_formed_examples(2) by simp
  qed
  show ?thesis
    by (intro conjI) (fact 1 4 5 6 7 8 example_tensor_file_fields)+
qed

lemma wrapping_size: "unat (spec_payload_size entry_of_wrapping_size) = 0"
  by (simp add: spec_payload_size_def entry_of_wrapping_size_def Type_of_code_def unat_of_nat)

lemma wrapping_size_loads:
  assumes "fs filename = Some file_of_wrapping_size"
  shows "Tensor_load fs filename
   = Inr \<lparr>m_fields = spec_table file_of_wrapping_size [entry_of_wrapping_size] Map.empty,
          m_filename = filename, m_size = length file_of_wrapping_size\<rparr>"
proof (rule Tensor_load_accept [where post = "[]"])
  show "fs filename = Some file_of_wrapping_size" by (rule assms)
  show "file_of_wrapping_size = spec_header [entry_of_wrapping_size] @ []"
    by (simp add: file_of_wrapping_size_def)
  show "length [entry_of_wrapping_size] < 2 ^ 32" by simp
  show "list_all spec_lexical_entry [entry_of_wrapping_size]"
    by (simp add: spec_lexical_entry_def entry_of_wrapping_size_def bytes_of_name_def)
  show "list_all (spec_well_formed_entry file_of_wrapping_size) [entry_of_wrapping_size]"
    by (simp add: spec_well_formed_entry_def wrapping_size) (simp add: entry_of_wrapping_size_def)
qed

text \<open>
  The claim as stated, a payload of \<open>product(shape) \<times> dtype_size\<close> bytes for every
  accepted file, fails where that product does not fit \<open>size_t\<close>. The file of 48 bytes
  whose one field \<open>a\<close> has the type \<open>uint8\<close> and the shape \<open>2\<^sup>3\<^sup>2 \<times> 2\<^sup>3\<^sup>2\<close> is accepted:
  \<open>total_size\<close> wraps to \<open>0\<close>, the read of no bytes succeeds, and the field is stored
  with that shape and no data.
\<close>

theorem Tensor_load_wrapping_size_counterexample:
  "Tensor_load (only_file ''t'' file_of_wrapping_size) ''t''
     = Inr \<lparr>m_fields = [''a'' \<mapsto> \<lparr>fld_dtype = UInt8, fld_offset = 0,
                                  fld_shape = [4294967296, 4294967296], fld_data = []\<rparr>],
            m_filename = ''t'', m_size = 48\<rparr>
   \<and> unat (type_size UInt8) * prod_list [4294967296, 4294967296] = 18446744073709551616
   \<and> length ([] :: byte list) \<noteq> 18446744073709551616"
proof -
  have l: "length file_of_wrapping_size = 48"
    by (simp add: file_of_wrapping_size_def spec_header_def length_spec_entry_bytes
        entry_of_wrapping_size_def bytes_of_name_def)
  have t: "spec_table file_of_wrapping_size [entry_of_wrapping_size] Map.empty
           = [''a'' \<mapsto> \<lparr>fld_dtype = UInt8, fld_offset = 0,
                          fld_shape = [4294967296, 4294967296], fld_data = []\<rparr>]"
    by (simp add: spec_table_def spec_field_def wrapping_size)
       (simp add: entry_of_wrapping_size_def Type_of_code_def)
  have "Tensor_load (only_file ''t'' file_of_wrapping_size) ''t''
     = Inr \<lparr>m_fields = [''a'' \<mapsto> \<lparr>fld_dtype = UInt8, fld_offset = 0,
                                  fld_shape = [4294967296, 4294967296], fld_data = []\<rparr>],
            m_filename = ''t'', m_size = 48\<rparr>"
    using wrapping_size_loads [of "only_file ''t'' file_of_wrapping_size" "''t''"]
    by (simp add: only_file_def l t)
  then show ?thesis by simp
qed

subsection \<open>The structure test of the measured-data resource\<close>

lemma Create_missing_field:
  assumes "Tensor_load fs filename = Inr tf"
      and "\<exists>n\<in>set looked_up_fields. \<not> has_field tf n"
  shows "Create P fs filename = Inl CHECK_failed"
  using assms
  by (auto simp: Create_def field_def looked_up_fields_def has_field_def split: option.splits)

lemma Create_invalid_structure:
  assumes "Tensor_load fs filename = Inr tf"
      and "m_fields tf ''theta_i'' = Some theta_i" "m_fields tf ''phi_i'' = Some phi_i"
          "m_fields tf ''ndf'' = Some ndf" "m_fields tf ''sigma'' = Some sigma"
          "m_fields tf ''vndf'' = Some vndf" "m_fields tf ''spectra'' = Some spectra"
          "m_fields tf ''luminance'' = Some luminance" "m_fields tf ''wavelengths'' = Some wavelengths"
          "m_fields tf ''description'' = Some description" "m_fields tf ''jacobian'' = Some jacobian"
      and "\<not> valid_structure theta_i phi_i ndf sigma vndf spectra luminance wavelengths description jacobian"
  shows "Create P fs filename = Inr ([Invalid_BRDF_file_structure filename], None)"
  using assms by (simp add: Create_def field_def)

lemma Create_null_is_reported:
  assumes "Create P fs filename = Inr (ds, None)"
  shows "ds = [Invalid_BRDF_file_structure filename]"
  using assms
  by (simp add: Create_def field_def Let_def split: sum.splits option.splits if_splits)

lemma length_spec_header:
  "length (spec_header es) = 18 + sum_list (map (\<lambda>e. length (spec_entry_bytes e)) es)"
  by (simp add: spec_header_def length_concat comp_def)

lemma schema_entry_lexical:
  assumes "length name < 2 ^ 16" "length shape < 2 ^ 16" "dtype < 2 ^ 8"
    "list_all (\<lambda>d. d < 2 ^ 64) shape"
  shows "spec_lexical_entry (schema_entry name dtype shape)"
  using assms by (simp add: spec_lexical_entry_def schema_entry_def bytes_of_name_def)

lemma schema_entry_well_formed:
  assumes "dtype \<noteq> 0" "dtype \<le> 11"
    "unat (type_size (Type_of_code dtype) * of_nat (prod_list shape)) \<le> length F"
  shows "spec_well_formed_entry F (schema_entry name dtype shape)"
  using assms by (simp add: spec_well_formed_entry_def schema_entry_def spec_payload_size_def)

lemma without_vndf_loads:
  assumes "fs filename = Some measured_file_without_vndf"
  shows "Tensor_load fs filename
   = Inr \<lparr>m_fields = spec_table measured_file_without_vndf entries_without_vndf Map.empty,
          m_filename = filename, m_size = length measured_file_without_vndf\<rparr>"
proof (rule Tensor_load_accept [where post = "[]"])
  show "fs filename = Some measured_file_without_vndf" by (rule assms)
  show "measured_file_without_vndf = spec_header entries_without_vndf @ []"
    by (simp add: measured_file_without_vndf_def)
  show "length entries_without_vndf < 2 ^ 32" by (simp add: entries_without_vndf_def)
  show "list_all spec_lexical_entry entries_without_vndf"
    by (simp add: entries_without_vndf_def schema_entry_lexical)
  have "18 \<le> length measured_file_without_vndf"
    by (simp add: measured_file_without_vndf_def length_spec_header)
  then show "list_all (spec_well_formed_entry measured_file_without_vndf) entries_without_vndf"
    by (simp add: entries_without_vndf_def schema_entry_well_formed Type_of_code_def)
qed

lemma with_flat_spectra_loads:
  assumes "fs filename = Some measured_file_with_flat_spectra"
  shows "Tensor_load fs filename
   = Inr \<lparr>m_fields = spec_table measured_file_with_flat_spectra entries_with_flat_spectra Map.empty,
          m_filename = filename, m_size = length measured_file_with_flat_spectra\<rparr>"
proof (rule Tensor_load_accept [where post = "[]"])
  show "fs filename = Some measured_file_with_flat_spectra" by (rule assms)
  show "measured_file_with_flat_spectra = spec_header entries_with_flat_spectra @ []"
    by (simp add: measured_file_with_flat_spectra_def)
  show "length entries_with_flat_spectra < 2 ^ 32" by (simp add: entries_with_flat_spectra_def)
  show "list_all spec_lexical_entry entries_with_flat_spectra"
    by (simp add: entries_with_flat_spectra_def schema_entry_lexical)
  have "18 \<le> length measured_file_with_flat_spectra"
    by (simp add: measured_file_with_flat_spectra_def length_spec_header)
  then show "list_all (spec_well_formed_entry measured_file_with_flat_spectra) entries_with_flat_spectra"
    by (simp add: entries_with_flat_spectra_def schema_entry_well_formed Type_of_code_def)
qed

lemma without_vndf_fields:
  "has_field \<lparr>m_fields = spec_table F entries_without_vndf Map.empty, m_filename = fn, m_size = n\<rparr> name
   \<longleftrightarrow> name \<in> set looked_up_fields - {''vndf''}"
  by (simp add: has_field_def spec_table_def entries_without_vndf_def schema_entry_def
      looked_up_fields_def)

lemma with_flat_spectra_fields:
  "has_field \<lparr>m_fields = spec_table F entries_with_flat_spectra Map.empty, m_filename = fn, m_size = n\<rparr> name
   \<longleftrightarrow> name \<in> set looked_up_fields"
  by (simp add: has_field_def spec_table_def entries_with_flat_spectra_def schema_entry_def
      looked_up_fields_def)

lemma with_flat_spectra_rank:
  "m_fields \<lparr>m_fields = spec_table F entries_with_flat_spectra Map.empty, m_filename = fn, m_size = n\<rparr>
     ''spectra'' = Some (spec_field F (schema_entry ''spectra'' 10 [1, 1, 1, 1]))"
  by (simp add: spec_table_def entries_with_flat_spectra_def schema_entry_def)

text \<open>
  Claim C2 (as amended). Let the tensor file load. If it lacks one of the ten fields that
  \<open>MeasuredBxDFData::Create\<close> looks up, the \<open>CHECK\<close> of \<open>Tensor::field\<close> fails and the
  process aborts: \<open>Create\<close> returns nothing and reports nothing. If the ten fields are
  there and a rank, a type or a relation between the shapes is not the required one (for
  instance \<open>spectra\<close> of a rank other than 5), \<open>Create\<close> reports
  \<open>invalid BRDF file structure\<close> and returns the null pointer, and the process goes on.
  With the ten fields there the \<open>CHECK\<close> does not fail, and \<open>Create\<close> never returns
  the null pointer without that report.
\<close>

theorem Create_rejects_invalid_structure:
  assumes load: "Tensor_load fs filename = Inr tf"
  shows "((\<exists>n\<in>set looked_up_fields. \<not> has_field tf n) \<longrightarrow>
            Create P fs filename = Inl CHECK_failed)
       \<and> (\<forall>theta_i phi_i ndf sigma vndf spectra luminance wavelengths description jacobian.
            m_fields tf ''theta_i'' = Some theta_i \<and> m_fields tf ''phi_i'' = Some phi_i \<and>
            m_fields tf ''ndf'' = Some ndf \<and> m_fields tf ''sigma'' = Some sigma \<and>
            m_fields tf ''vndf'' = Some vndf \<and> m_fields tf ''spectra'' = Some spectra \<and>
            m_fields tf ''luminance'' = Some luminance \<and>
            m_fields tf ''wavelengths'' = Some wavelengths \<and>
            m_fields tf ''description'' = Some description \<and>
            m_fields tf ''jacobian'' = Some jacobian \<and>
            \<not> valid_structure theta_i phi_i ndf sigma vndf spectra luminance wavelengths
                 description jacobian \<longrightarrow>
            Create P fs filename = Inr ([Invalid_BRDF_file_structure filename], None))
       \<and> ((\<forall>n\<in>set looked_up_fields. has_field tf n) \<and>
          (\<exists>spectra. m_fields tf ''spectra'' = Some spectra \<and> length (fld_shape spectra) \<noteq> 5) \<longrightarrow>
            Create P fs filename = Inr ([Invalid_BRDF_file_structure filename], None))
       \<and> ((\<forall>n\<in>set looked_up_fields. has_field tf n) \<longrightarrow> Create P fs filename \<noteq> Inl CHECK_failed)
       \<and> (\<forall>ds. Create P fs filename = Inr (ds, None) \<longrightarrow>
            ds = [Invalid_BRDF_file_structure filename])"
proof (intro conjI impI allI)
  show "Create P fs filename = Inl CHECK_failed" if "\<exists>n\<in>set looked_up_fields. \<not> has_field tf n"
    using Create_missing_field [OF load that] .
  show "Create P fs filename = Inr ([Invalid_BRDF_file_structure filename], None)"
    if "m_fields tf ''theta_i'' = Some theta_i \<and> m_fields tf ''phi_i'' = Some phi_i \<and>
            m_fields tf ''ndf'' = Some ndf \<and> m_fields tf ''sigma'' = Some sigma \<and>
            m_fields tf ''vndf'' = Some vndf \<and> m_fields tf ''spectra'' = Some spectra \<and>
            m_fields tf ''luminance'' = Some luminance \<and>
            m_fields tf ''wavelengths'' = Some wavelengths \<and>
            m_fields tf ''description'' = Some description \<and>
            m_fields tf ''jacobian'' = Some jacobian \<and>
            \<not> valid_structure theta_i phi_i ndf sigma vndf spectra luminance wavelengths
                 description jacobian"
    for theta_i phi_i ndf sigma vndf spectra luminance wavelengths description jacobian
    using Create_invalid_structure [OF load, of theta_i phi_i ndf sigma vndf spectra luminance
        wavelengths description jacobian P] that by blast
  show "Create P fs filename = Inr ([Invalid_BRDF_file_structure filename], None)"
    if h: "(\<forall>n\<in>set looked_up_fields. has_field tf n) \<and>
        (\<exists>spectra. m_fields tf ''spectra'' = Some spectra \<and> length (fld_shape spectra) \<noteq> 5)"
  proof -
    from h obtain spectra where sp: "m_fields tf ''spectra'' = Some spectra"
      "length (fld_shape spectra) \<noteq> 5" by blast
    from h have "\<forall>n\<in>set looked_up_fields. \<exists>f. m_fields tf n = Some f"
      by (simp add: has_field_def)
    then obtain theta_i phi_i ndf sigma vndf luminance wavelengths description jacobian where
      f: "m_fields tf ''theta_i'' = Some theta_i" "m_fields tf ''phi_i'' = Some phi_i"
         "m_fields tf ''ndf'' = Some ndf" "m_fields tf ''sigma'' = Some sigma"
         "m_fields tf ''vndf'' = Some vndf" "m_fields tf ''luminance'' = Some luminance"
         "m_fields tf ''wavelengths'' = Some wavelengths"
         "m_fields tf ''description'' = Some description" "m_fields tf ''jacobian'' = Some jacobian"
      by (auto simp: looked_up_fields_def)
    have "\<not> valid_structure theta_i phi_i ndf sigma vndf spectra luminance wavelengths
             description jacobian"
      using sp(2) by (simp add: valid_structure_def)
    from Create_invalid_structure [OF load f(1-5) sp(1) f(6-9) this] show ?thesis .
  qed
  show "Create P fs filename \<noteq> Inl CHECK_failed" if "\<forall>n\<in>set looked_up_fields. has_field tf n"
    using that load
    by (auto simp: Create_def field_def looked_up_fields_def has_field_def Let_def
        split: option.splits if_splits)
  show "ds = [Invalid_BRDF_file_structure filename]" if "Create P fs filename = Inr (ds, None)" for ds
    using Create_null_is_reported [OF that] .
qed

lemma only_file_loads:
  "Tensor_load (only_file ''m.bsdf'' measured_file_without_vndf) ''m.bsdf''
     = Inr \<lparr>m_fields = spec_table measured_file_without_vndf entries_without_vndf Map.empty,
            m_filename = ''m.bsdf'', m_size = length measured_file_without_vndf\<rparr>"
  "Tensor_load (only_file ''m.bsdf'' measured_file_with_flat_spectra) ''m.bsdf''
     = Inr \<lparr>m_fields = spec_table measured_file_with_flat_spectra entries_with_flat_spectra Map.empty,
            m_filename = ''m.bsdf'', m_size = length measured_file_with_flat_spectra\<rparr>"
proof -
  show "Tensor_load (only_file ''m.bsdf'' measured_file_without_vndf) ''m.bsdf''
     = Inr \<lparr>m_fields = spec_table measured_file_without_vndf entries_without_vndf Map.empty,
            m_filename = ''m.bsdf'', m_size = length measured_file_without_vndf\<rparr>"
    by (rule without_vndf_loads) (simp add: only_file_def)
  show "Tensor_load (only_file ''m.bsdf'' measured_file_with_flat_spectra) ''m.bsdf''
     = Inr \<lparr>m_fields = spec_table measured_file_with_flat_spectra entries_with_flat_spectra Map.empty,
            m_filename = ''m.bsdf'', m_size = length measured_file_with_flat_spectra\<rparr>"
    by (rule with_flat_spectra_loads) (simp add: only_file_def)
qed

text \<open>
  The claim as stated fails for a missing field. The file \<open>measured_file_without_vndf\<close>
  loads, holds the nine other fields with the required types and ranks, and
  \<open>Create\<close> ends in the failed \<open>CHECK\<close> of \<open>tf.field("vndf")\<close>, before the test of the
  structure is reached.
\<close>

theorem Create_missing_vndf_counterexample:
  "Tensor_load (only_file ''m.bsdf'' measured_file_without_vndf) ''m.bsdf''
     = Inr \<lparr>m_fields = spec_table measured_file_without_vndf entries_without_vndf Map.empty,
            m_filename = ''m.bsdf'', m_size = length measured_file_without_vndf\<rparr>
   \<and> list_all (has_field \<lparr>m_fields = spec_table measured_file_without_vndf entries_without_vndf Map.empty,
            m_filename = ''m.bsdf'', m_size = length measured_file_without_vndf\<rparr>)
        (remove1 ''vndf'' looked_up_fields)
   \<and> \<not> has_field \<lparr>m_fields = spec_table measured_file_without_vndf entries_without_vndf Map.empty,
            m_filename = ''m.bsdf'', m_size = length measured_file_without_vndf\<rparr> ''vndf''
   \<and> Create flat_interpolants (only_file ''m.bsdf'' measured_file_without_vndf) ''m.bsdf''
     = Inl CHECK_failed"
proof -
  have c: "Create flat_interpolants (only_file ''m.bsdf'' measured_file_without_vndf) ''m.bsdf''
           = Inl CHECK_failed"
    by (simp add: Create_def field_def only_file_loads spec_table_def entries_without_vndf_def
        schema_entry_def)
  show ?thesis
    by (simp add: only_file_loads without_vndf_fields c looked_up_fields_def)
qed

theorem Create_rejects_invalid_structure_witness:
  "Tensor_load (only_file ''m.bsdf'' measured_file_with_flat_spectra) ''m.bsdf''
     = Inr \<lparr>m_fields = spec_table measured_file_with_flat_spectra entries_with_flat_spectra Map.empty,
            m_filename = ''m.bsdf'', m_size = length measured_file_with_flat_spectra\<rparr>
   \<and> Create flat_interpolants (only_file ''m.bsdf'' measured_file_with_flat_spectra) ''m.bsdf''
     = Inr ([Invalid_BRDF_file_structure ''m.bsdf''], None)"
proof -
  let ?tf = "\<lparr>m_fields = spec_table measured_file_with_flat_spectra entries_with_flat_spectra Map.empty,
            m_filename = ''m.bsdf'', m_size = length measured_file_with_flat_spectra\<rparr>"
  have all: "\<forall>n\<in>set looked_up_fields. has_field ?tf n"
    by (simp only: with_flat_spectra_fields) simp
  have rank: "\<exists>spectra. m_fields ?tf ''spectra'' = Some spectra \<and> length (fld_shape spectra) \<noteq> 5"
    by (simp only: with_flat_spectra_rank) (simp add: spec_field_def schema_entry_def)
  have "Create flat_interpolants (only_file ''m.bsdf'' measured_file_with_flat_spectra) ''m.bsdf''
     = Inr ([Invalid_BRDF_file_structure ''m.bsdf''], None)"
    using Create_rejects_invalid_structure [OF only_file_loads(2), of flat_interpolants]
      all rank by blast
  then show ?thesis by (simp add: only_file_loads)
qed

lemma valid_structure_loads:
  assumes "fs filename = Some measured_file_of_valid_structure"
  shows "Tensor_load fs filename
   = Inr \<lparr>m_fields = spec_table measured_file_of_valid_structure entries_of_valid_structure Map.empty,
          m_filename = filename, m_size = length measured_file_of_valid_structure\<rparr>"
proof (rule Tensor_load_accept [where post = "[]"])
  show "fs filename = Some measured_file_of_valid_structure" by (rule assms)
  show "measured_file_of_valid_structure = spec_header entries_of_valid_structure @ []"
    by (simp add: measured_file_of_valid_structure_def)
  show "length entries_of_valid_structure < 2 ^ 32" by (simp add: entries_of_valid_structure_def)
  show "list_all spec_lexical_entry entries_of_valid_structure"
    by (simp add: entries_of_valid_structure_def schema_entry_lexical)
  have "18 \<le> length measured_file_of_valid_structure"
    by (simp add: measured_file_of_valid_structure_def length_spec_header)
  then show "list_all (spec_well_formed_entry measured_file_of_valid_structure) entries_of_valid_structure"
    by (simp add: entries_of_valid_structure_def schema_entry_well_formed Type_of_code_def)
qed

lemma valid_structure_Create:
  assumes "fs filename = Some measured_file_of_valid_structure"
  shows "Create flat_interpolants fs filename = Inr ([], Some (flat_resource filename))"
  by (simp add: Create_def field_def valid_structure_loads [of fs filename, OF assms] spec_table_def
      entries_of_valid_structure_def schema_entry_def spec_field_def valid_structure_def
      Type_of_code_def flat_interpolants_def flat_resource_def Let_def)

subsection \<open>The cache of measured data\<close>

lemma BRDFDataFromFile_hit:
  assumes "loadedData st f = Some r"
  shows "BRDFDataFromFile P fs st f = Inr (r, st)"
  using assms by (simp add: BRDFDataFromFile_def)

lemma BRDFDataFromFile_miss:
  assumes "loadedData st f = None"
  shows "BRDFDataFromFile P fs st f =
         (case Create P fs f of
            Inl e \<Rightarrow> Inl e
          | Inr (ds, r) \<Rightarrow>
              Inr (r, st\<lparr>loadedData := (loadedData st)(f \<mapsto> r), created := created st @ [f],
                         reported := reported st @ ds\<rparr>))"
  using assms by (simp add: BRDFDataFromFile_def Let_def split: sum.splits prod.splits)

lemma BRDFDataFromFile_step:
  assumes ok: "BRDFDataFromFile P fs st f = Inr (r, st')" and inv: "cache_inv st"
  shows "cache_inv st'" "loadedData st' f = Some r"
    "\<forall>g. loadedData st g \<noteq> None \<longrightarrow> loadedData st' g = loadedData st g"
    "dom (loadedData st') = insert f (dom (loadedData st))"
proof -
  consider (hit) v where "loadedData st f = Some v" | (miss) "loadedData st f = None"
    by (metis not_Some_eq)
  then have "cache_inv st' \<and> loadedData st' f = Some r \<and>
    (\<forall>g. loadedData st g \<noteq> None \<longrightarrow> loadedData st' g = loadedData st g) \<and>
    dom (loadedData st') = insert f (dom (loadedData st))"
  proof cases
    case hit
    then have "r = v" "st' = st" using ok by (simp_all add: BRDFDataFromFile_hit)
    then show ?thesis using hit inv by auto
  next
    case miss
    from ok obtain ds where
      st': "st' = st\<lparr>loadedData := (loadedData st)(f \<mapsto> r), created := created st @ [f],
                       reported := reported st @ ds\<rparr>"
      unfolding BRDFDataFromFile_miss [OF miss] by (auto split: sum.splits prod.splits)
    have nf: "f \<notin> set (created st)" using inv miss by (auto simp: cache_inv_def)
    show ?thesis using inv miss nf by (auto simp: st' cache_inv_def)
  qed
  then show "cache_inv st'" "loadedData st' f = Some r"
    "\<forall>g. loadedData st g \<noteq> None \<longrightarrow> loadedData st' g = loadedData st g"
    "dom (loadedData st') = insert f (dom (loadedData st))" by blast+
qed

lemma sequential_requests_inv:
  assumes "sequential_requests P fs st fns = Inr (rs, st')" "cache_inv st"
  shows "cache_inv st' \<and> length rs = length fns \<and>
         dom (loadedData st') = dom (loadedData st) \<union> set fns \<and>
         (\<forall>g. loadedData st g \<noteq> None \<longrightarrow> loadedData st' g = loadedData st g) \<and>
         (\<forall>i<length fns. loadedData st' (fns ! i) = Some (rs ! i))"
  using assms
proof (induction fns arbitrary: st rs)
  case Nil
  then show ?case by simp
next
  case (Cons f fns)
  from Cons.prems(1) obtain r st1 rs1 where
    one: "BRDFDataFromFile P fs st f = Inr (r, st1)" and
    rest: "sequential_requests P fs st1 fns = Inr (rs1, st')" and
    rs: "rs = r # rs1"
    by (auto split: sum.splits prod.splits)
  note s = BRDFDataFromFile_step [OF one Cons.prems(2)]
  note IH = Cons.IH [OF rest s(1)]
  have keep: "\<forall>g. loadedData st1 g \<noteq> None \<longrightarrow> loadedData st' g = loadedData st1 g"
    using IH by blast
  have f: "loadedData st' f = Some r" using keep s(2) by simp
  have idx: "\<forall>i<length (f # fns). loadedData st' ((f # fns) ! i) = Some (rs ! i)"
  proof (intro allI impI)
    fix i assume "i < length (f # fns)"
    then show "loadedData st' ((f # fns) ! i) = Some (rs ! i)"
      using IH f by (cases i) (simp_all add: rs)
  qed
  have mono: "\<forall>g. loadedData st g \<noteq> None \<longrightarrow> loadedData st' g = loadedData st g"
    using s(3) keep by metis
  have d: "dom (loadedData st') = dom (loadedData st) \<union> set (f # fns)"
    using IH s(4) by auto
  show ?case using IH idx mono d by (simp add: rs)
qed

lemma empty_cache_inv: "cache_inv empty_cache"
  by (simp add: cache_inv_def empty_cache_def)

text \<open>
  Claim C9 (as amended). For requests served one after another from the empty cache, as
  long as no build ends the process: every requested path is built exactly once and no
  other path is built; every request returns the entry of the cache for its path, so two
  requests for the same path return the same resource (the null pointer of a rejected
  file included); a request for a cached path returns the cached resource and leaves the
  state as it is, without a build; and no call removes or replaces an entry.
\<close>

theorem BRDFDataFromFile_memoizes:
  assumes run: "sequential_requests P fs empty_cache fns = Inr (rs, st)"
  shows "distinct (created st) \<and> set (created st) = set fns \<and> length rs = length fns
       \<and> (\<forall>i<length fns. loadedData st (fns ! i) = Some (rs ! i))
       \<and> (\<forall>i<length fns. \<forall>j<length fns. fns ! i = fns ! j \<longrightarrow> rs ! i = rs ! j)
       \<and> (\<forall>st0 f r. loadedData st0 f = Some r \<longrightarrow> BRDFDataFromFile P fs st0 f = Inr (r, st0))
       \<and> (\<forall>st0 f r st1 g. BRDFDataFromFile P fs st0 f = Inr (r, st1) \<and> loadedData st0 g \<noteq> None \<longrightarrow>
             loadedData st1 g = loadedData st0 g)"
proof -
  note I = sequential_requests_inv [OF run empty_cache_inv]
  have inv: "cache_inv st" and len: "length rs = length fns"
    and dom: "dom (loadedData st) = set fns"
    and idx: "\<forall>i<length fns. loadedData st (fns ! i) = Some (rs ! i)"
    using I by (simp_all add: empty_cache_def)
  have same: "\<forall>i<length fns. \<forall>j<length fns. fns ! i = fns ! j \<longrightarrow> rs ! i = rs ! j"
  proof (intro allI impI)
    fix i j assume "i < length fns" "j < length fns" "fns ! i = fns ! j"
    then have "Some (rs ! i) = Some (rs ! j)" using idx by metis
    then show "rs ! i = rs ! j" by simp
  qed
  have hit: "\<forall>st0 f r. loadedData st0 f = Some r \<longrightarrow> BRDFDataFromFile P fs st0 f = Inr (r, st0)"
    by (simp add: BRDFDataFromFile_hit)
  have keep: "\<forall>st0 f r st1 g. BRDFDataFromFile P fs st0 f = Inr (r, st1) \<and> loadedData st0 g \<noteq> None \<longrightarrow>
             loadedData st1 g = loadedData st0 g"
    by (auto simp: BRDFDataFromFile_def Let_def split: if_splits sum.splits prod.splits)
  show ?thesis
    using inv len dom idx same hit keep unfolding cache_inv_def by blast
qed

lemma call_steps_are_BRDFDataFromFile:
  "interleaving P fs (st, [At_find f]) [0, 0, 0]
   = map_sum id (\<lambda>(r, st). (st, [Returned r])) (BRDFDataFromFile P fs st f)"
  by (auto simp: call_step_def BRDFDataFromFile_def Let_def split: sum.splits prod.splits option.splits)

lemma only_file_Create:
  "Create flat_interpolants (only_file ''m.bsdf'' measured_file_of_valid_structure) ''m.bsdf''
   = Inr ([], Some (flat_resource ''m.bsdf''))"
  by (rule valid_structure_Create) (simp add: only_file_def)

text \<open>
  The claim as stated, one build also when first requests overlap, fails: the function
  has no lock. Two calls for the same path, stepping in turn, both find the path absent
  and both build; the trace of builds lists the path twice. Served one after the other,
  the same two calls build once.
\<close>

theorem BRDFDataFromFile_overlapping_counterexample:
  "interleaving flat_interpolants (only_file ''m.bsdf'' measured_file_of_valid_structure)
     (empty_cache, [At_find ''m.bsdf'', At_find ''m.bsdf'']) [0, 1, 0, 1, 0, 1]
   = Inr (\<lparr>loadedData = [''m.bsdf'' \<mapsto> Some (flat_resource ''m.bsdf'')],
           created = [''m.bsdf'', ''m.bsdf''], reported = []\<rparr>,
          [Returned (Some (flat_resource ''m.bsdf'')), Returned (Some (flat_resource ''m.bsdf''))])
   \<and> builds (interleaving flat_interpolants (only_file ''m.bsdf'' measured_file_of_valid_structure)
        (empty_cache, [At_find ''m.bsdf'', At_find ''m.bsdf'']) [0, 1, 0, 1, 0, 1])
     = Inr [''m.bsdf'', ''m.bsdf'']
   \<and> builds (interleaving flat_interpolants (only_file ''m.bsdf'' measured_file_of_valid_structure)
        (empty_cache, [At_find ''m.bsdf'', At_find ''m.bsdf'']) [0, 0, 0, 1, 1, 1])
     = Inr [''m.bsdf'']"
  by (simp add: call_step_def only_file_Create empty_cache_def builds_def)

theorem BRDFDataFromFile_memoizes_witness:
  "sequential_requests flat_interpolants (only_file ''m.bsdf'' measured_file_of_valid_structure)
     empty_cache [''m.bsdf'', ''m.bsdf'']
   = Inr ([Some (flat_resource ''m.bsdf''), Some (flat_resource ''m.bsdf'')],
          \<lparr>loadedData = [''m.bsdf'' \<mapsto> Some (flat_resource ''m.bsdf'')],
           created = [''m.bsdf''], reported = []\<rparr>)
   \<and> distinct (created \<lparr>loadedData = [''m.bsdf'' \<mapsto> Some (flat_resource ''m.bsdf'')],
           created = [''m.bsdf''], reported = ([] :: diagnostic list)\<rparr>)
   \<and> BRDFDataFromFile flat_interpolants (only_file ''m.bsdf'' measured_file_of_valid_structure)
        \<lparr>loadedData = [''m.bsdf'' \<mapsto> Some (flat_resource ''m.bsdf'')],
           created = [''m.bsdf''], reported = []\<rparr> ''m.bsdf''
     = Inr (Some (flat_resource ''m.bsdf''),
            \<lparr>loadedData = [''m.bsdf'' \<mapsto> Some (flat_resource ''m.bsdf'')],
             created = [''m.bsdf''], reported = []\<rparr>)"
proof -
  let ?st = "\<lparr>loadedData = [''m.bsdf'' \<mapsto> Some (flat_resource ''m.bsdf'')],
           created = [''m.bsdf''], reported = ([] :: diagnostic list)\<rparr>"
  have run: "sequential_requests flat_interpolants (only_file ''m.bsdf'' measured_file_of_valid_structure)
     empty_cache [''m.bsdf'', ''m.bsdf'']
   = Inr ([Some (flat_resource ''m.bsdf''), Some (flat_resource ''m.bsdf'')], ?st)"
    by (simp add: BRDFDataFromFile_def only_file_Create empty_cache_def)
  note T = BRDFDataFromFile_memoizes [OF run]
  have d: "distinct (created ?st)" using T by (rule conjunct1)
  have "\<forall>st0 f r. loadedData st0 f = Some r \<longrightarrow>
          BRDFDataFromFile flat_interpolants (only_file ''m.bsdf'' measured_file_of_valid_structure) st0 f
          = Inr (r, st0)"
    using T by blast
  from this [rule_format, of ?st "''m.bsdf''" "Some (flat_resource ''m.bsdf'')"]
  have h: "BRDFDataFromFile flat_interpolants (only_file ''m.bsdf'' measured_file_of_valid_structure)
        ?st ''m.bsdf'' = Inr (Some (flat_resource ''m.bsdf''), ?st)"
    by simp
  show ?thesis by (intro conjI) (fact run d h)+
qed

end
